theory Spec2Isabelle
  imports Main
begin

section \<open>Scalar types (package types)\<close>

subsection \<open>Regular expressions\<close>

text \<open>
  The two patterns of the package are compiled with \<^verbatim>\<open>regexp.MustCompile\<close> and
  used through \<^verbatim>\<open>MatchString\<close> only. Both are anchored with \<^verbatim>\<open>^\<close> and \<^verbatim>\<open>$\<close>
  (without the multi-line flag), so \<^verbatim>\<open>MatchString\<close> is a whole-string match. The
  patterns are written as terms of \<open>rexp\<close> and matched with Brzozowski derivatives.
  A Go string is a sequence of bytes, and so is a \<^typ>\<open>string\<close>.
\<close>

datatype rexp =
    Zero
  | Eps
  | Chr char
  | Range char char
  | Alt rexp rexp
  | Seq rexp rexp
  | Star rexp

fun nullable :: "rexp \<Rightarrow> bool" where
  "nullable Zero = False"
| "nullable Eps = True"
| "nullable (Chr c) = False"
| "nullable (Range lo hi) = False"
| "nullable (Alt r s) = (nullable r \<or> nullable s)"
| "nullable (Seq r s) = (nullable r \<and> nullable s)"
| "nullable (Star r) = True"

fun deriv :: "char \<Rightarrow> rexp \<Rightarrow> rexp" where
  "deriv c Zero = Zero"
| "deriv c Eps = Zero"
| "deriv c (Chr d) = (if c = d then Eps else Zero)"
| "deriv c (Range lo hi) =
     (if (of_char lo :: int) \<le> of_char c \<and> (of_char c :: int) \<le> of_char hi then Eps else Zero)"
| "deriv c (Alt r s) = Alt (deriv c r) (deriv c s)"
| "deriv c (Seq r s) =
     (if nullable r then Alt (Seq (deriv c r) s) (deriv c s) else Seq (deriv c r) s)"
| "deriv c (Star r) = Seq (deriv c r) (Star r)"

fun MatchString :: "rexp \<Rightarrow> string \<Rightarrow> bool" where
  "MatchString r [] = nullable r"
| "MatchString r (c # cs) = MatchString (deriv c r) cs"

definition Plus :: "rexp \<Rightarrow> rexp" where
  "Plus r = Seq r (Star r)"

definition Opt :: "rexp \<Rightarrow> rexp" where
  "Opt r = Alt r Eps"

fun Rep :: "nat \<Rightarrow> rexp \<Rightarrow> rexp" where
  "Rep 0 r = Eps"
| "Rep (Suc n) r = Seq r (Rep n r)"

definition digit :: rexp where
  "digit = Range CHR ''0'' CHR ''9''"

definition hexdigit :: rexp where
  "hexdigit = Alt (Range CHR ''0'' CHR ''9'') (Alt (Range CHR ''A'' CHR ''F'') (Range CHR ''a'' CHR ''f''))"

subsection \<open>Errors of the constructors\<close>

text \<open>
  Errors are built with \<^verbatim>\<open>fmt.Errorf\<close>. An error value is kept as the format string
  and its arguments; the text is not rendered.
\<close>

datatype go_error = Errorf string "string list"

subsection \<open>Decimal\<close>

type_synonym Decimal = string

text \<open>\<^verbatim>\<open>^-?(\d+\.?\d*|\d*\.?\d+)$\<close>\<close>

definition decimalPattern :: rexp where
  "decimalPattern =
     Seq (Opt (Chr CHR ''-''))
       (Alt (Seq (Plus digit) (Seq (Opt (Chr CHR ''.'')) (Star digit)))
            (Seq (Star digit) (Seq (Opt (Chr CHR ''.'')) (Plus digit))))"

definition NewDecimal :: "string \<Rightarrow> go_error + Decimal" where
  "NewDecimal s = (if \<not> MatchString decimalPattern s then Inl (Errorf ''invalid decimal format: %q'' [s]) else Inr s)"

definition Decimal_String :: "Decimal \<Rightarrow> string" where
  "Decimal_String d = d"

definition Decimal_IsZero :: "Decimal \<Rightarrow> bool" where
  "Decimal_IsZero d = (d = [])"

subsection \<open>float64\<close>

text \<open>
  \<^verbatim>\<open>Decimal.Float64\<close> and the batch-quantity check compute with Go's \<^verbatim>\<open>float64\<close>.
  A finite double is \<open>m * 2 ^ e\<close> for integers \<open>m\<close> and \<open>e\<close>; \<open>Finite m e\<close> keeps
  it in the canonical form where \<open>m\<close> is odd, or \<open>m = 0\<close> and \<open>e = 0\<close>. Every operation
  computes the exact rational result \<open>n / d\<close> and rounds it to the nearest double
  (53-bit significand, least exponent \<open>-1074\<close>, ties to even, overflow to infinity),
  as IEEE 754 arithmetic and \<^verbatim>\<open>strconv.ParseFloat\<close> do. The sign of zero is not kept:
  no comparison depends on it.
\<close>

datatype float64 = Finite int int | PosInf | NegInf | NaN

function bitlen :: "int \<Rightarrow> int" where
  \<comment> \<open>the number of binary digits of a positive integer\<close>
  "bitlen n = (if n \<le> 0 then 0 else 1 + bitlen (n div 2))"
  by pat_completeness auto
termination
  by (relation "measure (\<lambda>n. nat n)") auto

declare bitlen.simps [simp del]

function pow2 :: "int \<Rightarrow> int" where
  "pow2 k = (if k \<le> 0 then 1 else 2 * pow2 (k - 1))"
  by pat_completeness auto
termination
  by (relation "measure (\<lambda>k. nat k)") auto

declare pow2.simps [simp del]

function normalise :: "int \<Rightarrow> int \<Rightarrow> int \<times> int" where
  "normalise m e =
     (if m = 0 then (0, 0) else if even m then normalise (m div 2) (e + 1) else (m, e))"
  by pat_completeness auto
termination
  by (relation "measure (\<lambda>(m, e). nat \<bar>m\<bar>)") auto

declare normalise.simps [simp del]

definition round_half_even :: "int \<Rightarrow> int \<Rightarrow> int" where
  \<comment> \<open>the integer nearest to \<open>n / d\<close>, ties to the even one; \<open>0 \<le> n\<close> and \<open>0 < d\<close>\<close>
  "round_half_even n d =
     (let q = n div d; r = n mod d
      in if 2 * r < d then q else if d < 2 * r then q + 1 else if even q then q else q + 1)"

definition floor_log2 :: "int \<Rightarrow> int \<Rightarrow> int" where
  \<comment> \<open>the \<open>l\<close> with \<open>2 ^ l \<le> n / d < 2 ^ (l + 1)\<close>; \<open>0 < n\<close> and \<open>0 < d\<close>\<close>
  "floor_log2 n d =
     (let l0 = bitlen n - bitlen d
      in if (if 0 \<le> l0 then d * pow2 l0 \<le> n else d \<le> n * pow2 (- l0)) then l0 else l0 - 1)"

definition round_f64 :: "bool \<Rightarrow> int \<Rightarrow> int \<Rightarrow> float64" where
  \<comment> \<open>the double nearest to \<open>n / d\<close>, negated when the flag is set; \<open>0 \<le> n\<close> and \<open>0 < d\<close>\<close>
  "round_f64 neg n d =
     (if n = 0 then Finite 0 0
      else
        let e = max (floor_log2 n d - 52) (- 1074);
            m = (if 0 \<le> e then round_half_even n (d * pow2 e)
                 else round_half_even (n * pow2 (- e)) d)
        in if 1024 < bitlen m + e then (if neg then NegInf else PosInf)
           else (case normalise m e of (m', e') \<Rightarrow> Finite (if neg then - m' else m') e'))"

fun f64_add :: "float64 \<Rightarrow> float64 \<Rightarrow> float64" where
  "f64_add (Finite m1 e1) (Finite m2 e2) =
     (let e = min e1 e2;
          s = m1 * pow2 (e1 - e) + m2 * pow2 (e2 - e)
      in if 0 \<le> e then round_f64 (s < 0) (\<bar>s\<bar> * pow2 e) 1
         else round_f64 (s < 0) \<bar>s\<bar> (pow2 (- e)))"
| "f64_add NaN y = NaN"
| "f64_add x NaN = NaN"
| "f64_add PosInf NegInf = NaN"
| "f64_add NegInf PosInf = NaN"
| "f64_add PosInf y = PosInf"
| "f64_add NegInf y = NegInf"
| "f64_add x PosInf = PosInf"
| "f64_add x NegInf = NegInf"

fun f64_neg :: "float64 \<Rightarrow> float64" where
  "f64_neg (Finite m e) = Finite (- m) e"
| "f64_neg PosInf = NegInf"
| "f64_neg NegInf = PosInf"
| "f64_neg NaN = NaN"

definition f64_sub :: "float64 \<Rightarrow> float64 \<Rightarrow> float64" where
  "f64_sub x y = f64_add x (f64_neg y)"

fun f64_less :: "float64 \<Rightarrow> float64 \<Rightarrow> bool" where
  "f64_less (Finite m1 e1) (Finite m2 e2) =
     (let e = min e1 e2 in m1 * pow2 (e1 - e) < m2 * pow2 (e2 - e))"
| "f64_less NaN y = False"
| "f64_less x NaN = False"
| "f64_less PosInf y = False"
| "f64_less x NegInf = False"
| "f64_less x PosInf = True"
| "f64_less NegInf y = True"

definition f64_eq :: "float64 \<Rightarrow> float64 \<Rightarrow> bool" where
  \<comment> \<open>Go's \<^verbatim>\<open>==\<close> on float64: a NaN equals nothing\<close>
  "f64_eq x y = (x \<noteq> NaN \<and> y \<noteq> NaN \<and> x = y)"

subsection \<open>Decimal.Float64 and Decimal.Equal\<close>

text \<open>
  \<^verbatim>\<open>strconv.ParseFloat(s, 64)\<close>, after \<^verbatim>\<open>atof.go\<close> of the library. \<open>special\<close> reads
  \<^verbatim>\<open>inf\<close> and \<^verbatim>\<open>infinity\<close>, with a sign or without, and \<^verbatim>\<open>nan\<close>, in any case of the
  letters, and returns the number of bytes it has read. \<open>readFloat\<close> reads a sign, the
  prefix \<^verbatim>\<open>0x\<close> of a hexadecimal mantissa, the digits of the mantissa with at most one
  point, and an exponent: of ten after \<^verbatim>\<open>e\<close>, of two after \<^verbatim>\<open>p\<close>, which a
  hexadecimal mantissa must have. Underscores may separate digits, as \<open>underscoreOK\<close>
  says. The exponent stops growing at 10000. \<open>ParseFloat\<close> fails with a syntax error
  unless the whole string has been read.

  The library's \<open>readFloat\<close> keeps the first 19 digits of the mantissa (16 when
  hexadecimal) and a flag for the rest, and the conversions that follow it return the
  double nearest to the number written, ties to even, whatever the number of digits.
  Here \<open>readFloat\<close> keeps all digits of the mantissa and returns the exponent of the base
  that goes with them, and the rest of the string. A value that rounds to infinity is
  returned with a range error.
\<close>

definition is_digit :: "char \<Rightarrow> bool" where
  "is_digit c = ((48::int) \<le> of_char c \<and> (of_char c :: int) \<le> 57)"

definition digit_val :: "char \<Rightarrow> int" where
  "digit_val c = of_char c - 48"

fun atoi_digits :: "int \<Rightarrow> string \<Rightarrow> int" where
  "atoi_digits acc [] = acc"
| "atoi_digits acc (c # cs) = atoi_digits (10 * acc + digit_val c) cs"

definition to_lower :: "char \<Rightarrow> char" where
  "to_lower c =
     (if (65::int) \<le> of_char c \<and> (of_char c :: int) \<le> 90 then char_of (of_char c + (32::int)) else c)"

definition commonPrefixLenIgnoreCase :: "string \<Rightarrow> string \<Rightarrow> nat" where
  "commonPrefixLenIgnoreCase s prefix = length (takeWhile (\<lambda>(c, p). to_lower c = p) (zip s prefix))"

definition special :: "string \<Rightarrow> (float64 \<times> nat) option" where
  "special s =
     (if s = [] then None
      else if hd s = CHR ''+'' \<or> hd s = CHR ''-'' \<or> hd s = CHR ''i'' \<or> hd s = CHR ''I'' then
        (let nsign = (if hd s = CHR ''+'' \<or> hd s = CHR ''-'' then 1 else 0);
             n0 = commonPrefixLenIgnoreCase (drop nsign s) ''infinity'';
             n = (if 3 < n0 \<and> n0 < 8 then 3 else n0)
         in if n = 3 \<or> n = 8
            then Some (if hd s = CHR ''-'' then NegInf else PosInf, nsign + n)
            else None)
      else if hd s = CHR ''n'' \<or> hd s = CHR ''N'' then
        (if commonPrefixLenIgnoreCase s ''nan'' = 3 then Some (NaN, 3) else None)
      else None)"

definition is_hex_letter :: "char \<Rightarrow> bool" where
  "is_hex_letter c = ((97::int) \<le> of_char (to_lower c) \<and> (of_char (to_lower c) :: int) \<le> 102)"

definition hex_val :: "char \<Rightarrow> int" where
  "hex_val c = of_char (to_lower c) - 97 + 10"

fun read_digits ::
  "bool \<Rightarrow> string \<Rightarrow> int \<Rightarrow> nat \<Rightarrow> bool \<Rightarrow> bool \<Rightarrow> bool \<Rightarrow> int \<times> nat \<times> bool \<times> bool \<times> string" where
  "read_digits hex [] mantissa frac sawdot sawdigits underscores =
     (mantissa, frac, sawdigits, underscores, [])"
| "read_digits hex (c # cs) mantissa frac sawdot sawdigits underscores =
     (if c = CHR ''_'' then read_digits hex cs mantissa frac sawdot sawdigits True
      else if c = CHR ''.'' then
        (if sawdot then (mantissa, frac, sawdigits, underscores, c # cs)
         else read_digits hex cs mantissa frac True sawdigits underscores)
      else if is_digit c then
        read_digits hex cs ((if hex then 16 else 10) * mantissa + digit_val c)
          (if sawdot then frac + 1 else frac) sawdot True underscores
      else if hex \<and> is_hex_letter c then
        read_digits hex cs (16 * mantissa + hex_val c)
          (if sawdot then frac + 1 else frac) sawdot True underscores
      else (mantissa, frac, sawdigits, underscores, c # cs))"

fun read_exponent :: "string \<Rightarrow> int \<Rightarrow> bool \<Rightarrow> int \<times> bool \<times> string" where
  "read_exponent [] e underscores = (e, underscores, [])"
| "read_exponent (c # cs) e underscores =
     (if c = CHR ''_'' then read_exponent cs e True
      else if is_digit c then
        read_exponent cs (if e < 10000 then e * 10 + digit_val c else e) underscores
      else (e, underscores, c # cs))"

datatype saw = AtStart | SawDigit | SawUnderscore | SawOther

fun underscore_scan :: "bool \<Rightarrow> saw \<Rightarrow> string \<Rightarrow> bool" where
  "underscore_scan hex sw [] = (sw \<noteq> SawUnderscore)"
| "underscore_scan hex sw (c # cs) =
     (if is_digit c \<or> (hex \<and> is_hex_letter c) then underscore_scan hex SawDigit cs
      else if c = CHR ''_'' then (if sw \<noteq> SawDigit then False else underscore_scan hex SawUnderscore cs)
      else if sw = SawUnderscore then False
      else underscore_scan hex SawOther cs)"

definition underscoreOK :: "string \<Rightarrow> bool" where
  "underscoreOK s =
     (let s1 = (if s \<noteq> [] \<and> (hd s = CHR ''-'' \<or> hd s = CHR ''+'') then tl s else s);
          prefixed = (2 \<le> length s1 \<and> hd s1 = CHR ''0''
                      \<and> to_lower (s1 ! 1) \<in> {CHR ''b'', CHR ''o'', CHR ''x''})
      in if prefixed then underscore_scan (to_lower (s1 ! 1) = CHR ''x'') SawDigit (drop 2 s1)
         else underscore_scan False AtStart s1)"

definition readFloat :: "string \<Rightarrow> (bool \<times> bool \<times> int \<times> int \<times> string) option" where
  "readFloat s =
     (if s = [] then None
      else
        let neg = (hd s = CHR ''-'');
            s1 = (if hd s = CHR ''+'' \<or> hd s = CHR ''-'' then tl s else s);
            hex = (2 < length s1 \<and> hd s1 = CHR ''0'' \<and> to_lower (s1 ! 1) = CHR ''x'')
        in (case read_digits hex (if hex then drop 2 s1 else s1) 0 0 False False False of
              (mantissa, frac, sawdigits, us1, r) \<Rightarrow>
                if \<not> sawdigits then None
                else if r \<noteq> [] \<and> to_lower (hd r) = (if hex then CHR ''p'' else CHR ''e'') then
                  (let esign = (if tl r \<noteq> [] \<and> hd (tl r) = CHR ''-'' then - 1 else 1);
                       r2 = (if tl r \<noteq> [] \<and> (hd (tl r) = CHR ''+'' \<or> hd (tl r) = CHR ''-'')
                             then tl (tl r) else tl r)
                   in if r2 = [] \<or> \<not> is_digit (hd r2) then None
                      else (case read_exponent r2 0 us1 of
                              (e, us2, r3) \<Rightarrow>
                                if us2 \<and> \<not> underscoreOK (take (length s - length r3) s) then None
                                else Some (neg, hex, mantissa,
                                           e * esign - (if hex then 4 else 1) * int frac, r3)))
                else if hex then None
                else if us1 \<and> \<not> underscoreOK (take (length s - length r) s) then None
                else Some (neg, hex, mantissa, - int frac, r)))"

datatype parse_error = ErrSyntax | ErrRange

definition ParseFloat :: "string \<Rightarrow> parse_error + float64" where
  "ParseFloat s =
     (case special s of
        Some (f, n) \<Rightarrow> if n \<noteq> length s then Inl ErrSyntax else Inr f
      | None \<Rightarrow>
          (case readFloat s of
             None \<Rightarrow> Inl ErrSyntax
           | Some (neg, hex, mantissa, ex, rest) \<Rightarrow>
               if rest \<noteq> [] then Inl ErrSyntax
               else (case (if 0 \<le> ex
                           then round_f64 neg (mantissa * (if hex then 2 else 10) ^ nat ex) 1
                           else round_f64 neg mantissa ((if hex then 2 else 10) ^ nat (- ex))) of
                       PosInf \<Rightarrow> Inl ErrRange
                     | NegInf \<Rightarrow> Inl ErrRange
                     | f \<Rightarrow> Inr f)))"

definition Decimal_Float64 :: "Decimal \<Rightarrow> float64" where
  "Decimal_Float64 d =
     (if d = [] then Finite 0 0
      else (case ParseFloat d of Inl err \<Rightarrow> Finite 0 0 | Inr f \<Rightarrow> f))"

definition Decimal_Equal :: "Decimal \<Rightarrow> Decimal \<Rightarrow> bool" where
  "Decimal_Equal d other = f64_eq (Decimal_Float64 d) (Decimal_Float64 other)"

definition MustDecimal :: "string \<Rightarrow> Decimal option" where
  \<comment> \<open>\<open>None\<close> is the panic\<close>
  "MustDecimal s = (case NewDecimal s of Inl err \<Rightarrow> None | Inr d \<Rightarrow> Some d)"

subsection \<open>Decimal rendering of integers\<close>

text \<open>\<^verbatim>\<open>fmt.Sprintf("%d", n)\<close> and zero-padded fields of a fixed width.\<close>

definition digit_char :: "nat \<Rightarrow> char" where
  "digit_char d = char_of (48 + int d)"

function itoa_nat :: "nat \<Rightarrow> string" where
  "itoa_nat n = (if n < 10 then [digit_char n] else itoa_nat (n div 10) @ [digit_char (n mod 10)])"
  by pat_completeness auto
termination
  by (relation "measure (\<lambda>n. n)") auto

declare itoa_nat.simps [simp del]

definition itoa :: "int \<Rightarrow> string" where
  "itoa i = (if i < 0 then CHR ''-'' # itoa_nat (nat (- i)) else itoa_nat (nat i))"

definition pad_left :: "nat \<Rightarrow> string \<Rightarrow> string" where
  "pad_left w s = replicate (w - length s) CHR ''0'' @ s"

subsection \<open>Date\<close>

text \<open>
  \<^verbatim>\<open>Date\<close> wraps a \<^verbatim>\<open>time.Time\<close>. \<^verbatim>\<open>NewDate\<close> and \<^verbatim>\<open>ParseDate\<close> only build
  midnight UTC of a calendar day, so a date is its year, month and day. The zero
  \<^verbatim>\<open>time.Time\<close> is midnight UTC of January 1 of year 1.
\<close>

record Date =
  Year :: int
  Month :: nat
  Day :: nat

definition Date_zero :: Date where
  "Date_zero = \<lparr>Year = 1, Month = 1, Day = 1\<rparr>"

definition Date_IsZero :: "Date \<Rightarrow> bool" where
  "Date_IsZero d = (d = Date_zero)"

definition isLeap :: "int \<Rightarrow> bool" where
  "isLeap y = (y mod 4 = 0 \<and> (y mod 100 \<noteq> 0 \<or> y mod 400 = 0))"

definition daysIn :: "nat \<Rightarrow> int \<Rightarrow> nat" where
  "daysIn m y =
     (if m = 2 then (if isLeap y then 29 else 28)
      else if m = 4 \<or> m = 6 \<or> m = 9 \<or> m = 11 then 30 else 31)"

text \<open>
  \<^verbatim>\<open>time.Parse("2006-01-02", s)\<close>: four digits of year, a hyphen, two digits of month
  in 1..12, a hyphen, two digits of day valid in that month, and nothing after.
\<close>

definition time_Parse_DateFormat :: "string \<Rightarrow> Date option" where
  "time_Parse_DateFormat s =
     (if length s = 10 \<and> list_all is_digit (take 4 s) \<and> s ! 4 = CHR ''-''
         \<and> list_all is_digit (take 2 (drop 5 s)) \<and> s ! 7 = CHR ''-''
         \<and> list_all is_digit (drop 8 s)
      then
        let y = atoi_digits 0 (take 4 s);
            m = nat (atoi_digits 0 (take 2 (drop 5 s)));
            d = nat (atoi_digits 0 (drop 8 s))
        in if 1 \<le> m \<and> m \<le> 12 \<and> 1 \<le> d \<and> d \<le> daysIn m y
           then Some \<lparr>Year = y, Month = m, Day = d\<rparr> else None
      else None)"

definition ParseDate :: "string \<Rightarrow> go_error + Date" where
  "ParseDate s =
     (if s = [] then Inr Date_zero
      else (case time_Parse_DateFormat s of
              None \<Rightarrow> Inl (Errorf ''invalid date format %q: expected YYYY-MM-DD'' [s])
            | Some t \<Rightarrow> Inr t))"

definition Date_String :: "Date \<Rightarrow> string" where
  "Date_String d =
     (if Date_IsZero d then []
      else pad_left 4 (itoa (Year d)) @ ''-'' @ pad_left 2 (itoa_nat (Month d)) @ ''-''
           @ pad_left 2 (itoa_nat (Day d)))"

subsection \<open>Bool\<close>

definition invalid_boolean :: string where
  \<comment> \<open>the format string \<^verbatim>\<open>invalid boolean %q: must be 'true' or 'false'\<close>\<close>
  "invalid_boolean =
     ''invalid boolean %q: must be '' @ [CHR 0x27] @ ''true'' @ [CHR 0x27] @ '' or '' @ [CHR 0x27]
     @ ''false'' @ [CHR 0x27]"

definition ParseBool :: "string \<Rightarrow> go_error + bool" where
  "ParseBool s =
     (if s = ''true'' then Inr True
      else if s = ''false'' then Inr False
      else if s = [] then Inr False
      else Inl (Errorf invalid_boolean [s]))"

definition Bool_String :: "bool \<Rightarrow> string" where
  "Bool_String b = (if b then ''true'' else ''false'')"

subsection \<open>UUID\<close>

type_synonym UUID = string

text \<open>
  \<^verbatim>\<open>^[0-9A-Fa-f]{8}-[0-9A-Fa-f]{4}-[0-9A-Fa-f]{4}-[0-9A-Fa-f]{4}-[0-9A-Fa-f]{12}$\<close>
\<close>

definition uuidPattern :: rexp where
  "uuidPattern =
     Seq (Rep 8 hexdigit) (Seq (Chr CHR ''-'')
    (Seq (Rep 4 hexdigit) (Seq (Chr CHR ''-'')
    (Seq (Rep 4 hexdigit) (Seq (Chr CHR ''-'')
    (Seq (Rep 4 hexdigit) (Seq (Chr CHR ''-'')
    (Rep 12 hexdigit))))))))"

text \<open>
  \<^verbatim>\<open>strings.TrimSpace\<close> removes leading and trailing white space as Unicode defines
  it. \<open>spaces\<close> lists the UTF-8 encodings of the white-space code points: the six
  of ASCII, U+0085, U+00A0, U+1680, U+2000 to U+200A, U+2028, U+2029, U+202F, U+205F and
  U+3000.
\<close>

definition spaces :: "string list" where
  "spaces =
     [[CHR 0x09], [CHR 0x0A], [CHR 0x0B], [CHR 0x0C], [CHR 0x0D], [CHR 0x20],
      [CHR 0xC2, CHR 0x85], [CHR 0xC2, CHR 0xA0], [CHR 0xE1, CHR 0x9A, CHR 0x80],
      [CHR 0xE2, CHR 0x80, CHR 0x80], [CHR 0xE2, CHR 0x80, CHR 0x81],
      [CHR 0xE2, CHR 0x80, CHR 0x82], [CHR 0xE2, CHR 0x80, CHR 0x83],
      [CHR 0xE2, CHR 0x80, CHR 0x84], [CHR 0xE2, CHR 0x80, CHR 0x85],
      [CHR 0xE2, CHR 0x80, CHR 0x86], [CHR 0xE2, CHR 0x80, CHR 0x87],
      [CHR 0xE2, CHR 0x80, CHR 0x88], [CHR 0xE2, CHR 0x80, CHR 0x89],
      [CHR 0xE2, CHR 0x80, CHR 0x8A], [CHR 0xE2, CHR 0x80, CHR 0xA8],
      [CHR 0xE2, CHR 0x80, CHR 0xA9], [CHR 0xE2, CHR 0x80, CHR 0xAF],
      [CHR 0xE2, CHR 0x81, CHR 0x9F], [CHR 0xE3, CHR 0x80, CHR 0x80]]"

definition is_prefix :: "string \<Rightarrow> string \<Rightarrow> bool" where
  "is_prefix p s = (take (length p) s = p)"

definition space_len :: "string list \<Rightarrow> string \<Rightarrow> nat" where
  \<comment> \<open>the length of the encoding from \<open>sp\<close> that the string starts with, or 0\<close>
  "space_len sp s = (case find (\<lambda>p. is_prefix p s) sp of None \<Rightarrow> 0 | Some p \<Rightarrow> length p)"

function trim_with :: "string list \<Rightarrow> string \<Rightarrow> string" where
  "trim_with sp s =
     (if space_len sp s = 0 \<or> s = [] then s else trim_with sp (drop (space_len sp s) s))"
  by pat_completeness auto
termination
  by (relation "measure (\<lambda>(sp, s). length s)") auto

declare trim_with.simps [simp del]

definition TrimSpace :: "string \<Rightarrow> string" where
  "TrimSpace s = rev (trim_with (map rev spaces) (rev (trim_with spaces s)))"

definition NewUUID :: "string \<Rightarrow> go_error + UUID" where
  "NewUUID s0 =
     (let s = TrimSpace s0
      in if s = [] then Inr []
         else if \<not> MatchString uuidPattern s then Inl (Errorf ''invalid UUID format: %q'' [s])
         else Inr s)"

definition UUID_String :: "UUID \<Rightarrow> string" where
  "UUID_String u = u"

definition UUID_IsZero :: "UUID \<Rightarrow> bool" where
  "UUID_IsZero u = (u = [])"

section \<open>Document model (package schema)\<close>

text \<open>
  One record for each struct of the package, with the fields in the order of their
  declaration. A pointer is an \<open>option\<close> (\<open>None\<close> is \<^verbatim>\<open>nil\<close>), a slice is a list
  (a \<^verbatim>\<open>nil\<close> slice and an empty one are both \<open>[]\<close>: the code only takes their length
  and ranges over them), \<^verbatim>\<open>[]byte\<close> is a string. \<open>T_zero\<close> is the zero value of
  the struct \<open>T\<close>. Fields of different structs share names, so a field is written
  with its record: \<open>Invoice.ID inv\<close>.
\<close>

record xml_Name =
  Space :: string
  Local :: string

definition xml_Name_zero :: xml_Name where
  "xml_Name_zero = \<lparr>Space = [], Local = []\<rparr>"

record EgovClassifier =
  Value :: string

definition EgovClassifier_zero :: EgovClassifier where
  "EgovClassifier_zero = \<lparr>EgovClassifier.Value = []\<rparr>"

record EgovClassifiers =
  EgovClassifier :: "EgovClassifier list"

definition EgovClassifiers_zero :: EgovClassifiers where
  "EgovClassifiers_zero = \<lparr>EgovClassifiers.EgovClassifier = []\<rparr>"

record Note =
  Value :: string
  LanguageID :: string

definition Note_zero :: Note where
  "Note_zero = \<lparr>Note.Value = [], Note.LanguageID = []\<rparr>"

record Extensions =
  Raw :: string

definition Extensions_zero :: Extensions where
  "Extensions_zero = \<lparr>Extensions.Raw = []\<rparr>"

record PartyIdentification =
  UserID :: string
  CatalogFirmIdentification :: string
  ID :: string

definition PartyIdentification_zero :: PartyIdentification where
  "PartyIdentification_zero = \<lparr>PartyIdentification.UserID = [],
     PartyIdentification.CatalogFirmIdentification = [], PartyIdentification.ID = []\<rparr>"

record PartyName =
  Name :: string

definition PartyName_zero :: PartyName where
  "PartyName_zero = \<lparr>PartyName.Name = []\<rparr>"

record Country =
  IdentificationCode :: string
  Name :: string

definition Country_zero :: Country where
  "Country_zero = \<lparr>Country.IdentificationCode = [], Country.Name = []\<rparr>"

record PostalAddress =
  StreetName :: string
  BuildingNumber :: string
  CityName :: string
  PostalZone :: string
  Country :: Country

definition PostalAddress_zero :: PostalAddress where
  "PostalAddress_zero = \<lparr>PostalAddress.StreetName = [], PostalAddress.BuildingNumber = [],
     PostalAddress.CityName = [], PostalAddress.PostalZone = [],
     PostalAddress.Country = Country_zero\<rparr>"

record PartyTaxScheme =
  CompanyID :: string
  TaxScheme :: string

definition PartyTaxScheme_zero :: PartyTaxScheme where
  "PartyTaxScheme_zero = \<lparr>PartyTaxScheme.CompanyID = [],
     PartyTaxScheme.TaxScheme = []\<rparr>"

record RegisterIdentification =
  Preformatted :: string
  RegisterKeptAt :: string
  RegisterFileRef :: string
  RegisterDate :: Date

definition RegisterIdentification_zero :: RegisterIdentification where
  "RegisterIdentification_zero = \<lparr>RegisterIdentification.Preformatted = [],
     RegisterIdentification.RegisterKeptAt = [], RegisterIdentification.RegisterFileRef = [],
     RegisterIdentification.RegisterDate = Date_zero\<rparr>"

record Contact =
  Name :: string
  Telephone :: string
  ElectronicMail :: string

definition Contact_zero :: Contact where
  "Contact_zero = \<lparr>Contact.Name = [], Contact.Telephone = [],
     Contact.ElectronicMail = []\<rparr>"

record Party =
  PartyIdentification :: PartyIdentification
  PartyName :: PartyName
  PostalAddress :: PostalAddress
  PartyTaxScheme :: "PartyTaxScheme list"
  RegisterIdentification :: "RegisterIdentification option"
  Contact :: "Contact option"

definition Party_zero :: Party where
  "Party_zero = \<lparr>Party.PartyIdentification = PartyIdentification_zero,
     Party.PartyName = PartyName_zero, Party.PostalAddress = PostalAddress_zero,
     Party.PartyTaxScheme = [], Party.RegisterIdentification = None, Party.Contact = None\<rparr>"

record AccountingSupplierParty =
  Party :: Party

definition AccountingSupplierParty_zero :: AccountingSupplierParty where
  "AccountingSupplierParty_zero = \<lparr>AccountingSupplierParty.Party = Party_zero\<rparr>"

record SellerSupplierParty =
  Party :: Party

definition SellerSupplierParty_zero :: SellerSupplierParty where
  "SellerSupplierParty_zero = \<lparr>SellerSupplierParty.Party = Party_zero\<rparr>"

record AnonymousCustomerParty =
  ID :: string
  IDScheme :: string

definition AnonymousCustomerParty_zero :: AnonymousCustomerParty where
  "AnonymousCustomerParty_zero = \<lparr>AnonymousCustomerParty.ID = [],
     AnonymousCustomerParty.IDScheme = []\<rparr>"

record AccountingCustomerParty =
  Party :: Party

definition AccountingCustomerParty_zero :: AccountingCustomerParty where
  "AccountingCustomerParty_zero = \<lparr>AccountingCustomerParty.Party = Party_zero\<rparr>"

record BuyerCustomerParty =
  Party :: Party

definition BuyerCustomerParty_zero :: BuyerCustomerParty where
  "BuyerCustomerParty_zero = \<lparr>BuyerCustomerParty.Party = Party_zero\<rparr>"

record OrderReference =
  ID :: string
  SalesOrderID :: string
  ExternalOrderID :: string
  IssueDate :: Date
  ExternalOrderIssueDate :: Date
  UUID :: UUID
  ISDS_ID :: string
  FileReference :: string
  ReferenceNumber :: string

definition OrderReference_zero :: OrderReference where
  "OrderReference_zero = \<lparr>OrderReference.ID = [], OrderReference.SalesOrderID = [],
     OrderReference.ExternalOrderID = [], OrderReference.IssueDate = Date_zero,
     OrderReference.ExternalOrderIssueDate = Date_zero, OrderReference.UUID = [],
     OrderReference.ISDS_ID = [], OrderReference.FileReference = [],
     OrderReference.ReferenceNumber = []\<rparr>"

record OrderReferences =
  OrderReference :: "OrderReference list"

definition OrderReferences_zero :: OrderReferences where
  "OrderReferences_zero = \<lparr>OrderReferences.OrderReference = []\<rparr>"

record DeliveryNoteReference =
  ID :: string
  DeliveryNoteID :: string
  IssueDate :: Date
  UUID :: UUID

definition DeliveryNoteReference_zero :: DeliveryNoteReference where
  "DeliveryNoteReference_zero = \<lparr>DeliveryNoteReference.ID = [],
     DeliveryNoteReference.DeliveryNoteID = [], DeliveryNoteReference.IssueDate = Date_zero,
     DeliveryNoteReference.UUID = []\<rparr>"

record DeliveryNoteReferences =
  DeliveryNoteReference :: "DeliveryNoteReference list"

definition DeliveryNoteReferences_zero :: DeliveryNoteReferences where
  "DeliveryNoteReferences_zero = \<lparr>
     DeliveryNoteReferences.DeliveryNoteReference = []\<rparr>"

record OriginalDocumentReference =
  ID :: string
  OriginalDocumentID :: string
  IssueDate :: Date
  UUID :: UUID

definition OriginalDocumentReference_zero :: OriginalDocumentReference where
  "OriginalDocumentReference_zero = \<lparr>OriginalDocumentReference.ID = [],
     OriginalDocumentReference.OriginalDocumentID = [],
     OriginalDocumentReference.IssueDate = Date_zero, OriginalDocumentReference.UUID = []\<rparr>"

record OriginalDocumentReferences =
  OriginalDocumentReference :: "OriginalDocumentReference list"

definition OriginalDocumentReferences_zero :: OriginalDocumentReferences where
  "OriginalDocumentReferences_zero = \<lparr>
     OriginalDocumentReferences.OriginalDocumentReference = []\<rparr>"

record ContractReference =
  ID :: string
  ContractID :: string
  UUID :: UUID
  IssueDate :: Date
  LastValidDate :: Date
  LastValidDateUnbounded :: bool
  ISDS_ID :: string
  FileReference :: string
  ReferenceNumber :: string

definition ContractReference_zero :: ContractReference where
  "ContractReference_zero = \<lparr>ContractReference.ID = [], ContractReference.ContractID = [],
     ContractReference.UUID = [], ContractReference.IssueDate = Date_zero,
     ContractReference.LastValidDate = Date_zero,
     ContractReference.LastValidDateUnbounded = False, ContractReference.ISDS_ID = [],
     ContractReference.FileReference = [], ContractReference.ReferenceNumber = []\<rparr>"

record ContractReferences =
  ContractReference :: "ContractReference list"

definition ContractReferences_zero :: ContractReferences where
  "ContractReferences_zero = \<lparr>ContractReferences.ContractReference = []\<rparr>"

record Delivery =
  Party :: Party

definition Delivery_zero :: Delivery where
  "Delivery_zero = \<lparr>Delivery.Party = Party_zero\<rparr>"

record OrderLineReference =
  Ref :: string
  LineID :: string

definition OrderLineReference_zero :: OrderLineReference where
  "OrderLineReference_zero = \<lparr>OrderLineReference.Ref = [],
     OrderLineReference.LineID = []\<rparr>"

record DeliveryNoteLineReference =
  Ref :: string
  LineID :: string

definition DeliveryNoteLineReference_zero :: DeliveryNoteLineReference where
  "DeliveryNoteLineReference_zero = \<lparr>DeliveryNoteLineReference.Ref = [],
     DeliveryNoteLineReference.LineID = []\<rparr>"

record OriginalDocumentLineReference =
  Ref :: string
  LineID :: string

definition OriginalDocumentLineReference_zero :: OriginalDocumentLineReference where
  "OriginalDocumentLineReference_zero = \<lparr>OriginalDocumentLineReference.Ref = [],
     OriginalDocumentLineReference.LineID = []\<rparr>"

record ContractLineReference =
  Ref :: string
  ParagraphID :: string

definition ContractLineReference_zero :: ContractLineReference where
  "ContractLineReference_zero = \<lparr>ContractLineReference.Ref = [],
     ContractLineReference.ParagraphID = []\<rparr>"

record Quantity =
  Value :: Decimal
  UnitCode :: string

definition Quantity_zero :: Quantity where
  "Quantity_zero = \<lparr>Quantity.Value = [], Quantity.UnitCode = []\<rparr>"

record LocalReverseCharge =
  LocalReverseChargeCode :: string
  LocalReverseChargeQuantity :: Decimal

definition LocalReverseCharge_zero :: LocalReverseCharge where
  "LocalReverseCharge_zero = \<lparr>LocalReverseCharge.LocalReverseChargeCode = [],
     LocalReverseCharge.LocalReverseChargeQuantity = []\<rparr>"

record ClassifiedTaxCategory =
  Percent :: Decimal
  VATCalculationMethod :: int
  VATApplicable :: bool
  LocalReverseCharge :: "LocalReverseCharge option"

definition ClassifiedTaxCategory_zero :: ClassifiedTaxCategory where
  "ClassifiedTaxCategory_zero = \<lparr>ClassifiedTaxCategory.Percent = [],
     ClassifiedTaxCategory.VATCalculationMethod = 0, ClassifiedTaxCategory.VATApplicable = False,
     ClassifiedTaxCategory.LocalReverseCharge = None\<rparr>"

record ItemIdentification =
  ID :: string

definition ItemIdentification_zero :: ItemIdentification where
  "ItemIdentification_zero = \<lparr>ItemIdentification.ID = []\<rparr>"

record StoreBatch =
  Name :: string
  Note :: string
  ExpirationDate :: Date
  Specification :: string
  Quantity :: Quantity
  BatchOrSerialNumber :: string
  SealSeriesID :: string

definition StoreBatch_zero :: StoreBatch where
  "StoreBatch_zero = \<lparr>StoreBatch.Name = [], StoreBatch.Note = [],
     StoreBatch.ExpirationDate = Date_zero, StoreBatch.Specification = [],
     StoreBatch.Quantity = Quantity_zero, StoreBatch.BatchOrSerialNumber = [],
     StoreBatch.SealSeriesID = []\<rparr>"

record StoreBatches =
  StoreBatch :: "StoreBatch list"

definition StoreBatches_zero :: StoreBatches where
  "StoreBatches_zero = \<lparr>StoreBatches.StoreBatch = []\<rparr>"

record Item =
  Description :: string
  CatalogueItemIdentification :: "ItemIdentification option"
  SellersItemIdentification :: "ItemIdentification option"
  SecondarySellersItemIdentification :: "ItemIdentification option"
  TertiarySellersItemIdentification :: "ItemIdentification option"
  BuyersItemIdentification :: "ItemIdentification option"
  StoreBatches :: "StoreBatches option"

definition Item_zero :: Item where
  "Item_zero = \<lparr>Item.Description = [], Item.CatalogueItemIdentification = None,
     Item.SellersItemIdentification = None, Item.SecondarySellersItemIdentification = None,
     Item.TertiarySellersItemIdentification = None, Item.BuyersItemIdentification = None,
     Item.StoreBatches = None\<rparr>"

record InvoiceLine =
  ID :: string
  OrderReference :: "OrderLineReference option"
  DeliveryNoteReference :: "DeliveryNoteLineReference option"
  OriginalDocumentReference :: "OriginalDocumentLineReference option"
  ContractReference :: "ContractLineReference option"
  EgovClassifier :: string
  InvoicedQuantity :: Quantity
  LineExtensionAmountCurr :: Decimal
  LineExtensionAmount :: Decimal
  LineExtensionAmountBeforeDiscount :: Decimal
  LineExtensionAmountTaxInclusiveCurr :: Decimal
  LineExtensionAmountTaxInclusive :: Decimal
  LineExtensionAmountTaxInclusiveBeforeDiscount :: Decimal
  LineExtensionTaxAmount :: Decimal
  UnitPrice :: Decimal
  UnitPriceTaxInclusive :: Decimal
  ClassifiedTaxCategory :: ClassifiedTaxCategory
  Note :: string
  VATNote :: string
  Item :: Item
  Extensions :: "Extensions option"

definition InvoiceLine_zero :: InvoiceLine where
  "InvoiceLine_zero = \<lparr>InvoiceLine.ID = [], InvoiceLine.OrderReference = None,
     InvoiceLine.DeliveryNoteReference = None, InvoiceLine.OriginalDocumentReference = None,
     InvoiceLine.ContractReference = None, InvoiceLine.EgovClassifier = [],
     InvoiceLine.InvoicedQuantity = Quantity_zero, InvoiceLine.LineExtensionAmountCurr = [],
     InvoiceLine.LineExtensionAmount = [], InvoiceLine.LineExtensionAmountBeforeDiscount = [],
     InvoiceLine.LineExtensionAmountTaxInclusiveCurr = [],
     InvoiceLine.LineExtensionAmountTaxInclusive = [],
     InvoiceLine.LineExtensionAmountTaxInclusiveBeforeDiscount = [],
     InvoiceLine.LineExtensionTaxAmount = [], InvoiceLine.UnitPrice = [],
     InvoiceLine.UnitPriceTaxInclusive = [],
     InvoiceLine.ClassifiedTaxCategory = ClassifiedTaxCategory_zero, InvoiceLine.Note = [],
     InvoiceLine.VATNote = [], InvoiceLine.Item = Item_zero,
     InvoiceLine.Extensions = None\<rparr>"

record InvoiceLines =
  InvoiceLine :: "InvoiceLine list"

definition InvoiceLines_zero :: InvoiceLines where
  "InvoiceLines_zero = \<lparr>InvoiceLines.InvoiceLine = []\<rparr>"

record NonTaxedDeposit =
  ID :: string
  VariableSymbol :: string
  DepositAmountCurr :: Decimal
  DepositAmount :: Decimal

definition NonTaxedDeposit_zero :: NonTaxedDeposit where
  "NonTaxedDeposit_zero = \<lparr>NonTaxedDeposit.ID = [], NonTaxedDeposit.VariableSymbol = [],
     NonTaxedDeposit.DepositAmountCurr = [], NonTaxedDeposit.DepositAmount = []\<rparr>"

record NonTaxedDeposits =
  NonTaxedDeposit :: "NonTaxedDeposit list"

definition NonTaxedDeposits_zero :: NonTaxedDeposits where
  "NonTaxedDeposits_zero = \<lparr>NonTaxedDeposits.NonTaxedDeposit = []\<rparr>"

record TaxedDeposit =
  ID :: string
  VariableSymbol :: string
  TaxableDepositAmountCurr :: Decimal
  TaxableDepositAmount :: Decimal
  TaxInclusiveDepositAmountCurr :: Decimal
  TaxInclusiveDepositAmount :: Decimal
  ClassifiedTaxCategory :: ClassifiedTaxCategory

definition TaxedDeposit_zero :: TaxedDeposit where
  "TaxedDeposit_zero = \<lparr>TaxedDeposit.ID = [], TaxedDeposit.VariableSymbol = [],
     TaxedDeposit.TaxableDepositAmountCurr = [], TaxedDeposit.TaxableDepositAmount = [],
     TaxedDeposit.TaxInclusiveDepositAmountCurr = [],
     TaxedDeposit.TaxInclusiveDepositAmount = [],
     TaxedDeposit.ClassifiedTaxCategory = ClassifiedTaxCategory_zero\<rparr>"

record TaxedDeposits =
  TaxedDeposit :: "TaxedDeposit list"

definition TaxedDeposits_zero :: TaxedDeposits where
  "TaxedDeposits_zero = \<lparr>TaxedDeposits.TaxedDeposit = []\<rparr>"

record TaxCategory =
  Percent :: Decimal
  TaxScheme :: string
  VATApplicable :: bool
  LocalReverseChargeFlag :: bool

definition TaxCategory_zero :: TaxCategory where
  "TaxCategory_zero = \<lparr>TaxCategory.Percent = [], TaxCategory.TaxScheme = [],
     TaxCategory.VATApplicable = False, TaxCategory.LocalReverseChargeFlag = False\<rparr>"

record TaxSubTotal =
  TaxableAmountCurr :: Decimal
  TaxableAmount :: Decimal
  TaxAmountCurr :: Decimal
  TaxAmount :: Decimal
  TaxInclusiveAmountCurr :: Decimal
  TaxInclusiveAmount :: Decimal
  AlreadyClaimedTaxableAmountCurr :: Decimal
  AlreadyClaimedTaxableAmount :: Decimal
  AlreadyClaimedTaxAmountCurr :: Decimal
  AlreadyClaimedTaxAmount :: Decimal
  AlreadyClaimedTaxInclusiveAmountCurr :: Decimal
  AlreadyClaimedTaxInclusiveAmount :: Decimal
  DifferenceTaxableAmountCurr :: Decimal
  DifferenceTaxableAmount :: Decimal
  DifferenceTaxAmountCurr :: Decimal
  DifferenceTaxAmount :: Decimal
  DifferenceTaxInclusiveAmountCurr :: Decimal
  DifferenceTaxInclusiveAmount :: Decimal
  TaxCategory :: TaxCategory

definition TaxSubTotal_zero :: TaxSubTotal where
  "TaxSubTotal_zero = \<lparr>TaxSubTotal.TaxableAmountCurr = [], TaxSubTotal.TaxableAmount = [],
     TaxSubTotal.TaxAmountCurr = [], TaxSubTotal.TaxAmount = [],
     TaxSubTotal.TaxInclusiveAmountCurr = [], TaxSubTotal.TaxInclusiveAmount = [],
     TaxSubTotal.AlreadyClaimedTaxableAmountCurr = [],
     TaxSubTotal.AlreadyClaimedTaxableAmount = [], TaxSubTotal.AlreadyClaimedTaxAmountCurr = [],
     TaxSubTotal.AlreadyClaimedTaxAmount = [],
     TaxSubTotal.AlreadyClaimedTaxInclusiveAmountCurr = [],
     TaxSubTotal.AlreadyClaimedTaxInclusiveAmount = [],
     TaxSubTotal.DifferenceTaxableAmountCurr = [], TaxSubTotal.DifferenceTaxableAmount = [],
     TaxSubTotal.DifferenceTaxAmountCurr = [], TaxSubTotal.DifferenceTaxAmount = [],
     TaxSubTotal.DifferenceTaxInclusiveAmountCurr = [],
     TaxSubTotal.DifferenceTaxInclusiveAmount = [],
     TaxSubTotal.TaxCategory = TaxCategory_zero\<rparr>"

record TaxTotal =
  TaxSubTotal :: "TaxSubTotal list"
  TaxAmountCurr :: Decimal
  TaxAmount :: Decimal

definition TaxTotal_zero :: TaxTotal where
  "TaxTotal_zero = \<lparr>TaxTotal.TaxSubTotal = [], TaxTotal.TaxAmountCurr = [],
     TaxTotal.TaxAmount = []\<rparr>"

record LegalMonetaryTotal =
  TaxExclusiveAmount :: Decimal
  TaxExclusiveAmountCurr :: Decimal
  TaxInclusiveAmount :: Decimal
  TaxInclusiveAmountCurr :: Decimal
  AlreadyClaimedTaxExclusiveAmount :: Decimal
  AlreadyClaimedTaxExclusiveAmountCurr :: Decimal
  AlreadyClaimedTaxInclusiveAmount :: Decimal
  AlreadyClaimedTaxInclusiveAmountCurr :: Decimal
  DifferenceTaxExclusiveAmount :: Decimal
  DifferenceTaxExclusiveAmountCurr :: Decimal
  DifferenceTaxInclusiveAmount :: Decimal
  DifferenceTaxInclusiveAmountCurr :: Decimal
  PayableRoundingAmount :: Decimal
  PayableRoundingAmountCurr :: Decimal
  PaidDepositsAmount :: Decimal
  PaidDepositsAmountCurr :: Decimal
  PayableAmount :: Decimal
  PayableAmountCurr :: Decimal

definition LegalMonetaryTotal_zero :: LegalMonetaryTotal where
  "LegalMonetaryTotal_zero = \<lparr>LegalMonetaryTotal.TaxExclusiveAmount = [],
     LegalMonetaryTotal.TaxExclusiveAmountCurr = [], LegalMonetaryTotal.TaxInclusiveAmount = [],
     LegalMonetaryTotal.TaxInclusiveAmountCurr = [],
     LegalMonetaryTotal.AlreadyClaimedTaxExclusiveAmount = [],
     LegalMonetaryTotal.AlreadyClaimedTaxExclusiveAmountCurr = [],
     LegalMonetaryTotal.AlreadyClaimedTaxInclusiveAmount = [],
     LegalMonetaryTotal.AlreadyClaimedTaxInclusiveAmountCurr = [],
     LegalMonetaryTotal.DifferenceTaxExclusiveAmount = [],
     LegalMonetaryTotal.DifferenceTaxExclusiveAmountCurr = [],
     LegalMonetaryTotal.DifferenceTaxInclusiveAmount = [],
     LegalMonetaryTotal.DifferenceTaxInclusiveAmountCurr = [],
     LegalMonetaryTotal.PayableRoundingAmount = [],
     LegalMonetaryTotal.PayableRoundingAmountCurr = [],
     LegalMonetaryTotal.PaidDepositsAmount = [], LegalMonetaryTotal.PaidDepositsAmountCurr = [],
     LegalMonetaryTotal.PayableAmount = [], LegalMonetaryTotal.PayableAmountCurr = []\<rparr>"

record BankAccount =
  ID :: string
  BankCode :: string
  Name :: string
  IBAN :: string
  BIC :: string

definition BankAccount_zero :: BankAccount where
  "BankAccount_zero = \<lparr>BankAccount.ID = [], BankAccount.BankCode = [],
     BankAccount.Name = [], BankAccount.IBAN = [], BankAccount.BIC = []\<rparr>"

record PaymentDetails =
  DocumentID :: string
  IssueDate :: Date
  PaymentDueDate :: Date
  VariableSymbol :: string
  ConstantSymbol :: string
  SpecificSymbol :: string
  BankAccount :: "BankAccount option"

definition PaymentDetails_zero :: PaymentDetails where
  "PaymentDetails_zero = \<lparr>PaymentDetails.DocumentID = [],
     PaymentDetails.IssueDate = Date_zero, PaymentDetails.PaymentDueDate = Date_zero,
     PaymentDetails.VariableSymbol = [], PaymentDetails.ConstantSymbol = [],
     PaymentDetails.SpecificSymbol = [], PaymentDetails.BankAccount = None\<rparr>"

record Payment =
  PaidAmount :: Decimal
  PaymentMeansCode :: int
  Details :: "PaymentDetails option"

definition Payment_zero :: Payment where
  "Payment_zero = \<lparr>Payment.PaidAmount = [], Payment.PaymentMeansCode = 0,
     Payment.Details = None\<rparr>"

record AlternateBankAccounts =
  AlternateBankAccount :: "BankAccount list"

definition AlternateBankAccounts_zero :: AlternateBankAccounts where
  "AlternateBankAccounts_zero = \<lparr>AlternateBankAccounts.AlternateBankAccount = []\<rparr>"

record PaymentMeans =
  Payment :: "Payment list"
  AlternateBankAccounts :: "AlternateBankAccounts option"

definition PaymentMeans_zero :: PaymentMeans where
  "PaymentMeans_zero = \<lparr>PaymentMeans.Payment = [],
     PaymentMeans.AlternateBankAccounts = None\<rparr>"

record Supplement =
  Filename :: string
  DigestMethod :: string
  DigestValue :: string
  Preview :: bool

definition Supplement_zero :: Supplement where
  "Supplement_zero = \<lparr>Supplement.Filename = [], Supplement.DigestMethod = [],
     Supplement.DigestValue = [], Supplement.Preview = False\<rparr>"

record SupplementsList =
  Supplement :: "Supplement list"

definition SupplementsList_zero :: SupplementsList where
  "SupplementsList_zero = \<lparr>SupplementsList.Supplement = []\<rparr>"

record Invoice =
  XMLName :: xml_Name
  Version :: string
  DocumentType :: int
  SubDocumentType :: string
  SubDocumentTypeOrigin :: string
  TargetConsolidator :: string
  ClientOnTargetConsolidator :: string
  ClientBankAccount :: string
  ID :: string
  UUID :: UUID
  EgovFlag :: bool
  ISDS_ID :: string
  FileReference :: string
  ReferenceNumber :: string
  EgovClassifiers :: "EgovClassifiers option"
  IssuingSystem :: string
  IssueDate :: Date
  TaxPointDate :: Date
  VATApplicable :: bool
  ElectronicPossibilityAgreementReference :: Note
  Note :: "Note option"
  LocalCurrencyCode :: string
  ForeignCurrencyCode :: string
  CurrRate :: Decimal
  RefCurrRate :: Decimal
  Extensions :: "Extensions option"
  AccountingSupplierParty :: AccountingSupplierParty
  SellerSupplierParty :: "SellerSupplierParty option"
  AnonymousCustomerParty :: "AnonymousCustomerParty option"
  AccountingCustomerParty :: "AccountingCustomerParty option"
  BuyerCustomerParty :: "BuyerCustomerParty option"
  OrderReferences :: "OrderReferences option"
  DeliveryNoteReferences :: "DeliveryNoteReferences option"
  OriginalDocumentReferences :: "OriginalDocumentReferences option"
  ContractReferences :: "ContractReferences option"
  Delivery :: "Delivery option"
  InvoiceLines :: InvoiceLines
  NonTaxedDeposits :: "NonTaxedDeposits option"
  TaxedDeposits :: "TaxedDeposits option"
  TaxTotal :: TaxTotal
  LegalMonetaryTotal :: LegalMonetaryTotal
  PaymentMeans :: "PaymentMeans option"
  SupplementsList :: "SupplementsList option"

definition Invoice_zero :: Invoice where
  "Invoice_zero = \<lparr>Invoice.XMLName = xml_Name_zero, Invoice.Version = [],
     Invoice.DocumentType = 0, Invoice.SubDocumentType = [], Invoice.SubDocumentTypeOrigin = [],
     Invoice.TargetConsolidator = [], Invoice.ClientOnTargetConsolidator = [],
     Invoice.ClientBankAccount = [], Invoice.ID = [], Invoice.UUID = [],
     Invoice.EgovFlag = False, Invoice.ISDS_ID = [], Invoice.FileReference = [],
     Invoice.ReferenceNumber = [], Invoice.EgovClassifiers = None, Invoice.IssuingSystem = [],
     Invoice.IssueDate = Date_zero, Invoice.TaxPointDate = Date_zero,
     Invoice.VATApplicable = False, Invoice.ElectronicPossibilityAgreementReference = Note_zero,
     Invoice.Note = None, Invoice.LocalCurrencyCode = [], Invoice.ForeignCurrencyCode = [],
     Invoice.CurrRate = [], Invoice.RefCurrRate = [], Invoice.Extensions = None,
     Invoice.AccountingSupplierParty = AccountingSupplierParty_zero,
     Invoice.SellerSupplierParty = None, Invoice.AnonymousCustomerParty = None,
     Invoice.AccountingCustomerParty = None, Invoice.BuyerCustomerParty = None,
     Invoice.OrderReferences = None, Invoice.DeliveryNoteReferences = None,
     Invoice.OriginalDocumentReferences = None, Invoice.ContractReferences = None,
     Invoice.Delivery = None, Invoice.InvoiceLines = InvoiceLines_zero,
     Invoice.NonTaxedDeposits = None, Invoice.TaxedDeposits = None,
     Invoice.TaxTotal = TaxTotal_zero, Invoice.LegalMonetaryTotal = LegalMonetaryTotal_zero,
     Invoice.PaymentMeans = None, Invoice.SupplementsList = None\<rparr>"

section \<open>Errors (errors.go)\<close>

datatype Severity = SeverityError | SeverityWarning

definition Severity_String :: "Severity \<Rightarrow> string" where
  "Severity_String s = (case s of SeverityError \<Rightarrow> ''ERROR'' | SeverityWarning \<Rightarrow> ''WARNING'')"

definition ErrCodeRequiredField :: string where "ErrCodeRequiredField = ''REQUIRED_FIELD''"
definition ErrCodeInvalidEnum :: string where "ErrCodeInvalidEnum = ''INVALID_ENUM''"
definition ErrCodeInvalidDecimal :: string where "ErrCodeInvalidDecimal = ''INVALID_DECIMAL''"
definition ErrCodeInvalidDate :: string where "ErrCodeInvalidDate = ''INVALID_DATE''"
definition ErrCodeInvalidUUID :: string where "ErrCodeInvalidUUID = ''INVALID_UUID''"
definition ErrCodeInvalidPattern :: string where "ErrCodeInvalidPattern = ''INVALID_PATTERN''"
definition ErrCodeInvalidLength :: string where "ErrCodeInvalidLength = ''INVALID_LENGTH''"
definition ErrCodeTotalMismatch :: string where "ErrCodeTotalMismatch = ''TOTAL_MISMATCH''"
definition ErrCodeVATMismatch :: string where "ErrCodeVATMismatch = ''VAT_MISMATCH''"
definition ErrCodeReferenceNotFound :: string where "ErrCodeReferenceNotFound = ''REFERENCE_NOT_FOUND''"
definition ErrCodeDuplicateID :: string where "ErrCodeDuplicateID = ''DUPLICATE_ID''"
definition ErrCodeInvalidXML :: string where "ErrCodeInvalidXML = ''INVALID_XML''"
definition ErrCodeSchemaViolation :: string where "ErrCodeSchemaViolation = ''SCHEMA_VIOLATION''"

record DecodeError =
  Path :: string
  Err :: go_error

definition NewDecodeError :: "string \<Rightarrow> go_error \<Rightarrow> DecodeError" where
  "NewDecodeError path err = \<lparr>Path = path, Err = err\<rparr>"

type_synonym DecodeErrors = "DecodeError list"

definition DecodeErrors_HasErrors :: "DecodeErrors \<Rightarrow> bool" where
  "DecodeErrors_HasErrors e = (length e > 0)"

text \<open>
  A message is a string literal or the result of \<^verbatim>\<open>fmt.Sprintf\<close>, kept as the format
  string and its arguments.
\<close>

datatype fmt_arg = AInt int | AString string | AStrings "string list" | AFloat float64

datatype message = Text string | Sprintf string "fmt_arg list"

record ValidationError =
  Field :: string
  Code :: string
  Severity :: Severity
  Msg :: message

type_synonym ValidationErrors = "ValidationError list"

definition HasErrors :: "ValidationErrors \<Rightarrow> bool" where
  "HasErrors e = list_ex (\<lambda>err. Severity err = SeverityError) e"

definition HasWarnings :: "ValidationErrors \<Rightarrow> bool" where
  "HasWarnings e = list_ex (\<lambda>err. Severity err = SeverityWarning) e"

section \<open>Decoder (decode.go)\<close>

text \<open>
  The four header loops of \<^verbatim>\<open>resolveReferences\<close> are the same loop over the \<^verbatim>\<open>id\<close>
  attributes of one collection: \<open>collect_ids\<close> runs it on the indexed identifiers,
  threading the \<^verbatim>\<open>map[string]bool\<close> of the identifiers seen, in which a missing key
  reads as \<^verbatim>\<open>false\<close>. \<open>prefix\<close> is the path of the collection's entries.
\<close>

fun collect_ids ::
  "string \<Rightarrow> (nat \<times> string) list \<Rightarrow> (string \<Rightarrow> bool) \<Rightarrow> DecodeError list \<times> (string \<Rightarrow> bool)" where
  "collect_ids prefix [] refs = ([], refs)"
| "collect_ids prefix ((i, ref_ID) # rest) refs =
     (if ref_ID \<noteq> [] then
        (let errs = (if refs ref_ID
                     then [NewDecodeError (prefix @ ''['' @ itoa_nat i @ '']'')
                             (Errorf ''duplicate id %q'' [ref_ID])]
                     else []);
             r = collect_ids prefix rest (refs(ref_ID := True))
         in (errs @ fst r, snd r))
      else collect_ids prefix rest refs)"

definition no_refs :: "string \<Rightarrow> bool" where
  \<comment> \<open>\<^verbatim>\<open>make(map[string]bool)\<close>\<close>
  "no_refs = (\<lambda>k. False)"

definition line_ref_errors ::
  "string \<Rightarrow> string \<Rightarrow> string option \<Rightarrow> (string \<Rightarrow> bool) \<Rightarrow> DecodeError list" where
  \<comment> \<open>one of the four checks of a line: \<open>r\<close> is the \<^verbatim>\<open>ref\<close> attribute, if the pointer is not nil\<close>
  "line_ref_errors path what r refs =
     (case r of
        None \<Rightarrow> []
      | Some ref \<Rightarrow>
          if ref \<noteq> [] then
            (if \<not> refs ref
             then [NewDecodeError (path @ ''.'' @ what @ ''Reference'')
                     (Errorf (''ref %q not found in header '' @ what @ ''References'') [ref])]
             else [])
          else [])"

definition resolveReferences :: "Invoice \<Rightarrow> DecodeErrors" where
  "resolveReferences inv' =
     (let order = (case Invoice.OrderReferences inv' of
                     None \<Rightarrow> ([], no_refs)
                   | Some c \<Rightarrow>
                       collect_ids ''Invoice.OrderReferences.OrderReference''
                         (enumerate 0 (map OrderReference.ID (OrderReferences.OrderReference c))) no_refs);
          deliveryNote = (case Invoice.DeliveryNoteReferences inv' of
                     None \<Rightarrow> ([], no_refs)
                   | Some c \<Rightarrow>
                       collect_ids ''Invoice.DeliveryNoteReferences.DeliveryNoteReference''
                         (enumerate 0 (map DeliveryNoteReference.ID
                            (DeliveryNoteReferences.DeliveryNoteReference c))) no_refs);
          originalDoc = (case Invoice.OriginalDocumentReferences inv' of
                     None \<Rightarrow> ([], no_refs)
                   | Some c \<Rightarrow>
                       collect_ids ''Invoice.OriginalDocumentReferences.OriginalDocumentReference''
                         (enumerate 0 (map OriginalDocumentReference.ID
                            (OriginalDocumentReferences.OriginalDocumentReference c))) no_refs);
          contract = (case Invoice.ContractReferences inv' of
                     None \<Rightarrow> ([], no_refs)
                   | Some c \<Rightarrow>
                       collect_ids ''Invoice.ContractReferences.ContractReference''
                         (enumerate 0 (map ContractReference.ID
                            (ContractReferences.ContractReference c))) no_refs)
      in fst order @ fst deliveryNote @ fst originalDoc @ fst contract
         @ concat (map (\<lambda>(i, line).
             let path = ''Invoice.InvoiceLines.InvoiceLine['' @ itoa_nat i @ '']'' in
               line_ref_errors path ''Order''
                 (map_option OrderLineReference.Ref (InvoiceLine.OrderReference line)) (snd order)
               @ line_ref_errors path ''DeliveryNote''
                   (map_option DeliveryNoteLineReference.Ref (InvoiceLine.DeliveryNoteReference line))
                   (snd deliveryNote)
               @ line_ref_errors path ''OriginalDocument''
                   (map_option OriginalDocumentLineReference.Ref
                      (InvoiceLine.OriginalDocumentReference line))
                   (snd originalDoc)
               @ line_ref_errors path ''Contract''
                   (map_option ContractLineReference.Ref (InvoiceLine.ContractReference line))
                   (snd contract))
           (enumerate 0 (InvoiceLines.InvoiceLine (Invoice.InvoiceLines inv')))))"

text \<open>
  \<^verbatim>\<open>xml.Unmarshal\<close> belongs to Go's standard library. \<open>DecodeBytes\<close> takes it as the
  function \<open>Unmarshal\<close> from the input bytes to the text of its error or the Invoice it
  has populated. The \<^verbatim>\<open>error\<close> that \<open>DecodeBytes\<close> returns is the single
  \<^verbatim>\<open>*DecodeError\<close> of a parse failure or the \<^verbatim>\<open>DecodeErrors\<close> of the second pass;
  \<open>None\<close> is \<^verbatim>\<open>nil\<close>, for the Invoice as for the error.
\<close>

datatype decode_error = ParseFailure DecodeError | ReferenceErrors DecodeErrors

definition DecodeBytes ::
  "(string \<Rightarrow> string + Invoice) \<Rightarrow> string \<Rightarrow> Invoice option \<times> decode_error option" where
  "DecodeBytes Unmarshal data =
     (case Unmarshal data of
        Inl err \<Rightarrow> (None, Some (ParseFailure (NewDecodeError [] (Errorf ''XML parsing: %w'' [err]))))
      | Inr invoice \<Rightarrow>
          (let errs = resolveReferences invoice
           in if length errs > 0 then (Some invoice, Some (ReferenceErrors errs))
              else (Some invoice, None)))"

section \<open>Validator (validate.go)\<close>

record ValidateOptions =
  Strict :: bool
  AllowRoundingTolerance :: bool
  Tolerance :: Decimal

definition DefaultValidateOptions :: ValidateOptions where
  \<comment> \<open>\<^verbatim>\<open>types.MustDecimal("0.01")\<close> does not panic: the literal matches \<open>decimalPattern\<close>\<close>
  "DefaultValidateOptions = \<lparr>Strict = False, AllowRoundingTolerance = True, Tolerance = ''0.01''\<rparr>"

definition validateParty :: "string \<Rightarrow> Party \<Rightarrow> ValidateOptions \<Rightarrow> ValidationError list" where
  "validateParty path party opts =
    (let severity = (if Strict opts then SeverityError else SeverityWarning)
     in
     (if PartyIdentification.ID (Party.PartyIdentification party) = []
      then [\<lparr>Field = path @ ''.PartyIdentification.ID'',
             Code = ErrCodeRequiredField, Severity = SeverityError,
             Msg = Text (''PartyIdentification.ID (I'' @ [CHR 0xC4, CHR 0x8C]
                         @ ''O) is required'')\<rparr>]
      else [])
     @ (if PartyName.Name (Party.PartyName party) = []
      then [\<lparr>Field = path @ ''.PartyName.Name'',
             Code = ErrCodeRequiredField, Severity = SeverityError,
             Msg = Text ''PartyName.Name is required''\<rparr>]
      else [])
     @ (if PostalAddress.CityName (Party.PostalAddress party) = []
      then [\<lparr>Field = path @ ''.PostalAddress.CityName'',
             Code = ErrCodeRequiredField, Severity = severity,
             Msg = Text ''PostalAddress.CityName is expected''\<rparr>]
      else [])
     @ (if Country.IdentificationCode (PostalAddress.Country (Party.PostalAddress party)) = []
      then [\<lparr>Field = path @ ''.PostalAddress.Country.IdentificationCode'',
             Code = ErrCodeRequiredField, Severity = severity,
             Msg = Text ''Country.IdentificationCode is expected''\<rparr>]
      else []))"

definition validateInvoiceLine ::
  "string \<Rightarrow> InvoiceLine \<Rightarrow> ValidateOptions \<Rightarrow> ValidationError list" where
  "validateInvoiceLine path line opts =
    (let severity = (if Strict opts then SeverityError else SeverityWarning)
     in
     (if InvoiceLine.ID line = []
      then [\<lparr>Field = path @ ''.ID'',
             Code = ErrCodeRequiredField, Severity = SeverityError,
             Msg = Text ''ID is required''\<rparr>]
      else if length (InvoiceLine.ID line) > 36
      then [\<lparr>Field = path @ ''.ID'',
             Code = ErrCodeInvalidLength, Severity = severity,
             Msg = Sprintf ''ID must be max 36 characters, got %d''
                     [AInt (int (length (InvoiceLine.ID line)))]\<rparr>]
      else [])
     @ (if Decimal_IsZero (Quantity.Value (InvoiceLine.InvoicedQuantity line))
      then [\<lparr>Field = path @ ''.InvoicedQuantity'',
             Code = ErrCodeRequiredField, Severity = severity,
             Msg = Text ''InvoicedQuantity is expected''\<rparr>]
      else [])
     @ (if Item.Description (InvoiceLine.Item line) = []
      then [\<lparr>Field = path @ ''.Item.Description'',
             Code = ErrCodeRequiredField, Severity = severity,
             Msg = Text ''Item.Description is expected''\<rparr>]
      else []))"

definition validateStructural :: "Invoice \<Rightarrow> ValidateOptions \<Rightarrow> ValidationError list" where
  "validateStructural inv' opts =
    (let severity = (if Strict opts then SeverityError else SeverityWarning)
     in
     (if Invoice.Version inv' = []
      then [\<lparr>Field = ''Invoice.@version'',
             Code = ErrCodeRequiredField, Severity = SeverityError,
             Msg = Text ''version attribute is required''\<rparr>]
      else [])
     @ (if Invoice.DocumentType inv' < 1 \<or> Invoice.DocumentType inv' > 7
      then [\<lparr>Field = ''Invoice.DocumentType'',
             Code = ErrCodeInvalidEnum, Severity = SeverityError,
             Msg = Sprintf ''DocumentType must be 1-7, got %d'' [AInt (Invoice.DocumentType inv')]\<rparr>]
      else [])
     @ (if Invoice.ID inv' = []
      then [\<lparr>Field = ''Invoice.ID'',
             Code = ErrCodeRequiredField, Severity = SeverityError,
             Msg = Text ''ID is required''\<rparr>]
      else [])
     @ (if UUID_IsZero (Invoice.UUID inv')
      then [\<lparr>Field = ''Invoice.UUID'',
             Code = ErrCodeRequiredField, Severity = SeverityError,
             Msg = Text ''UUID is required''\<rparr>]
      else [])
     @ (if Date_IsZero (Invoice.IssueDate inv')
      then [\<lparr>Field = ''Invoice.IssueDate'',
             Code = ErrCodeRequiredField, Severity = SeverityError,
             Msg = Text ''IssueDate is required''\<rparr>]
      else [])
     @ (if Invoice.LocalCurrencyCode inv' = []
      then [\<lparr>Field = ''Invoice.LocalCurrencyCode'',
             Code = ErrCodeRequiredField, Severity = SeverityError,
             Msg = Text ''LocalCurrencyCode is required''\<rparr>]
      else if length (Invoice.LocalCurrencyCode inv') \<noteq> 3
      then [\<lparr>Field = ''Invoice.LocalCurrencyCode'',
             Code = ErrCodeInvalidLength, Severity = severity,
             Msg = Sprintf ''LocalCurrencyCode must be 3 characters, got %d''
                     [AInt (int (length (Invoice.LocalCurrencyCode inv')))]\<rparr>]
      else [])
     @ (if Decimal_IsZero (Invoice.CurrRate inv')
      then [\<lparr>Field = ''Invoice.CurrRate'',
             Code = ErrCodeRequiredField, Severity = SeverityError,
             Msg = Text ''CurrRate is required''\<rparr>]
      else [])
     @ (if Decimal_IsZero (Invoice.RefCurrRate inv')
      then [\<lparr>Field = ''Invoice.RefCurrRate'',
             Code = ErrCodeRequiredField, Severity = SeverityError,
             Msg = Text ''RefCurrRate is required''\<rparr>]
      else [])
     @ validateParty ''Invoice.AccountingSupplierParty.Party''
         (AccountingSupplierParty.Party (Invoice.AccountingSupplierParty inv')) opts
     @ (if Invoice.AccountingCustomerParty inv' = None \<and> Invoice.AnonymousCustomerParty inv' = None
      then (if Invoice.DocumentType inv' \<noteq> 7
            then [\<lparr>Field = ''Invoice.AccountingCustomerParty'',
                   Code = ErrCodeRequiredField, Severity = SeverityError,
                   Msg = Text ''AccountingCustomerParty is required (or AnonymousCustomerParty for simplified tax documents)''\<rparr>]
            else [])
      else (case Invoice.AccountingCustomerParty inv' of
              Some acp \<Rightarrow>
                validateParty ''Invoice.AccountingCustomerParty.Party''
                  (AccountingCustomerParty.Party acp) opts
            | None \<Rightarrow> []))
     @ (if length (InvoiceLines.InvoiceLine (Invoice.InvoiceLines inv')) = 0
      then [\<lparr>Field = ''Invoice.InvoiceLines'',
             Code = ErrCodeRequiredField, Severity = SeverityError,
             Msg = Text ''at least one InvoiceLine is required''\<rparr>]
      else [])
     @ concat (map (\<lambda>(i, line).
           validateInvoiceLine (''Invoice.InvoiceLines.InvoiceLine['' @ itoa_nat i @ '']'') line opts)
         (enumerate 0 (InvoiceLines.InvoiceLine (Invoice.InvoiceLines inv'))))
     @ (if length (TaxTotal.TaxSubTotal (Invoice.TaxTotal inv')) = 0
      then [\<lparr>Field = ''Invoice.TaxTotal.TaxSubTotal'',
             Code = ErrCodeRequiredField, Severity = severity,
             Msg = Text ''at least one TaxSubTotal is expected''\<rparr>]
      else [])
     @ (if Decimal_IsZero (LegalMonetaryTotal.TaxExclusiveAmount (Invoice.LegalMonetaryTotal inv'))
          \<and> Decimal_IsZero (LegalMonetaryTotal.TaxInclusiveAmount (Invoice.LegalMonetaryTotal inv'))
      then [\<lparr>Field = ''Invoice.LegalMonetaryTotal'',
             Code = ErrCodeRequiredField, Severity = severity,
             Msg = Text ''TaxExclusiveAmount or TaxInclusiveAmount should be set''\<rparr>]
      else []))"

definition validateOriginalDocumentLink ::
  "Invoice \<Rightarrow> ValidateOptions \<Rightarrow> ValidationError list" where
  "validateOriginalDocumentLink inv' opts =
     (if Invoice.DocumentType inv' = 2 \<or> Invoice.DocumentType inv' = 3 \<or> Invoice.DocumentType inv' = 6
      then (if (case Invoice.OriginalDocumentReferences inv' of
                  None \<Rightarrow> True
                | Some odr \<Rightarrow> length (OriginalDocumentReferences.OriginalDocumentReference odr) = 0)
            then [\<lparr>Field = ''Invoice.OriginalDocumentReferences'',
                   Code = ErrCodeRequiredField, Severity = SeverityError,
                   Msg = Sprintf ''DocumentType %d requires OriginalDocumentReferences with at least one OriginalDocumentReference''
                           [AInt (Invoice.DocumentType inv')]\<rparr>]
            else [])
      else [])"

definition validateForeignCurrencyFieldsPresent :: "Invoice \<Rightarrow> ValidateOptions \<Rightarrow> ValidationError list" where
  "validateForeignCurrencyFieldsPresent inv' opts =
    (let severity = (if Strict opts then SeverityError else SeverityWarning);
         lmt = Invoice.LegalMonetaryTotal inv'
     in
     (if \<not> Decimal_IsZero (LegalMonetaryTotal.TaxExclusiveAmount lmt) \<and> Decimal_IsZero (LegalMonetaryTotal.TaxExclusiveAmountCurr lmt)
      then [\<lparr>Field = ''Invoice.LegalMonetaryTotal.TaxExclusiveAmountCurr'',
             Code = ErrCodeRequiredField, Severity = severity,
             Msg = Text ''TaxExclusiveAmountCurr required when ForeignCurrencyCode is set''\<rparr>]
      else [])
     @ (if \<not> Decimal_IsZero (LegalMonetaryTotal.TaxInclusiveAmount lmt) \<and> Decimal_IsZero (LegalMonetaryTotal.TaxInclusiveAmountCurr lmt)
      then [\<lparr>Field = ''Invoice.LegalMonetaryTotal.TaxInclusiveAmountCurr'',
             Code = ErrCodeRequiredField, Severity = severity,
             Msg = Text ''TaxInclusiveAmountCurr required when ForeignCurrencyCode is set''\<rparr>]
      else [])
     @ (if \<not> Decimal_IsZero (LegalMonetaryTotal.PayableAmount lmt) \<and> Decimal_IsZero (LegalMonetaryTotal.PayableAmountCurr lmt)
      then [\<lparr>Field = ''Invoice.LegalMonetaryTotal.PayableAmountCurr'',
             Code = ErrCodeRequiredField, Severity = severity,
             Msg = Text ''PayableAmountCurr required when ForeignCurrencyCode is set''\<rparr>]
      else [])
     @ (if \<not> Decimal_IsZero (LegalMonetaryTotal.PayableRoundingAmount lmt) \<and> Decimal_IsZero (LegalMonetaryTotal.PayableRoundingAmountCurr lmt)
      then [\<lparr>Field = ''Invoice.LegalMonetaryTotal.PayableRoundingAmountCurr'',
             Code = ErrCodeRequiredField, Severity = severity,
             Msg = Text ''PayableRoundingAmountCurr required when ForeignCurrencyCode is set''\<rparr>]
      else [])
     @ (if \<not> Decimal_IsZero (LegalMonetaryTotal.PaidDepositsAmount lmt) \<and> Decimal_IsZero (LegalMonetaryTotal.PaidDepositsAmountCurr lmt)
      then [\<lparr>Field = ''Invoice.LegalMonetaryTotal.PaidDepositsAmountCurr'',
             Code = ErrCodeRequiredField, Severity = severity,
             Msg = Text ''PaidDepositsAmountCurr required when ForeignCurrencyCode is set''\<rparr>]
      else [])
     @ (if \<not> Decimal_IsZero (LegalMonetaryTotal.AlreadyClaimedTaxExclusiveAmount lmt) \<and> Decimal_IsZero (LegalMonetaryTotal.AlreadyClaimedTaxExclusiveAmountCurr lmt)
      then [\<lparr>Field = ''Invoice.LegalMonetaryTotal.AlreadyClaimedTaxExclusiveAmountCurr'',
             Code = ErrCodeRequiredField, Severity = severity,
             Msg = Text ''AlreadyClaimedTaxExclusiveAmountCurr required when ForeignCurrencyCode is set''\<rparr>]
      else [])
     @ (if \<not> Decimal_IsZero (LegalMonetaryTotal.AlreadyClaimedTaxInclusiveAmount lmt) \<and> Decimal_IsZero (LegalMonetaryTotal.AlreadyClaimedTaxInclusiveAmountCurr lmt)
      then [\<lparr>Field = ''Invoice.LegalMonetaryTotal.AlreadyClaimedTaxInclusiveAmountCurr'',
             Code = ErrCodeRequiredField, Severity = severity,
             Msg = Text ''AlreadyClaimedTaxInclusiveAmountCurr required when ForeignCurrencyCode is set''\<rparr>]
      else [])
     @ (if \<not> Decimal_IsZero (LegalMonetaryTotal.DifferenceTaxExclusiveAmount lmt) \<and> Decimal_IsZero (LegalMonetaryTotal.DifferenceTaxExclusiveAmountCurr lmt)
      then [\<lparr>Field = ''Invoice.LegalMonetaryTotal.DifferenceTaxExclusiveAmountCurr'',
             Code = ErrCodeRequiredField, Severity = severity,
             Msg = Text ''DifferenceTaxExclusiveAmountCurr required when ForeignCurrencyCode is set''\<rparr>]
      else [])
     @ (if \<not> Decimal_IsZero (LegalMonetaryTotal.DifferenceTaxInclusiveAmount lmt) \<and> Decimal_IsZero (LegalMonetaryTotal.DifferenceTaxInclusiveAmountCurr lmt)
      then [\<lparr>Field = ''Invoice.LegalMonetaryTotal.DifferenceTaxInclusiveAmountCurr'',
             Code = ErrCodeRequiredField, Severity = severity,
             Msg = Text ''DifferenceTaxInclusiveAmountCurr required when ForeignCurrencyCode is set''\<rparr>]
      else [])
     @ (if \<not> Decimal_IsZero (TaxTotal.TaxAmount (Invoice.TaxTotal inv')) \<and> Decimal_IsZero (TaxTotal.TaxAmountCurr (Invoice.TaxTotal inv'))
      then [\<lparr>Field = ''Invoice.TaxTotal.TaxAmountCurr'',
             Code = ErrCodeRequiredField, Severity = severity,
             Msg = Text ''TaxAmountCurr required when ForeignCurrencyCode is set''\<rparr>]
      else [])
     @ concat (map (\<lambda>(i, sub).
         let path = ''Invoice.TaxTotal.TaxSubTotal['' @ itoa_nat i @ '']'' in
           (if \<not> Decimal_IsZero (TaxSubTotal.TaxableAmount sub) \<and> Decimal_IsZero (TaxSubTotal.TaxableAmountCurr sub)
            then [\<lparr>Field = path @ ''.TaxableAmountCurr'',
                   Code = ErrCodeRequiredField, Severity = severity,
                   Msg = Text ''TaxableAmountCurr required when ForeignCurrencyCode is set''\<rparr>]
            else [])
           @ (if \<not> Decimal_IsZero (TaxSubTotal.TaxAmount sub) \<and> Decimal_IsZero (TaxSubTotal.TaxAmountCurr sub)
            then [\<lparr>Field = path @ ''.TaxAmountCurr'',
                   Code = ErrCodeRequiredField, Severity = severity,
                   Msg = Text ''TaxAmountCurr required when ForeignCurrencyCode is set''\<rparr>]
            else [])
           @ (if \<not> Decimal_IsZero (TaxSubTotal.TaxInclusiveAmount sub) \<and> Decimal_IsZero (TaxSubTotal.TaxInclusiveAmountCurr sub)
            then [\<lparr>Field = path @ ''.TaxInclusiveAmountCurr'',
                   Code = ErrCodeRequiredField, Severity = severity,
                   Msg = Text ''TaxInclusiveAmountCurr required when ForeignCurrencyCode is set''\<rparr>]
            else [])
           @ (if \<not> Decimal_IsZero (TaxSubTotal.AlreadyClaimedTaxableAmount sub) \<and> Decimal_IsZero (TaxSubTotal.AlreadyClaimedTaxableAmountCurr sub)
            then [\<lparr>Field = path @ ''.AlreadyClaimedTaxableAmountCurr'',
                   Code = ErrCodeRequiredField, Severity = severity,
                   Msg = Text ''AlreadyClaimedTaxableAmountCurr required when ForeignCurrencyCode is set''\<rparr>]
            else [])
           @ (if \<not> Decimal_IsZero (TaxSubTotal.AlreadyClaimedTaxAmount sub) \<and> Decimal_IsZero (TaxSubTotal.AlreadyClaimedTaxAmountCurr sub)
            then [\<lparr>Field = path @ ''.AlreadyClaimedTaxAmountCurr'',
                   Code = ErrCodeRequiredField, Severity = severity,
                   Msg = Text ''AlreadyClaimedTaxAmountCurr required when ForeignCurrencyCode is set''\<rparr>]
            else [])
           @ (if \<not> Decimal_IsZero (TaxSubTotal.AlreadyClaimedTaxInclusiveAmount sub) \<and> Decimal_IsZero (TaxSubTotal.AlreadyClaimedTaxInclusiveAmountCurr sub)
            then [\<lparr>Field = path @ ''.AlreadyClaimedTaxInclusiveAmountCurr'',
                   Code = ErrCodeRequiredField, Severity = severity,
                   Msg = Text ''AlreadyClaimedTaxInclusiveAmountCurr required when ForeignCurrencyCode is set''\<rparr>]
            else [])
           @ (if \<not> Decimal_IsZero (TaxSubTotal.DifferenceTaxableAmount sub) \<and> Decimal_IsZero (TaxSubTotal.DifferenceTaxableAmountCurr sub)
            then [\<lparr>Field = path @ ''.DifferenceTaxableAmountCurr'',
                   Code = ErrCodeRequiredField, Severity = severity,
                   Msg = Text ''DifferenceTaxableAmountCurr required when ForeignCurrencyCode is set''\<rparr>]
            else [])
           @ (if \<not> Decimal_IsZero (TaxSubTotal.DifferenceTaxAmount sub) \<and> Decimal_IsZero (TaxSubTotal.DifferenceTaxAmountCurr sub)
            then [\<lparr>Field = path @ ''.DifferenceTaxAmountCurr'',
                   Code = ErrCodeRequiredField, Severity = severity,
                   Msg = Text ''DifferenceTaxAmountCurr required when ForeignCurrencyCode is set''\<rparr>]
            else [])
           @ (if \<not> Decimal_IsZero (TaxSubTotal.DifferenceTaxInclusiveAmount sub) \<and> Decimal_IsZero (TaxSubTotal.DifferenceTaxInclusiveAmountCurr sub)
            then [\<lparr>Field = path @ ''.DifferenceTaxInclusiveAmountCurr'',
                   Code = ErrCodeRequiredField, Severity = severity,
                   Msg = Text ''DifferenceTaxInclusiveAmountCurr required when ForeignCurrencyCode is set''\<rparr>]
            else []))
       (enumerate 0 (TaxTotal.TaxSubTotal (Invoice.TaxTotal inv'))))
     @ concat (map (\<lambda>(i, line).
         let path = ''Invoice.InvoiceLines.InvoiceLine['' @ itoa_nat i @ '']'' in
           (if \<not> Decimal_IsZero (InvoiceLine.LineExtensionAmount line) \<and> Decimal_IsZero (InvoiceLine.LineExtensionAmountCurr line)
            then [\<lparr>Field = path @ ''.LineExtensionAmountCurr'',
                   Code = ErrCodeRequiredField, Severity = severity,
                   Msg = Text ''LineExtensionAmountCurr required when ForeignCurrencyCode is set''\<rparr>]
            else [])
           @ (if \<not> Decimal_IsZero (InvoiceLine.LineExtensionAmountTaxInclusive line) \<and> Decimal_IsZero (InvoiceLine.LineExtensionAmountTaxInclusiveCurr line)
            then [\<lparr>Field = path @ ''.LineExtensionAmountTaxInclusiveCurr'',
                   Code = ErrCodeRequiredField, Severity = severity,
                   Msg = Text ''LineExtensionAmountTaxInclusiveCurr required when ForeignCurrencyCode is set''\<rparr>]
            else []))
       (enumerate 0 (InvoiceLines.InvoiceLine (Invoice.InvoiceLines inv'))))
     @ (case Invoice.NonTaxedDeposits inv' of
        None \<Rightarrow> []
      | Some p \<Rightarrow>
           concat (map (\<lambda>(i, dep).
               let path = ''Invoice.NonTaxedDeposits.NonTaxedDeposit['' @ itoa_nat i @ '']'' in
                 (if \<not> Decimal_IsZero (NonTaxedDeposit.DepositAmount dep) \<and> Decimal_IsZero (NonTaxedDeposit.DepositAmountCurr dep)
                  then [\<lparr>Field = path @ ''.DepositAmountCurr'',
                         Code = ErrCodeRequiredField, Severity = severity,
                         Msg = Text ''DepositAmountCurr required when ForeignCurrencyCode is set''\<rparr>]
                  else []))
             (enumerate 0 (NonTaxedDeposits.NonTaxedDeposit p))))
     @ (case Invoice.TaxedDeposits inv' of
        None \<Rightarrow> []
      | Some p \<Rightarrow>
           concat (map (\<lambda>(i, dep).
               let path = ''Invoice.TaxedDeposits.TaxedDeposit['' @ itoa_nat i @ '']'' in
                 (if \<not> Decimal_IsZero (TaxedDeposit.TaxableDepositAmount dep) \<and> Decimal_IsZero (TaxedDeposit.TaxableDepositAmountCurr dep)
                  then [\<lparr>Field = path @ ''.TaxableDepositAmountCurr'',
                         Code = ErrCodeRequiredField, Severity = severity,
                         Msg = Text ''TaxableDepositAmountCurr required when ForeignCurrencyCode is set''\<rparr>]
                  else [])
                 @ (if \<not> Decimal_IsZero (TaxedDeposit.TaxInclusiveDepositAmount dep) \<and> Decimal_IsZero (TaxedDeposit.TaxInclusiveDepositAmountCurr dep)
                  then [\<lparr>Field = path @ ''.TaxInclusiveDepositAmountCurr'',
                         Code = ErrCodeRequiredField, Severity = severity,
                         Msg = Text ''TaxInclusiveDepositAmountCurr required when ForeignCurrencyCode is set''\<rparr>]
                  else []))
             (enumerate 0 (TaxedDeposits.TaxedDeposit p)))))"

definition validateNoForeignCurrencyFields :: "Invoice \<Rightarrow> ValidateOptions \<Rightarrow> ValidationError list" where
  "validateNoForeignCurrencyFields inv' opts =
    (let severity = (if Strict opts then SeverityError else SeverityWarning);
         lmt = Invoice.LegalMonetaryTotal inv'
     in
     (if \<not> Decimal_IsZero (LegalMonetaryTotal.TaxExclusiveAmountCurr lmt)
      then [\<lparr>Field = ''Invoice.LegalMonetaryTotal.TaxExclusiveAmountCurr'',
             Code = ErrCodeSchemaViolation, Severity = severity,
             Msg = Text ''TaxExclusiveAmountCurr must not be set without ForeignCurrencyCode''\<rparr>]
      else [])
     @ (if \<not> Decimal_IsZero (LegalMonetaryTotal.TaxInclusiveAmountCurr lmt)
      then [\<lparr>Field = ''Invoice.LegalMonetaryTotal.TaxInclusiveAmountCurr'',
             Code = ErrCodeSchemaViolation, Severity = severity,
             Msg = Text ''TaxInclusiveAmountCurr must not be set without ForeignCurrencyCode''\<rparr>]
      else [])
     @ (if \<not> Decimal_IsZero (LegalMonetaryTotal.PayableAmountCurr lmt)
      then [\<lparr>Field = ''Invoice.LegalMonetaryTotal.PayableAmountCurr'',
             Code = ErrCodeSchemaViolation, Severity = severity,
             Msg = Text ''PayableAmountCurr must not be set without ForeignCurrencyCode''\<rparr>]
      else [])
     @ (if \<not> Decimal_IsZero (LegalMonetaryTotal.PayableRoundingAmountCurr lmt)
      then [\<lparr>Field = ''Invoice.LegalMonetaryTotal.PayableRoundingAmountCurr'',
             Code = ErrCodeSchemaViolation, Severity = severity,
             Msg = Text ''PayableRoundingAmountCurr must not be set without ForeignCurrencyCode''\<rparr>]
      else [])
     @ (if \<not> Decimal_IsZero (LegalMonetaryTotal.PaidDepositsAmountCurr lmt)
      then [\<lparr>Field = ''Invoice.LegalMonetaryTotal.PaidDepositsAmountCurr'',
             Code = ErrCodeSchemaViolation, Severity = severity,
             Msg = Text ''PaidDepositsAmountCurr must not be set without ForeignCurrencyCode''\<rparr>]
      else [])
     @ (if \<not> Decimal_IsZero (LegalMonetaryTotal.AlreadyClaimedTaxExclusiveAmountCurr lmt)
      then [\<lparr>Field = ''Invoice.LegalMonetaryTotal.AlreadyClaimedTaxExclusiveAmountCurr'',
             Code = ErrCodeSchemaViolation, Severity = severity,
             Msg = Text ''AlreadyClaimedTaxExclusiveAmountCurr must not be set without ForeignCurrencyCode''\<rparr>]
      else [])
     @ (if \<not> Decimal_IsZero (LegalMonetaryTotal.AlreadyClaimedTaxInclusiveAmountCurr lmt)
      then [\<lparr>Field = ''Invoice.LegalMonetaryTotal.AlreadyClaimedTaxInclusiveAmountCurr'',
             Code = ErrCodeSchemaViolation, Severity = severity,
             Msg = Text ''AlreadyClaimedTaxInclusiveAmountCurr must not be set without ForeignCurrencyCode''\<rparr>]
      else [])
     @ (if \<not> Decimal_IsZero (LegalMonetaryTotal.DifferenceTaxExclusiveAmountCurr lmt)
      then [\<lparr>Field = ''Invoice.LegalMonetaryTotal.DifferenceTaxExclusiveAmountCurr'',
             Code = ErrCodeSchemaViolation, Severity = severity,
             Msg = Text ''DifferenceTaxExclusiveAmountCurr must not be set without ForeignCurrencyCode''\<rparr>]
      else [])
     @ (if \<not> Decimal_IsZero (LegalMonetaryTotal.DifferenceTaxInclusiveAmountCurr lmt)
      then [\<lparr>Field = ''Invoice.LegalMonetaryTotal.DifferenceTaxInclusiveAmountCurr'',
             Code = ErrCodeSchemaViolation, Severity = severity,
             Msg = Text ''DifferenceTaxInclusiveAmountCurr must not be set without ForeignCurrencyCode''\<rparr>]
      else [])
     @ (if \<not> Decimal_IsZero (TaxTotal.TaxAmountCurr (Invoice.TaxTotal inv'))
      then [\<lparr>Field = ''Invoice.TaxTotal.TaxAmountCurr'',
             Code = ErrCodeSchemaViolation, Severity = severity,
             Msg = Text ''TaxAmountCurr must not be set without ForeignCurrencyCode''\<rparr>]
      else [])
     @ concat (map (\<lambda>(i, sub).
         let path = ''Invoice.TaxTotal.TaxSubTotal['' @ itoa_nat i @ '']'' in
           (if \<not> Decimal_IsZero (TaxSubTotal.TaxableAmountCurr sub)
            then [\<lparr>Field = path @ ''.TaxableAmountCurr'',
                   Code = ErrCodeSchemaViolation, Severity = severity,
                   Msg = Text ''TaxableAmountCurr must not be set without ForeignCurrencyCode''\<rparr>]
            else [])
           @ (if \<not> Decimal_IsZero (TaxSubTotal.TaxAmountCurr sub)
            then [\<lparr>Field = path @ ''.TaxAmountCurr'',
                   Code = ErrCodeSchemaViolation, Severity = severity,
                   Msg = Text ''TaxAmountCurr must not be set without ForeignCurrencyCode''\<rparr>]
            else [])
           @ (if \<not> Decimal_IsZero (TaxSubTotal.TaxInclusiveAmountCurr sub)
            then [\<lparr>Field = path @ ''.TaxInclusiveAmountCurr'',
                   Code = ErrCodeSchemaViolation, Severity = severity,
                   Msg = Text ''TaxInclusiveAmountCurr must not be set without ForeignCurrencyCode''\<rparr>]
            else [])
           @ (if \<not> Decimal_IsZero (TaxSubTotal.AlreadyClaimedTaxableAmountCurr sub)
            then [\<lparr>Field = path @ ''.AlreadyClaimedTaxableAmountCurr'',
                   Code = ErrCodeSchemaViolation, Severity = severity,
                   Msg = Text ''AlreadyClaimedTaxableAmountCurr must not be set without ForeignCurrencyCode''\<rparr>]
            else [])
           @ (if \<not> Decimal_IsZero (TaxSubTotal.AlreadyClaimedTaxAmountCurr sub)
            then [\<lparr>Field = path @ ''.AlreadyClaimedTaxAmountCurr'',
                   Code = ErrCodeSchemaViolation, Severity = severity,
                   Msg = Text ''AlreadyClaimedTaxAmountCurr must not be set without ForeignCurrencyCode''\<rparr>]
            else [])
           @ (if \<not> Decimal_IsZero (TaxSubTotal.AlreadyClaimedTaxInclusiveAmountCurr sub)
            then [\<lparr>Field = path @ ''.AlreadyClaimedTaxInclusiveAmountCurr'',
                   Code = ErrCodeSchemaViolation, Severity = severity,
                   Msg = Text ''AlreadyClaimedTaxInclusiveAmountCurr must not be set without ForeignCurrencyCode''\<rparr>]
            else [])
           @ (if \<not> Decimal_IsZero (TaxSubTotal.DifferenceTaxableAmountCurr sub)
            then [\<lparr>Field = path @ ''.DifferenceTaxableAmountCurr'',
                   Code = ErrCodeSchemaViolation, Severity = severity,
                   Msg = Text ''DifferenceTaxableAmountCurr must not be set without ForeignCurrencyCode''\<rparr>]
            else [])
           @ (if \<not> Decimal_IsZero (TaxSubTotal.DifferenceTaxAmountCurr sub)
            then [\<lparr>Field = path @ ''.DifferenceTaxAmountCurr'',
                   Code = ErrCodeSchemaViolation, Severity = severity,
                   Msg = Text ''DifferenceTaxAmountCurr must not be set without ForeignCurrencyCode''\<rparr>]
            else [])
           @ (if \<not> Decimal_IsZero (TaxSubTotal.DifferenceTaxInclusiveAmountCurr sub)
            then [\<lparr>Field = path @ ''.DifferenceTaxInclusiveAmountCurr'',
                   Code = ErrCodeSchemaViolation, Severity = severity,
                   Msg = Text ''DifferenceTaxInclusiveAmountCurr must not be set without ForeignCurrencyCode''\<rparr>]
            else []))
       (enumerate 0 (TaxTotal.TaxSubTotal (Invoice.TaxTotal inv'))))
     @ concat (map (\<lambda>(i, line).
         let path = ''Invoice.InvoiceLines.InvoiceLine['' @ itoa_nat i @ '']'' in
           (if \<not> Decimal_IsZero (InvoiceLine.LineExtensionAmountCurr line)
            then [\<lparr>Field = path @ ''.LineExtensionAmountCurr'',
                   Code = ErrCodeSchemaViolation, Severity = severity,
                   Msg = Text ''LineExtensionAmountCurr must not be set without ForeignCurrencyCode''\<rparr>]
            else [])
           @ (if \<not> Decimal_IsZero (InvoiceLine.LineExtensionAmountTaxInclusiveCurr line)
            then [\<lparr>Field = path @ ''.LineExtensionAmountTaxInclusiveCurr'',
                   Code = ErrCodeSchemaViolation, Severity = severity,
                   Msg = Text ''LineExtensionAmountTaxInclusiveCurr must not be set without ForeignCurrencyCode''\<rparr>]
            else []))
       (enumerate 0 (InvoiceLines.InvoiceLine (Invoice.InvoiceLines inv'))))
     @ (case Invoice.NonTaxedDeposits inv' of
        None \<Rightarrow> []
      | Some p \<Rightarrow>
           concat (map (\<lambda>(i, dep).
               let path = ''Invoice.NonTaxedDeposits.NonTaxedDeposit['' @ itoa_nat i @ '']'' in
                 (if \<not> Decimal_IsZero (NonTaxedDeposit.DepositAmountCurr dep)
                  then [\<lparr>Field = path @ ''.DepositAmountCurr'',
                         Code = ErrCodeSchemaViolation, Severity = severity,
                         Msg = Text ''DepositAmountCurr must not be set without ForeignCurrencyCode''\<rparr>]
                  else []))
             (enumerate 0 (NonTaxedDeposits.NonTaxedDeposit p))))
     @ (case Invoice.TaxedDeposits inv' of
        None \<Rightarrow> []
      | Some p \<Rightarrow>
           concat (map (\<lambda>(i, dep).
               let path = ''Invoice.TaxedDeposits.TaxedDeposit['' @ itoa_nat i @ '']'' in
                 (if \<not> Decimal_IsZero (TaxedDeposit.TaxableDepositAmountCurr dep)
                  then [\<lparr>Field = path @ ''.TaxableDepositAmountCurr'',
                         Code = ErrCodeSchemaViolation, Severity = severity,
                         Msg = Text ''TaxableDepositAmountCurr must not be set without ForeignCurrencyCode''\<rparr>]
                  else [])
                 @ (if \<not> Decimal_IsZero (TaxedDeposit.TaxInclusiveDepositAmountCurr dep)
                  then [\<lparr>Field = path @ ''.TaxInclusiveDepositAmountCurr'',
                         Code = ErrCodeSchemaViolation, Severity = severity,
                         Msg = Text ''TaxInclusiveDepositAmountCurr must not be set without ForeignCurrencyCode''\<rparr>]
                  else []))
             (enumerate 0 (TaxedDeposits.TaxedDeposit p)))))"

definition validateCurrencyConsistency ::
  "Invoice \<Rightarrow> ValidateOptions \<Rightarrow> ValidationError list" where
  "validateCurrencyConsistency inv' opts =
    (let severity = (if Strict opts then SeverityError else SeverityWarning);
         hasForeignCurrency = (Invoice.ForeignCurrencyCode inv' \<noteq> [])
     in
     if hasForeignCurrency then
       (if Invoice.ForeignCurrencyCode inv' = Invoice.LocalCurrencyCode inv'
        then [\<lparr>Field = ''Invoice.ForeignCurrencyCode'',
               Code = ErrCodeSchemaViolation, Severity = SeverityError,
               Msg = Text ''ForeignCurrencyCode must differ from LocalCurrencyCode''\<rparr>]
        else [])
       @ validateForeignCurrencyFieldsPresent inv' opts
     else
       (let one = ''1'' in
        (if \<not> Decimal_IsZero (Invoice.CurrRate inv') \<and> \<not> Decimal_Equal (Invoice.CurrRate inv') one
         then [\<lparr>Field = ''Invoice.CurrRate'',
                Code = ErrCodeSchemaViolation, Severity = severity,
                Msg = Sprintf ''CurrRate must be 1 when no ForeignCurrencyCode, got %s''
                        [AString (Decimal_String (Invoice.CurrRate inv'))]\<rparr>]
         else [])
        @ (if \<not> Decimal_IsZero (Invoice.RefCurrRate inv') \<and> \<not> Decimal_Equal (Invoice.RefCurrRate inv') one
         then [\<lparr>Field = ''Invoice.RefCurrRate'',
                Code = ErrCodeSchemaViolation, Severity = severity,
                Msg = Sprintf ''RefCurrRate must be 1 when no ForeignCurrencyCode, got %s''
                        [AString (Decimal_String (Invoice.RefCurrRate inv'))]\<rparr>]
         else [])
        @ validateNoForeignCurrencyFields inv' opts))"

definition validateVATConsistency :: "Invoice \<Rightarrow> ValidateOptions \<Rightarrow> ValidationError list" where
  "validateVATConsistency inv' opts =
     (if \<not> Invoice.VATApplicable inv' then
        concat (map (\<lambda>(i, line).
            if ClassifiedTaxCategory.VATApplicable (InvoiceLine.ClassifiedTaxCategory line)
            then [\<lparr>Field = ''Invoice.InvoiceLines.InvoiceLine['' @ itoa_nat i
                            @ ''].ClassifiedTaxCategory.VATApplicable'',
                   Code = ErrCodeVATMismatch, Severity = SeverityError,
                   Msg = Text ''Invoice VATApplicable is false, but line item has VATApplicable=true''\<rparr>]
            else [])
          (enumerate 0 (InvoiceLines.InvoiceLine (Invoice.InvoiceLines inv'))))
      else [])"

definition validateItemIdentificationHierarchy ::
  "Invoice \<Rightarrow> ValidateOptions \<Rightarrow> ValidationError list" where
  "validateItemIdentificationHierarchy inv' opts =
    (let severity = (if Strict opts then SeverityError else SeverityWarning)
     in
     concat (map (\<lambda>(i, line).
         let path = ''Invoice.InvoiceLines.InvoiceLine['' @ itoa_nat i @ ''].Item'';
             item = InvoiceLine.Item line
         in
           (if Item.SecondarySellersItemIdentification item \<noteq> None
               \<and> Item.SellersItemIdentification item = None
            then [\<lparr>Field = path @ ''.SecondarySellersItemIdentification'',
                   Code = ErrCodeSchemaViolation, Severity = severity,
                   Msg = Text ''SecondarySellersItemIdentification requires SellersItemIdentification''\<rparr>]
            else [])
           @ (if Item.TertiarySellersItemIdentification item \<noteq> None
              then (if Item.SellersItemIdentification item = None
                       \<or> Item.SecondarySellersItemIdentification item = None
                    then [\<lparr>Field = path @ ''.TertiarySellersItemIdentification'',
                           Code = ErrCodeSchemaViolation, Severity = severity,
                           Msg = Text ''TertiarySellersItemIdentification requires both SellersItemIdentification and SecondarySellersItemIdentification''\<rparr>]
                    else [])
              else []))
       (enumerate 0 (InvoiceLines.InvoiceLine (Invoice.InvoiceLines inv')))))"

text \<open>
  The inner loop of \<^verbatim>\<open>validateStoreBatches\<close> over the batches of one line. Its state is
  the errors appended so far, \<^verbatim>\<open>batchQuantitySum\<close> and \<^verbatim>\<open>seenUnitCodes\<close>.
\<close>

fun storeBatchLoop ::
  "string \<Rightarrow> string \<Rightarrow> Severity \<Rightarrow> (nat \<times> StoreBatch) list
   \<Rightarrow> ValidationError list \<times> float64 \<times> string list
   \<Rightarrow> ValidationError list \<times> float64 \<times> string list" where
  "storeBatchLoop path lineUnitCode severity [] st = st"
| "storeBatchLoop path lineUnitCode severity ((j, batch) # rest) (errs, batchQuantitySum, seenUnitCodes) =
     (let batchPath = path @ ''.Item.StoreBatches.StoreBatch['' @ itoa_nat j @ '']'';
          batchUnitCode = Quantity.UnitCode (StoreBatch.Quantity batch);
          seenUnitCodes' =
            (if batchUnitCode \<noteq> [] then
               (if List.member seenUnitCodes batchUnitCode then seenUnitCodes
                else seenUnitCodes @ [batchUnitCode])
             else seenUnitCodes);
          errs' = errs @
            (if lineUnitCode \<noteq> [] \<and> batchUnitCode \<noteq> [] \<and> batchUnitCode \<noteq> lineUnitCode
             then [\<lparr>Field = batchPath @ ''.Quantity'',
                    Code = ErrCodeSchemaViolation, Severity = severity,
                    Msg = Sprintf ''StoreBatch unitCode %q must match InvoicedQuantity unitCode %q''
                            [AString batchUnitCode, AString lineUnitCode]\<rparr>]
             else []);
          batchQuantitySum' =
            f64_add batchQuantitySum (Decimal_Float64 (Quantity.Value (StoreBatch.Quantity batch)))
      in storeBatchLoop path lineUnitCode severity rest (errs', batchQuantitySum', seenUnitCodes'))"

definition storeBatchTolerance :: float64 where
  \<comment> \<open>the constant \<^verbatim>\<open>0.0001\<close> as a float64\<close>
  "storeBatchTolerance = round_f64 False 1 10000"

definition validateStoreBatches :: "Invoice \<Rightarrow> ValidateOptions \<Rightarrow> ValidationError list" where
  "validateStoreBatches inv' opts =
    (let severity = (if Strict opts then SeverityError else SeverityWarning)
     in
     concat (map (\<lambda>(i, line).
         case Item.StoreBatches (InvoiceLine.Item line) of
           None \<Rightarrow> []
         | Some sb \<Rightarrow>
             if length (StoreBatches.StoreBatch sb) = 0 then []
             else
               (let path = ''Invoice.InvoiceLines.InvoiceLine['' @ itoa_nat i @ '']'';
                    lineUnitCode = Quantity.UnitCode (InvoiceLine.InvoicedQuantity line);
                    st = storeBatchLoop path lineUnitCode severity
                           (enumerate 0 (StoreBatches.StoreBatch sb)) ([], Finite 0 0, []);
                    errs = fst st;
                    batchQuantitySum = fst (snd st);
                    seenUnitCodes = snd (snd st);
                    invoicedQty = Decimal_Float64 (Quantity.Value (InvoiceLine.InvoicedQuantity line));
                    tolerance = storeBatchTolerance;
                    diff = f64_sub batchQuantitySum invoicedQty
                in errs
                   @ (if length seenUnitCodes > 1
                      then [\<lparr>Field = path @ ''.Item.StoreBatches'',
                             Code = ErrCodeSchemaViolation, Severity = severity,
                             Msg = Sprintf ''All StoreBatch Quantity unitCodes must be the same, found: %v''
                                     [AStrings seenUnitCodes]\<rparr>]
                      else [])
                   @ (if f64_less tolerance diff \<or> f64_less diff (f64_neg tolerance)
                      then [\<lparr>Field = path @ ''.Item.StoreBatches'',
                             Code = ErrCodeTotalMismatch, Severity = severity,
                             Msg = Sprintf ''StoreBatch Quantity sum (%.4f) must equal InvoicedQuantity (%.4f)''
                                     [AFloat batchQuantitySum, AFloat invoicedQty]\<rparr>]
                      else [])))
       (enumerate 0 (InvoiceLines.InvoiceLine (Invoice.InvoiceLines inv')))))"

definition validateSemantic :: "Invoice \<Rightarrow> ValidateOptions \<Rightarrow> ValidationError list" where
  "validateSemantic inv' opts =
     validateOriginalDocumentLink inv' opts
     @ validateCurrencyConsistency inv' opts
     @ validateVATConsistency inv' opts
     @ validateItemIdentificationHierarchy inv' opts
     @ validateStoreBatches inv' opts"

definition ValidateInvoiceWithOptions :: "Invoice \<Rightarrow> ValidateOptions \<Rightarrow> ValidationErrors" where
  "ValidateInvoiceWithOptions inv' opts = validateStructural inv' opts @ validateSemantic inv' opts"

definition ValidateInvoice :: "Invoice \<Rightarrow> ValidationErrors" where
  "ValidateInvoice inv' = ValidateInvoiceWithOptions inv' DefaultValidateOptions"

section \<open>Encoder (encode.go)\<close>

subsection \<open>Values as reflection presents them\<close>

text \<open>
  The encoder walks the document with package \<^verbatim>\<open>reflect\<close>. An \<open>rvalue\<close> is what it
  sees of a value: its kind, and for a struct the name of its type, the methods the encoder
  asks for, and the fields in declaration order, each with its \<^verbatim>\<open>xml\<close> tag.
  \<^verbatim>\<open>types.Decimal\<close> and \<^verbatim>\<open>types.UUID\<close> are of kind String and \<^verbatim>\<open>types.Bool\<close> is of
  kind Bool. \<open>VOther\<close> is a value of a kind that neither \<^verbatim>\<open>switch\<close> of the encoder
  lists (an unsigned integer, a float, an array): it holds the result of its \<^verbatim>\<open>String\<close>
  method, if it has one, and what \<^verbatim>\<open>xml.MarshalIndent\<close> returns for it, given the prefix
  and the indentation. No type of the schema has a map, an interface or a pointer to a
  pointer, and \<open>rvalue\<close> has no map and no interface.
\<close>

record methods =
  IsZero :: "bool option"
  Marshaler :: bool
  Stringer :: "string option"

definition no_methods :: methods where
  "no_methods = \<lparr>IsZero = None, Marshaler = False, Stringer = None\<rparr>"

datatype rvalue =
    VString string
  | VInt int
  | VBool bool
  | VPtr "rvalue option"
  | VSlice "rvalue list"
  | VStruct string methods "(string \<times> rvalue) list"
  | VOther "string option" "string \<Rightarrow> string \<Rightarrow> string + string"

subsection \<open>The ordering table\<close>

text \<open>
  \<^verbatim>\<open>ordering.Sequence\<close> is a generated \<^verbatim>\<open>map[string][]string\<close> from the name of a
  complex type to the names of its child elements in schema order. The generated file is
  not part of the sources at hand, so the table is an argument of the encoder.
\<close>

type_synonym Sequence = "string \<Rightarrow> string list option"

subsection \<open>Text escaping\<close>

text \<open>
  \<^verbatim>\<open>xml.EscapeText\<close> of the standard library: the five markup characters, tab, newline
  and carriage return are written as references; a byte sequence that is not the UTF-8
  encoding of a character of XML 1.0 is replaced by U+FFFD; all else is copied.
  \<open>utf8_width\<close> is the number of bytes of the encoding at the head of the string, and 1
  where there is none.
\<close>

definition in_range :: "char \<Rightarrow> int \<Rightarrow> int \<Rightarrow> bool" where
  "in_range c lo hi = (lo \<le> of_char c \<and> (of_char c :: int) \<le> hi)"

fun utf8_width :: "string \<Rightarrow> nat" where
  "utf8_width (b0 # b1 # b2 # b3 # rest) =
     (if in_range b0 0x00 0x7F then 1
      else if in_range b0 0xC2 0xDF \<and> in_range b1 0x80 0xBF then 2
      else if in_range b0 0xE0 0xE0 \<and> in_range b1 0xA0 0xBF \<and> in_range b2 0x80 0xBF then 3
      else if (in_range b0 0xE1 0xEC \<or> in_range b0 0xEE 0xEF)
              \<and> in_range b1 0x80 0xBF \<and> in_range b2 0x80 0xBF then 3
      else if in_range b0 0xED 0xED \<and> in_range b1 0x80 0x9F \<and> in_range b2 0x80 0xBF then 3
      else if in_range b0 0xF0 0xF0 \<and> in_range b1 0x90 0xBF \<and> in_range b2 0x80 0xBF
              \<and> in_range b3 0x80 0xBF then 4
      else if in_range b0 0xF1 0xF3 \<and> in_range b1 0x80 0xBF \<and> in_range b2 0x80 0xBF
              \<and> in_range b3 0x80 0xBF then 4
      else if in_range b0 0xF4 0xF4 \<and> in_range b1 0x80 0x8F \<and> in_range b2 0x80 0xBF
              \<and> in_range b3 0x80 0xBF then 4
      else 1)"
| "utf8_width [b0, b1, b2] =
     (if in_range b0 0x00 0x7F then 1
      else if in_range b0 0xC2 0xDF \<and> in_range b1 0x80 0xBF then 2
      else if in_range b0 0xE0 0xE0 \<and> in_range b1 0xA0 0xBF \<and> in_range b2 0x80 0xBF then 3
      else if (in_range b0 0xE1 0xEC \<or> in_range b0 0xEE 0xEF)
              \<and> in_range b1 0x80 0xBF \<and> in_range b2 0x80 0xBF then 3
      else if in_range b0 0xED 0xED \<and> in_range b1 0x80 0x9F \<and> in_range b2 0x80 0xBF then 3
      else 1)"
| "utf8_width [b0, b1] =
     (if in_range b0 0x00 0x7F then 1
      else if in_range b0 0xC2 0xDF \<and> in_range b1 0x80 0xBF then 2
      else 1)"
| "utf8_width [b0] = 1"
| "utf8_width [] = 1"

definition escFFFD :: string where
  \<comment> \<open>the UTF-8 encoding of U+FFFD\<close>
  "escFFFD = [CHR 0xEF, CHR 0xBF, CHR 0xBD]"

function EscapeText :: "string \<Rightarrow> string" where
  "EscapeText [] = []"
| "EscapeText (c # cs) =
     (let w = utf8_width (c # cs); r = take w (c # cs); rest = drop w (c # cs)
      in (if c = CHR 0x22 then ''&#34;''
          else if c = CHR 0x27 then ''&#39;''
          else if c = CHR ''&'' then ''&amp;''
          else if c = CHR ''<'' then ''&lt;''
          else if c = CHR ''>'' then ''&gt;''
          else if c = CHR 0x09 then ''&#x9;''
          else if c = CHR 0x0A then ''&#xA;''
          else if c = CHR 0x0D then ''&#xD;''
          else if in_range c 0x00 0x1F then escFFFD
          else if in_range c 0x80 0xFF \<and> w = 1 then escFFFD
          else if r = [CHR 0xEF, CHR 0xBF, CHR 0xBE] \<or> r = [CHR 0xEF, CHR 0xBF, CHR 0xBF] then escFFFD
          else r)
         @ EscapeText rest)"
  by pat_completeness auto

lemma utf8_width_pos: "0 < utf8_width s"
  by (induction s rule: utf8_width.induct) auto

termination EscapeText
  by (relation "measure length") (auto simp: utf8_width_pos Let_def)

declare EscapeText.simps [simp del]

subsection \<open>The encoder\<close>

record Encoder =
  indent :: string
  addXMLDecl :: bool

definition NewEncoder :: Encoder where
  "NewEncoder = \<lparr>indent = ''  '', addXMLDecl = True\<rparr>"

definition SetIndent :: "Encoder \<Rightarrow> string \<Rightarrow> Encoder" where
  "SetIndent e i = e\<lparr>indent := i\<rparr>"

definition SetXMLDeclaration :: "Encoder \<Rightarrow> bool \<Rightarrow> Encoder" where
  "SetXMLDeclaration e add = e\<lparr>addXMLDecl := add\<rparr>"

definition Namespace :: string where
  "Namespace = ''http://isdoc.cz/namespace/2013''"

definition nl :: string where
  "nl = [CHR 0x0A]"

definition Repeat :: "string \<Rightarrow> nat \<Rightarrow> string" where
  "Repeat s n = concat (replicate n s)"

definition Contains :: "string \<Rightarrow> string \<Rightarrow> bool" where
  "Contains s sub = list_ex (\<lambda>i. take (length sub) (drop i s) = sub) [0 ..< Suc (length s)]"

definition elemName_of :: "string \<Rightarrow> string" where
  \<comment> \<open>\<^verbatim>\<open>strings.Split(xmlTag, ",")[0]\<close>\<close>
  "elemName_of xmlTag = takeWhile (\<lambda>c. c \<noteq> CHR '','') xmlTag"

fun isZero :: "rvalue \<Rightarrow> bool" where
  "isZero (VPtr p) = (p = None)"
| "isZero (VSlice xs) = (xs = [])"
| "isZero (VString s) = (s = [])"
| "isZero (VBool b) = False"
| "isZero (VInt i) = (i = 0)"
| "isZero (VStruct tn ms fs) = (case IsZero ms of Some r \<Rightarrow> r | None \<Rightarrow> False)"
| "isZero (VOther st mar) = False"

text \<open>
  \<^verbatim>\<open>extractFields\<close> fills a \<^verbatim>\<open>map[string]reflect.Value\<close> field by field, so a later
  field replaces an earlier one of the same element name.
\<close>

fun extractFields_from ::
  "(string \<Rightarrow> rvalue option) \<Rightarrow> (string \<times> rvalue) list \<Rightarrow> (string \<Rightarrow> rvalue option)" where
  "extractFields_from fieldmap [] = fieldmap"
| "extractFields_from fieldmap ((xmlTag, v) # rest) =
     (if xmlTag = [] \<or> xmlTag = ''-'' then extractFields_from fieldmap rest
      else
        let elemName = elemName_of xmlTag
        in if take 1 elemName = ''@'' \<or> elemName = ''xmlns'' then extractFields_from fieldmap rest
           else if elemName = [] then extractFields_from fieldmap rest
           else extractFields_from (fieldmap(elemName \<mapsto> v)) rest)"

definition extractFields :: "(string \<times> rvalue) list \<Rightarrow> (string \<Rightarrow> rvalue option)" where
  "extractFields fs = extractFields_from Map.empty fs"

text \<open>
  A loop that appends to the buffer and returns at the first error. The result of the
  encoder is the error or the bytes written: \<^verbatim>\<open>Encode\<close> hands the buffer to the writer
  only when no error occurred.
\<close>

fun write_all :: "('a \<Rightarrow> go_error + string) \<Rightarrow> 'a list \<Rightarrow> go_error + string" where
  "write_all f [] = Inr []"
| "write_all f (x # xs) =
     (case f x of
        Inl err \<Rightarrow> Inl err
      | Inr out \<Rightarrow> (case write_all f xs of Inl err \<Rightarrow> Inl err | Inr rest \<Rightarrow> Inr (out @ rest)))"

lemma write_all_cong [fundef_cong]:
  "xs = ys \<Longrightarrow> (\<And>x. x \<in> set ys \<Longrightarrow> f x = g x) \<Longrightarrow> write_all f xs = write_all g ys"
  by (induction ys arbitrary: xs) (auto split: sum.splits)

definition element :: "string \<Rightarrow> string \<Rightarrow> string \<Rightarrow> string" where
  \<comment> \<open>the indentation, the start tag, the text, the end tag and a newline\<close>
  "element ind name txt = ind @ ''<'' @ name @ ''>'' @ txt @ ''</'' @ name @ ''>'' @ nl"

lemma extractFields_from_in:
  "extractFields_from fieldmap fs n = Some v \<Longrightarrow> fieldmap n = Some v \<or> v \<in> snd ` set fs"
  by (induction fieldmap fs rule: extractFields_from.induct)
     (auto simp: Let_def split: if_splits)

lemma extractFields_size:
  "extractFields fs n = Some v \<Longrightarrow> size v < Suc (size_list (size_prod (\<lambda>t. 0) size) fs)"
proof -
  assume "extractFields fs n = Some v"
  then have "v \<in> snd ` set fs"
    using extractFields_from_in [of Map.empty fs n v] by (simp add: extractFields_def)
  then obtain t where "(t, v) \<in> set fs" by auto
  then show ?thesis
    by (induction fs) auto
qed

function encodeValue :: "Encoder \<Rightarrow> Sequence \<Rightarrow> string \<Rightarrow> rvalue \<Rightarrow> nat \<Rightarrow> go_error + string" where
  "encodeValue e seq name (VPtr None) depth = Inr []"
| "encodeValue e seq name (VPtr (Some v)) depth =
     (case v of
        VPtr p \<Rightarrow>
          if isZero v then Inr []
          else Inl (Errorf ''pointer to pointer: outside the model'' [name])
      | _ \<Rightarrow> encodeValue e seq name v depth)"
| "encodeValue e seq name (VString s) depth =
     (if isZero (VString s) then Inr []
      else if s = [] then Inr []
      else Inr (element (Repeat (indent e) depth) name (EscapeText s)))"
| "encodeValue e seq name (VInt i) depth =
     (if isZero (VInt i) then Inr []
      else Inr (element (Repeat (indent e) depth) name (itoa i)))"
| "encodeValue e seq name (VBool b) depth =
     (if isZero (VBool b) then Inr []
      else Inr (element (Repeat (indent e) depth) name (if b then ''true'' else ''false'')))"
| "encodeValue e seq name (VSlice xs) depth =
     (if isZero (VSlice xs) then Inr []
      else write_all (\<lambda>x. encodeValue e seq name x depth) xs)"
| "encodeValue e seq name (VStruct typeName ms fs) depth =
     (if isZero (VStruct typeName ms fs) then Inr []
      else if Marshaler ms then
        Inr (element (Repeat (indent e) depth) name
               (case Stringer ms of Some s \<Rightarrow> EscapeText s | None \<Rightarrow> []))
      else
        (case
           (case seq typeName of
              Some order \<Rightarrow>
                write_all (\<lambda>elemName.
                    case extractFields fs elemName of
                      Some val \<Rightarrow> encodeValue e seq elemName val (depth + 1)
                    | None \<Rightarrow> Inr [])
                  order
            | None \<Rightarrow>
                write_all (\<lambda>(xmlTag, fv).
                    if xmlTag = [] \<or> xmlTag = ''-'' then Inr []
                    else if elemName_of xmlTag = [] \<or> Contains (elemName_of xmlTag) '',attr''
                    then Inr []
                    else encodeValue e seq (elemName_of xmlTag) fv (depth + 1))
                  fs)
         of
           Inl err \<Rightarrow> Inl err
         | Inr body \<Rightarrow>
             Inr (Repeat (indent e) depth @ ''<'' @ name @ ''>'' @ nl
                  @ body
                  @ Repeat (indent e) depth @ ''</'' @ name @ ''>'' @ nl)))"
| "encodeValue e seq name (VOther stringer marshal) depth =
     (if isZero (VOther stringer marshal) then Inr []
      else (case stringer of
              Some s \<Rightarrow>
                if s = [] then Inr []
                else Inr (element (Repeat (indent e) depth) name (EscapeText s))
            | None \<Rightarrow>
                (case marshal (Repeat (indent e) (depth - 1)) (indent e) of
                   Inl err \<Rightarrow> Inl (Errorf ''encoding %s: %w'' [name, err])
                 | Inr data \<Rightarrow> Inr (data @ nl))))"
  by pat_completeness auto
termination
  by (relation "measure (\<lambda>(e, seq, name, v, depth). size v)")
     (auto dest: extractFields_size simp: less_Suc_eq_le size_list_estimation')

subsection \<open>Reflection of the document model\<close>

text \<open>
  What \<^verbatim>\<open>reflect.ValueOf\<close> yields for a value of each struct of the schema: the name
  of the type and, for every field, its \<^verbatim>\<open>xml\<close> tag and its value. \<^verbatim>\<open>types.Date\<close> is
  a struct with the methods \<^verbatim>\<open>IsZero\<close>, \<^verbatim>\<open>MarshalXML\<close> and \<^verbatim>\<open>String\<close>; its one
  field, the embedded \<^verbatim>\<open>time.Time\<close>, has no tag and the encoder does not read it.
  A byte is of kind Uint8 and has no \<^verbatim>\<open>String\<close> method.
\<close>

definition reflect_Date :: "Date \<Rightarrow> rvalue" where
  "reflect_Date d =
     VStruct ''Date'' \<lparr>IsZero = Some (Date_IsZero d), Marshaler = True, Stringer = Some (Date_String d)\<rparr> []"

definition reflect_xml_Name :: "xml_Name \<Rightarrow> rvalue" where
  "reflect_xml_Name x = VStruct ''Name'' no_methods [([], VString (Space x)), ([], VString (Local x))]"

definition reflect_byte :: "char \<Rightarrow> rvalue" where
  "reflect_byte b =
     VOther None (\<lambda>prefix ind. Inr (prefix @ ''<uint8>'' @ itoa_nat (of_char b) @ ''</uint8>''))"

definition reflect_EgovClassifier :: "EgovClassifier \<Rightarrow> rvalue" where
  "reflect_EgovClassifier x = VStruct ''EgovClassifier'' no_methods
     [('',chardata'', VString (EgovClassifier.Value x))]"

definition reflect_EgovClassifiers :: "EgovClassifiers \<Rightarrow> rvalue" where
  "reflect_EgovClassifiers x = VStruct ''EgovClassifiers'' no_methods
     [(''EgovClassifier'', VSlice (map reflect_EgovClassifier (EgovClassifiers.EgovClassifier x)))]"

definition reflect_Note :: "Note \<Rightarrow> rvalue" where
  "reflect_Note x = VStruct ''Note'' no_methods
     [('',chardata'', VString (Note.Value x)),
      (''languageID,attr,omitempty'', VString (Note.LanguageID x))]"

definition reflect_Extensions :: "Extensions \<Rightarrow> rvalue" where
  "reflect_Extensions x = VStruct ''Extensions'' no_methods
     [('',innerxml'', VSlice (map reflect_byte (Extensions.Raw x)))]"

definition reflect_PartyIdentification :: "PartyIdentification \<Rightarrow> rvalue" where
  "reflect_PartyIdentification x = VStruct ''PartyIdentification'' no_methods
     [(''UserID,omitempty'', VString (PartyIdentification.UserID x)),
      (''CatalogFirmIdentification,omitempty'', VString (PartyIdentification.CatalogFirmIdentification x)),
      (''ID'', VString (PartyIdentification.ID x))]"

definition reflect_PartyName :: "PartyName \<Rightarrow> rvalue" where
  "reflect_PartyName x = VStruct ''PartyName'' no_methods
     [(''Name'', VString (PartyName.Name x))]"

definition reflect_Country :: "Country \<Rightarrow> rvalue" where
  "reflect_Country x = VStruct ''Country'' no_methods
     [(''IdentificationCode'', VString (Country.IdentificationCode x)),
      (''Name,omitempty'', VString (Country.Name x))]"

definition reflect_PostalAddress :: "PostalAddress \<Rightarrow> rvalue" where
  "reflect_PostalAddress x = VStruct ''PostalAddress'' no_methods
     [(''StreetName'', VString (PostalAddress.StreetName x)),
      (''BuildingNumber,omitempty'', VString (PostalAddress.BuildingNumber x)),
      (''CityName'', VString (PostalAddress.CityName x)),
      (''PostalZone'', VString (PostalAddress.PostalZone x)),
      (''Country'', reflect_Country (PostalAddress.Country x))]"

definition reflect_PartyTaxScheme :: "PartyTaxScheme \<Rightarrow> rvalue" where
  "reflect_PartyTaxScheme x = VStruct ''PartyTaxScheme'' no_methods
     [(''CompanyID'', VString (PartyTaxScheme.CompanyID x)),
      (''TaxScheme'', VString (PartyTaxScheme.TaxScheme x))]"

definition reflect_RegisterIdentification :: "RegisterIdentification \<Rightarrow> rvalue" where
  "reflect_RegisterIdentification x = VStruct ''RegisterIdentification'' no_methods
     [(''Preformatted,omitempty'', VString (RegisterIdentification.Preformatted x)),
      (''RegisterKeptAt,omitempty'', VString (RegisterIdentification.RegisterKeptAt x)),
      (''RegisterFileRef,omitempty'', VString (RegisterIdentification.RegisterFileRef x)),
      (''RegisterDate,omitempty'', reflect_Date (RegisterIdentification.RegisterDate x))]"

definition reflect_Contact :: "Contact \<Rightarrow> rvalue" where
  "reflect_Contact x = VStruct ''Contact'' no_methods
     [(''Name,omitempty'', VString (Contact.Name x)),
      (''Telephone,omitempty'', VString (Contact.Telephone x)),
      (''ElectronicMail,omitempty'', VString (Contact.ElectronicMail x))]"

definition reflect_Party :: "Party \<Rightarrow> rvalue" where
  "reflect_Party x = VStruct ''Party'' no_methods
     [(''PartyIdentification'', reflect_PartyIdentification (Party.PartyIdentification x)),
      (''PartyName'', reflect_PartyName (Party.PartyName x)),
      (''PostalAddress'', reflect_PostalAddress (Party.PostalAddress x)),
      (''PartyTaxScheme,omitempty'', VSlice (map reflect_PartyTaxScheme (Party.PartyTaxScheme x))),
      (''RegisterIdentification,omitempty'', VPtr (map_option reflect_RegisterIdentification (Party.RegisterIdentification x))),
      (''Contact,omitempty'', VPtr (map_option reflect_Contact (Party.Contact x)))]"

definition reflect_AccountingSupplierParty :: "AccountingSupplierParty \<Rightarrow> rvalue" where
  "reflect_AccountingSupplierParty x = VStruct ''AccountingSupplierParty'' no_methods
     [(''Party'', reflect_Party (AccountingSupplierParty.Party x))]"

definition reflect_SellerSupplierParty :: "SellerSupplierParty \<Rightarrow> rvalue" where
  "reflect_SellerSupplierParty x = VStruct ''SellerSupplierParty'' no_methods
     [(''Party'', reflect_Party (SellerSupplierParty.Party x))]"

definition reflect_AnonymousCustomerParty :: "AnonymousCustomerParty \<Rightarrow> rvalue" where
  "reflect_AnonymousCustomerParty x = VStruct ''AnonymousCustomerParty'' no_methods
     [(''ID'', VString (AnonymousCustomerParty.ID x)),
      (''IDScheme,omitempty'', VString (AnonymousCustomerParty.IDScheme x))]"

definition reflect_AccountingCustomerParty :: "AccountingCustomerParty \<Rightarrow> rvalue" where
  "reflect_AccountingCustomerParty x = VStruct ''AccountingCustomerParty'' no_methods
     [(''Party'', reflect_Party (AccountingCustomerParty.Party x))]"

definition reflect_BuyerCustomerParty :: "BuyerCustomerParty \<Rightarrow> rvalue" where
  "reflect_BuyerCustomerParty x = VStruct ''BuyerCustomerParty'' no_methods
     [(''Party'', reflect_Party (BuyerCustomerParty.Party x))]"

definition reflect_OrderReference :: "OrderReference \<Rightarrow> rvalue" where
  "reflect_OrderReference x = VStruct ''OrderReference'' no_methods
     [(''id,attr,omitempty'', VString (OrderReference.ID x)),
      (''SalesOrderID'', VString (OrderReference.SalesOrderID x)),
      (''ExternalOrderID,omitempty'', VString (OrderReference.ExternalOrderID x)),
      (''IssueDate,omitempty'', reflect_Date (OrderReference.IssueDate x)),
      (''ExternalOrderIssueDate,omitempty'', reflect_Date (OrderReference.ExternalOrderIssueDate x)),
      (''UUID,omitempty'', VString (OrderReference.UUID x)),
      (''ISDS_ID,omitempty'', VString (OrderReference.ISDS_ID x)),
      (''FileReference,omitempty'', VString (OrderReference.FileReference x)),
      (''ReferenceNumber,omitempty'', VString (OrderReference.ReferenceNumber x))]"

definition reflect_OrderReferences :: "OrderReferences \<Rightarrow> rvalue" where
  "reflect_OrderReferences x = VStruct ''OrderReferences'' no_methods
     [(''OrderReference'', VSlice (map reflect_OrderReference (OrderReferences.OrderReference x)))]"

definition reflect_DeliveryNoteReference :: "DeliveryNoteReference \<Rightarrow> rvalue" where
  "reflect_DeliveryNoteReference x = VStruct ''DeliveryNoteReference'' no_methods
     [(''id,attr,omitempty'', VString (DeliveryNoteReference.ID x)),
      (''ID'', VString (DeliveryNoteReference.DeliveryNoteID x)),
      (''IssueDate,omitempty'', reflect_Date (DeliveryNoteReference.IssueDate x)),
      (''UUID,omitempty'', VString (DeliveryNoteReference.UUID x))]"

definition reflect_DeliveryNoteReferences :: "DeliveryNoteReferences \<Rightarrow> rvalue" where
  "reflect_DeliveryNoteReferences x = VStruct ''DeliveryNoteReferences'' no_methods
     [(''DeliveryNoteReference'', VSlice (map reflect_DeliveryNoteReference (DeliveryNoteReferences.DeliveryNoteReference x)))]"

definition reflect_OriginalDocumentReference :: "OriginalDocumentReference \<Rightarrow> rvalue" where
  "reflect_OriginalDocumentReference x = VStruct ''OriginalDocumentReference'' no_methods
     [(''id,attr,omitempty'', VString (OriginalDocumentReference.ID x)),
      (''ID'', VString (OriginalDocumentReference.OriginalDocumentID x)),
      (''IssueDate,omitempty'', reflect_Date (OriginalDocumentReference.IssueDate x)),
      (''UUID,omitempty'', VString (OriginalDocumentReference.UUID x))]"

definition reflect_OriginalDocumentReferences :: "OriginalDocumentReferences \<Rightarrow> rvalue" where
  "reflect_OriginalDocumentReferences x = VStruct ''OriginalDocumentReferences'' no_methods
     [(''OriginalDocumentReference'', VSlice (map reflect_OriginalDocumentReference (OriginalDocumentReferences.OriginalDocumentReference x)))]"

definition reflect_ContractReference :: "ContractReference \<Rightarrow> rvalue" where
  "reflect_ContractReference x = VStruct ''ContractReference'' no_methods
     [(''id,attr,omitempty'', VString (ContractReference.ID x)),
      (''ID'', VString (ContractReference.ContractID x)),
      (''UUID,omitempty'', VString (ContractReference.UUID x)),
      (''IssueDate'', reflect_Date (ContractReference.IssueDate x)),
      (''LastValidDate,omitempty'', reflect_Date (ContractReference.LastValidDate x)),
      (''LastValidDateUnbounded,omitempty'', VBool (ContractReference.LastValidDateUnbounded x)),
      (''ISDS_ID,omitempty'', VString (ContractReference.ISDS_ID x)),
      (''FileReference,omitempty'', VString (ContractReference.FileReference x)),
      (''ReferenceNumber,omitempty'', VString (ContractReference.ReferenceNumber x))]"

definition reflect_ContractReferences :: "ContractReferences \<Rightarrow> rvalue" where
  "reflect_ContractReferences x = VStruct ''ContractReferences'' no_methods
     [(''ContractReference'', VSlice (map reflect_ContractReference (ContractReferences.ContractReference x)))]"

definition reflect_Delivery :: "Delivery \<Rightarrow> rvalue" where
  "reflect_Delivery x = VStruct ''Delivery'' no_methods
     [(''Party'', reflect_Party (Delivery.Party x))]"

definition reflect_OrderLineReference :: "OrderLineReference \<Rightarrow> rvalue" where
  "reflect_OrderLineReference x = VStruct ''OrderLineReference'' no_methods
     [(''ref,attr,omitempty'', VString (OrderLineReference.Ref x)),
      (''LineID,omitempty'', VString (OrderLineReference.LineID x))]"

definition reflect_DeliveryNoteLineReference :: "DeliveryNoteLineReference \<Rightarrow> rvalue" where
  "reflect_DeliveryNoteLineReference x = VStruct ''DeliveryNoteLineReference'' no_methods
     [(''ref,attr,omitempty'', VString (DeliveryNoteLineReference.Ref x)),
      (''LineID,omitempty'', VString (DeliveryNoteLineReference.LineID x))]"

definition reflect_OriginalDocumentLineReference :: "OriginalDocumentLineReference \<Rightarrow> rvalue" where
  "reflect_OriginalDocumentLineReference x = VStruct ''OriginalDocumentLineReference'' no_methods
     [(''ref,attr,omitempty'', VString (OriginalDocumentLineReference.Ref x)),
      (''LineID,omitempty'', VString (OriginalDocumentLineReference.LineID x))]"

definition reflect_ContractLineReference :: "ContractLineReference \<Rightarrow> rvalue" where
  "reflect_ContractLineReference x = VStruct ''ContractLineReference'' no_methods
     [(''ref,attr,omitempty'', VString (ContractLineReference.Ref x)),
      (''ParagraphID,omitempty'', VString (ContractLineReference.ParagraphID x))]"

definition reflect_Quantity :: "Quantity \<Rightarrow> rvalue" where
  "reflect_Quantity x = VStruct ''Quantity'' no_methods
     [('',chardata'', VString (Quantity.Value x)),
      (''unitCode,attr,omitempty'', VString (Quantity.UnitCode x))]"

definition reflect_LocalReverseCharge :: "LocalReverseCharge \<Rightarrow> rvalue" where
  "reflect_LocalReverseCharge x = VStruct ''LocalReverseCharge'' no_methods
     [(''LocalReverseChargeCode'', VString (LocalReverseCharge.LocalReverseChargeCode x)),
      (''LocalReverseChargeQuantity,omitempty'', VString (LocalReverseCharge.LocalReverseChargeQuantity x))]"

definition reflect_ClassifiedTaxCategory :: "ClassifiedTaxCategory \<Rightarrow> rvalue" where
  "reflect_ClassifiedTaxCategory x = VStruct ''ClassifiedTaxCategory'' no_methods
     [(''Percent'', VString (ClassifiedTaxCategory.Percent x)),
      (''VATCalculationMethod,omitempty'', VInt (ClassifiedTaxCategory.VATCalculationMethod x)),
      (''VATApplicable,omitempty'', VBool (ClassifiedTaxCategory.VATApplicable x)),
      (''LocalReverseCharge,omitempty'', VPtr (map_option reflect_LocalReverseCharge (ClassifiedTaxCategory.LocalReverseCharge x)))]"

definition reflect_ItemIdentification :: "ItemIdentification \<Rightarrow> rvalue" where
  "reflect_ItemIdentification x = VStruct ''ItemIdentification'' no_methods
     [(''ID'', VString (ItemIdentification.ID x))]"

definition reflect_StoreBatch :: "StoreBatch \<Rightarrow> rvalue" where
  "reflect_StoreBatch x = VStruct ''StoreBatch'' no_methods
     [(''Name,omitempty'', VString (StoreBatch.Name x)),
      (''Note,omitempty'', VString (StoreBatch.Note x)),
      (''ExpirationDate,omitempty'', reflect_Date (StoreBatch.ExpirationDate x)),
      (''Specification,omitempty'', VString (StoreBatch.Specification x)),
      (''Quantity,omitempty'', reflect_Quantity (StoreBatch.Quantity x)),
      (''BatchOrSerialNumber,omitempty'', VString (StoreBatch.BatchOrSerialNumber x)),
      (''SealSeriesID,omitempty'', VString (StoreBatch.SealSeriesID x))]"

definition reflect_StoreBatches :: "StoreBatches \<Rightarrow> rvalue" where
  "reflect_StoreBatches x = VStruct ''StoreBatches'' no_methods
     [(''StoreBatch'', VSlice (map reflect_StoreBatch (StoreBatches.StoreBatch x)))]"

definition reflect_Item :: "Item \<Rightarrow> rvalue" where
  "reflect_Item x = VStruct ''Item'' no_methods
     [(''Description'', VString (Item.Description x)),
      (''CatalogueItemIdentification,omitempty'', VPtr (map_option reflect_ItemIdentification (Item.CatalogueItemIdentification x))),
      (''SellersItemIdentification,omitempty'', VPtr (map_option reflect_ItemIdentification (Item.SellersItemIdentification x))),
      (''SecondarySellersItemIdentification,omitempty'', VPtr (map_option reflect_ItemIdentification (Item.SecondarySellersItemIdentification x))),
      (''TertiarySellersItemIdentification,omitempty'', VPtr (map_option reflect_ItemIdentification (Item.TertiarySellersItemIdentification x))),
      (''BuyersItemIdentification,omitempty'', VPtr (map_option reflect_ItemIdentification (Item.BuyersItemIdentification x))),
      (''StoreBatches,omitempty'', VPtr (map_option reflect_StoreBatches (Item.StoreBatches x)))]"

definition reflect_InvoiceLine :: "InvoiceLine \<Rightarrow> rvalue" where
  "reflect_InvoiceLine x = VStruct ''InvoiceLine'' no_methods
     [(''ID'', VString (InvoiceLine.ID x)),
      (''OrderReference,omitempty'', VPtr (map_option reflect_OrderLineReference (InvoiceLine.OrderReference x))),
      (''DeliveryNoteReference,omitempty'', VPtr (map_option reflect_DeliveryNoteLineReference (InvoiceLine.DeliveryNoteReference x))),
      (''OriginalDocumentReference,omitempty'', VPtr (map_option reflect_OriginalDocumentLineReference (InvoiceLine.OriginalDocumentReference x))),
      (''ContractReference,omitempty'', VPtr (map_option reflect_ContractLineReference (InvoiceLine.ContractReference x))),
      (''EgovClassifier,omitempty'', VString (InvoiceLine.EgovClassifier x)),
      (''InvoicedQuantity'', reflect_Quantity (InvoiceLine.InvoicedQuantity x)),
      (''LineExtensionAmountCurr,omitempty'', VString (InvoiceLine.LineExtensionAmountCurr x)),
      (''LineExtensionAmount'', VString (InvoiceLine.LineExtensionAmount x)),
      (''LineExtensionAmountBeforeDiscount,omitempty'', VString (InvoiceLine.LineExtensionAmountBeforeDiscount x)),
      (''LineExtensionAmountTaxInclusiveCurr,omitempty'', VString (InvoiceLine.LineExtensionAmountTaxInclusiveCurr x)),
      (''LineExtensionAmountTaxInclusive'', VString (InvoiceLine.LineExtensionAmountTaxInclusive x)),
      (''LineExtensionAmountTaxInclusiveBeforeDiscount,omitempty'', VString (InvoiceLine.LineExtensionAmountTaxInclusiveBeforeDiscount x)),
      (''LineExtensionTaxAmount'', VString (InvoiceLine.LineExtensionTaxAmount x)),
      (''UnitPrice'', VString (InvoiceLine.UnitPrice x)),
      (''UnitPriceTaxInclusive'', VString (InvoiceLine.UnitPriceTaxInclusive x)),
      (''ClassifiedTaxCategory'', reflect_ClassifiedTaxCategory (InvoiceLine.ClassifiedTaxCategory x)),
      (''Note,omitempty'', VString (InvoiceLine.Note x)),
      (''VATNote,omitempty'', VString (InvoiceLine.VATNote x)),
      (''Item'', reflect_Item (InvoiceLine.Item x)),
      (''Extensions,omitempty'', VPtr (map_option reflect_Extensions (InvoiceLine.Extensions x)))]"

definition reflect_InvoiceLines :: "InvoiceLines \<Rightarrow> rvalue" where
  "reflect_InvoiceLines x = VStruct ''InvoiceLines'' no_methods
     [(''InvoiceLine'', VSlice (map reflect_InvoiceLine (InvoiceLines.InvoiceLine x)))]"

definition reflect_NonTaxedDeposit :: "NonTaxedDeposit \<Rightarrow> rvalue" where
  "reflect_NonTaxedDeposit x = VStruct ''NonTaxedDeposit'' no_methods
     [(''ID'', VString (NonTaxedDeposit.ID x)),
      (''VariableSymbol,omitempty'', VString (NonTaxedDeposit.VariableSymbol x)),
      (''DepositAmountCurr,omitempty'', VString (NonTaxedDeposit.DepositAmountCurr x)),
      (''DepositAmount'', VString (NonTaxedDeposit.DepositAmount x))]"

definition reflect_NonTaxedDeposits :: "NonTaxedDeposits \<Rightarrow> rvalue" where
  "reflect_NonTaxedDeposits x = VStruct ''NonTaxedDeposits'' no_methods
     [(''NonTaxedDeposit'', VSlice (map reflect_NonTaxedDeposit (NonTaxedDeposits.NonTaxedDeposit x)))]"

definition reflect_TaxedDeposit :: "TaxedDeposit \<Rightarrow> rvalue" where
  "reflect_TaxedDeposit x = VStruct ''TaxedDeposit'' no_methods
     [(''ID'', VString (TaxedDeposit.ID x)),
      (''VariableSymbol,omitempty'', VString (TaxedDeposit.VariableSymbol x)),
      (''TaxableDepositAmountCurr,omitempty'', VString (TaxedDeposit.TaxableDepositAmountCurr x)),
      (''TaxableDepositAmount'', VString (TaxedDeposit.TaxableDepositAmount x)),
      (''TaxInclusiveDepositAmountCurr,omitempty'', VString (TaxedDeposit.TaxInclusiveDepositAmountCurr x)),
      (''TaxInclusiveDepositAmount'', VString (TaxedDeposit.TaxInclusiveDepositAmount x)),
      (''ClassifiedTaxCategory'', reflect_ClassifiedTaxCategory (TaxedDeposit.ClassifiedTaxCategory x))]"

definition reflect_TaxedDeposits :: "TaxedDeposits \<Rightarrow> rvalue" where
  "reflect_TaxedDeposits x = VStruct ''TaxedDeposits'' no_methods
     [(''TaxedDeposit'', VSlice (map reflect_TaxedDeposit (TaxedDeposits.TaxedDeposit x)))]"

definition reflect_TaxCategory :: "TaxCategory \<Rightarrow> rvalue" where
  "reflect_TaxCategory x = VStruct ''TaxCategory'' no_methods
     [(''Percent'', VString (TaxCategory.Percent x)),
      (''TaxScheme,omitempty'', VString (TaxCategory.TaxScheme x)),
      (''VATApplicable,omitempty'', VBool (TaxCategory.VATApplicable x)),
      (''LocalReverseChargeFlag,omitempty'', VBool (TaxCategory.LocalReverseChargeFlag x))]"

definition reflect_TaxSubTotal :: "TaxSubTotal \<Rightarrow> rvalue" where
  "reflect_TaxSubTotal x = VStruct ''TaxSubTotal'' no_methods
     [(''TaxableAmountCurr,omitempty'', VString (TaxSubTotal.TaxableAmountCurr x)),
      (''TaxableAmount'', VString (TaxSubTotal.TaxableAmount x)),
      (''TaxAmountCurr,omitempty'', VString (TaxSubTotal.TaxAmountCurr x)),
      (''TaxAmount'', VString (TaxSubTotal.TaxAmount x)),
      (''TaxInclusiveAmountCurr,omitempty'', VString (TaxSubTotal.TaxInclusiveAmountCurr x)),
      (''TaxInclusiveAmount'', VString (TaxSubTotal.TaxInclusiveAmount x)),
      (''AlreadyClaimedTaxableAmountCurr,omitempty'', VString (TaxSubTotal.AlreadyClaimedTaxableAmountCurr x)),
      (''AlreadyClaimedTaxableAmount,omitempty'', VString (TaxSubTotal.AlreadyClaimedTaxableAmount x)),
      (''AlreadyClaimedTaxAmountCurr,omitempty'', VString (TaxSubTotal.AlreadyClaimedTaxAmountCurr x)),
      (''AlreadyClaimedTaxAmount,omitempty'', VString (TaxSubTotal.AlreadyClaimedTaxAmount x)),
      (''AlreadyClaimedTaxInclusiveAmountCurr,omitempty'', VString (TaxSubTotal.AlreadyClaimedTaxInclusiveAmountCurr x)),
      (''AlreadyClaimedTaxInclusiveAmount,omitempty'', VString (TaxSubTotal.AlreadyClaimedTaxInclusiveAmount x)),
      (''DifferenceTaxableAmountCurr,omitempty'', VString (TaxSubTotal.DifferenceTaxableAmountCurr x)),
      (''DifferenceTaxableAmount,omitempty'', VString (TaxSubTotal.DifferenceTaxableAmount x)),
      (''DifferenceTaxAmountCurr,omitempty'', VString (TaxSubTotal.DifferenceTaxAmountCurr x)),
      (''DifferenceTaxAmount,omitempty'', VString (TaxSubTotal.DifferenceTaxAmount x)),
      (''DifferenceTaxInclusiveAmountCurr,omitempty'', VString (TaxSubTotal.DifferenceTaxInclusiveAmountCurr x)),
      (''DifferenceTaxInclusiveAmount,omitempty'', VString (TaxSubTotal.DifferenceTaxInclusiveAmount x)),
      (''TaxCategory'', reflect_TaxCategory (TaxSubTotal.TaxCategory x))]"

definition reflect_TaxTotal :: "TaxTotal \<Rightarrow> rvalue" where
  "reflect_TaxTotal x = VStruct ''TaxTotal'' no_methods
     [(''TaxSubTotal'', VSlice (map reflect_TaxSubTotal (TaxTotal.TaxSubTotal x))),
      (''TaxAmountCurr,omitempty'', VString (TaxTotal.TaxAmountCurr x)),
      (''TaxAmount'', VString (TaxTotal.TaxAmount x))]"

definition reflect_LegalMonetaryTotal :: "LegalMonetaryTotal \<Rightarrow> rvalue" where
  "reflect_LegalMonetaryTotal x = VStruct ''LegalMonetaryTotal'' no_methods
     [(''TaxExclusiveAmount'', VString (LegalMonetaryTotal.TaxExclusiveAmount x)),
      (''TaxExclusiveAmountCurr,omitempty'', VString (LegalMonetaryTotal.TaxExclusiveAmountCurr x)),
      (''TaxInclusiveAmount'', VString (LegalMonetaryTotal.TaxInclusiveAmount x)),
      (''TaxInclusiveAmountCurr,omitempty'', VString (LegalMonetaryTotal.TaxInclusiveAmountCurr x)),
      (''AlreadyClaimedTaxExclusiveAmount,omitempty'', VString (LegalMonetaryTotal.AlreadyClaimedTaxExclusiveAmount x)),
      (''AlreadyClaimedTaxExclusiveAmountCurr,omitempty'', VString (LegalMonetaryTotal.AlreadyClaimedTaxExclusiveAmountCurr x)),
      (''AlreadyClaimedTaxInclusiveAmount,omitempty'', VString (LegalMonetaryTotal.AlreadyClaimedTaxInclusiveAmount x)),
      (''AlreadyClaimedTaxInclusiveAmountCurr,omitempty'', VString (LegalMonetaryTotal.AlreadyClaimedTaxInclusiveAmountCurr x)),
      (''DifferenceTaxExclusiveAmount,omitempty'', VString (LegalMonetaryTotal.DifferenceTaxExclusiveAmount x)),
      (''DifferenceTaxExclusiveAmountCurr,omitempty'', VString (LegalMonetaryTotal.DifferenceTaxExclusiveAmountCurr x)),
      (''DifferenceTaxInclusiveAmount,omitempty'', VString (LegalMonetaryTotal.DifferenceTaxInclusiveAmount x)),
      (''DifferenceTaxInclusiveAmountCurr,omitempty'', VString (LegalMonetaryTotal.DifferenceTaxInclusiveAmountCurr x)),
      (''PayableRoundingAmount,omitempty'', VString (LegalMonetaryTotal.PayableRoundingAmount x)),
      (''PayableRoundingAmountCurr,omitempty'', VString (LegalMonetaryTotal.PayableRoundingAmountCurr x)),
      (''PaidDepositsAmount,omitempty'', VString (LegalMonetaryTotal.PaidDepositsAmount x)),
      (''PaidDepositsAmountCurr,omitempty'', VString (LegalMonetaryTotal.PaidDepositsAmountCurr x)),
      (''PayableAmount'', VString (LegalMonetaryTotal.PayableAmount x)),
      (''PayableAmountCurr,omitempty'', VString (LegalMonetaryTotal.PayableAmountCurr x))]"

definition reflect_BankAccount :: "BankAccount \<Rightarrow> rvalue" where
  "reflect_BankAccount x = VStruct ''BankAccount'' no_methods
     [(''ID'', VString (BankAccount.ID x)),
      (''BankCode,omitempty'', VString (BankAccount.BankCode x)),
      (''Name,omitempty'', VString (BankAccount.Name x)),
      (''IBAN,omitempty'', VString (BankAccount.IBAN x)),
      (''BIC,omitempty'', VString (BankAccount.BIC x))]"

definition reflect_PaymentDetails :: "PaymentDetails \<Rightarrow> rvalue" where
  "reflect_PaymentDetails x = VStruct ''PaymentDetails'' no_methods
     [(''DocumentID,omitempty'', VString (PaymentDetails.DocumentID x)),
      (''IssueDate,omitempty'', reflect_Date (PaymentDetails.IssueDate x)),
      (''PaymentDueDate,omitempty'', reflect_Date (PaymentDetails.PaymentDueDate x)),
      (''VariableSymbol,omitempty'', VString (PaymentDetails.VariableSymbol x)),
      (''ConstantSymbol,omitempty'', VString (PaymentDetails.ConstantSymbol x)),
      (''SpecificSymbol,omitempty'', VString (PaymentDetails.SpecificSymbol x)),
      (''BankAccount,omitempty'', VPtr (map_option reflect_BankAccount (PaymentDetails.BankAccount x)))]"

definition reflect_Payment :: "Payment \<Rightarrow> rvalue" where
  "reflect_Payment x = VStruct ''Payment'' no_methods
     [(''PaidAmount'', VString (Payment.PaidAmount x)),
      (''PaymentMeansCode'', VInt (Payment.PaymentMeansCode x)),
      (''Details,omitempty'', VPtr (map_option reflect_PaymentDetails (Payment.Details x)))]"

definition reflect_AlternateBankAccounts :: "AlternateBankAccounts \<Rightarrow> rvalue" where
  "reflect_AlternateBankAccounts x = VStruct ''AlternateBankAccounts'' no_methods
     [(''AlternateBankAccount'', VSlice (map reflect_BankAccount (AlternateBankAccounts.AlternateBankAccount x)))]"

definition reflect_PaymentMeans :: "PaymentMeans \<Rightarrow> rvalue" where
  "reflect_PaymentMeans x = VStruct ''PaymentMeans'' no_methods
     [(''Payment'', VSlice (map reflect_Payment (PaymentMeans.Payment x))),
      (''AlternateBankAccounts,omitempty'', VPtr (map_option reflect_AlternateBankAccounts (PaymentMeans.AlternateBankAccounts x)))]"

definition reflect_Supplement :: "Supplement \<Rightarrow> rvalue" where
  "reflect_Supplement x = VStruct ''Supplement'' no_methods
     [(''Filename'', VString (Supplement.Filename x)),
      (''DigestMethod,omitempty'', VString (Supplement.DigestMethod x)),
      (''DigestValue,omitempty'', VString (Supplement.DigestValue x)),
      (''preview,attr,omitempty'', VBool (Supplement.Preview x))]"

definition reflect_SupplementsList :: "SupplementsList \<Rightarrow> rvalue" where
  "reflect_SupplementsList x = VStruct ''SupplementsList'' no_methods
     [(''Supplement'', VSlice (map reflect_Supplement (SupplementsList.Supplement x)))]"

definition reflect_Invoice :: "Invoice \<Rightarrow> rvalue" where
  "reflect_Invoice x = VStruct ''Invoice'' no_methods
     [(''Invoice'', reflect_xml_Name (Invoice.XMLName x)),
      (''version,attr'', VString (Invoice.Version x)),
      (''DocumentType'', VInt (Invoice.DocumentType x)),
      (''SubDocumentType,omitempty'', VString (Invoice.SubDocumentType x)),
      (''SubDocumentTypeOrigin,omitempty'', VString (Invoice.SubDocumentTypeOrigin x)),
      (''TargetConsolidator,omitempty'', VString (Invoice.TargetConsolidator x)),
      (''ClientOnTargetConsolidator,omitempty'', VString (Invoice.ClientOnTargetConsolidator x)),
      (''ClientBankAccount,omitempty'', VString (Invoice.ClientBankAccount x)),
      (''ID'', VString (Invoice.ID x)),
      (''UUID'', VString (Invoice.UUID x)),
      (''EgovFlag,omitempty'', VBool (Invoice.EgovFlag x)),
      (''ISDS_ID,omitempty'', VString (Invoice.ISDS_ID x)),
      (''FileReference,omitempty'', VString (Invoice.FileReference x)),
      (''ReferenceNumber,omitempty'', VString (Invoice.ReferenceNumber x)),
      (''EgovClassifiers,omitempty'', VPtr (map_option reflect_EgovClassifiers (Invoice.EgovClassifiers x))),
      (''IssuingSystem,omitempty'', VString (Invoice.IssuingSystem x)),
      (''IssueDate'', reflect_Date (Invoice.IssueDate x)),
      (''TaxPointDate,omitempty'', reflect_Date (Invoice.TaxPointDate x)),
      (''VATApplicable'', VBool (Invoice.VATApplicable x)),
      (''ElectronicPossibilityAgreementReference'', reflect_Note (Invoice.ElectronicPossibilityAgreementReference x)),
      (''Note,omitempty'', VPtr (map_option reflect_Note (Invoice.Note x))),
      (''LocalCurrencyCode'', VString (Invoice.LocalCurrencyCode x)),
      (''ForeignCurrencyCode,omitempty'', VString (Invoice.ForeignCurrencyCode x)),
      (''CurrRate'', VString (Invoice.CurrRate x)),
      (''RefCurrRate'', VString (Invoice.RefCurrRate x)),
      (''Extensions,omitempty'', VPtr (map_option reflect_Extensions (Invoice.Extensions x))),
      (''AccountingSupplierParty'', reflect_AccountingSupplierParty (Invoice.AccountingSupplierParty x)),
      (''SellerSupplierParty,omitempty'', VPtr (map_option reflect_SellerSupplierParty (Invoice.SellerSupplierParty x))),
      (''AnonymousCustomerParty,omitempty'', VPtr (map_option reflect_AnonymousCustomerParty (Invoice.AnonymousCustomerParty x))),
      (''AccountingCustomerParty,omitempty'', VPtr (map_option reflect_AccountingCustomerParty (Invoice.AccountingCustomerParty x))),
      (''BuyerCustomerParty,omitempty'', VPtr (map_option reflect_BuyerCustomerParty (Invoice.BuyerCustomerParty x))),
      (''OrderReferences,omitempty'', VPtr (map_option reflect_OrderReferences (Invoice.OrderReferences x))),
      (''DeliveryNoteReferences,omitempty'', VPtr (map_option reflect_DeliveryNoteReferences (Invoice.DeliveryNoteReferences x))),
      (''OriginalDocumentReferences,omitempty'', VPtr (map_option reflect_OriginalDocumentReferences (Invoice.OriginalDocumentReferences x))),
      (''ContractReferences,omitempty'', VPtr (map_option reflect_ContractReferences (Invoice.ContractReferences x))),
      (''Delivery,omitempty'', VPtr (map_option reflect_Delivery (Invoice.Delivery x))),
      (''InvoiceLines'', reflect_InvoiceLines (Invoice.InvoiceLines x)),
      (''NonTaxedDeposits,omitempty'', VPtr (map_option reflect_NonTaxedDeposits (Invoice.NonTaxedDeposits x))),
      (''TaxedDeposits,omitempty'', VPtr (map_option reflect_TaxedDeposits (Invoice.TaxedDeposits x))),
      (''TaxTotal'', reflect_TaxTotal (Invoice.TaxTotal x)),
      (''LegalMonetaryTotal'', reflect_LegalMonetaryTotal (Invoice.LegalMonetaryTotal x)),
      (''PaymentMeans,omitempty'', VPtr (map_option reflect_PaymentMeans (Invoice.PaymentMeans x))),
      (''SupplementsList,omitempty'', VPtr (map_option reflect_SupplementsList (Invoice.SupplementsList x)))]"

subsection \<open>Encode and EncodeBytes\<close>

definition struct_fields :: "rvalue \<Rightarrow> (string \<times> rvalue) list" where
  "struct_fields v = (case v of VStruct typeName ms fs \<Rightarrow> fs | _ \<Rightarrow> [])"

definition encodeInvoiceContent ::
  "Encoder \<Rightarrow> Sequence \<Rightarrow> Invoice \<Rightarrow> nat \<Rightarrow> go_error + string" where
  "encodeInvoiceContent e seq inv' depth =
     (let order = (case seq ''Invoice'' of Some names \<Rightarrow> names | None \<Rightarrow> []);
          fieldmap = extractFields (struct_fields (reflect_Invoice inv'))
      in write_all (\<lambda>elemName.
             case fieldmap elemName of
               Some val \<Rightarrow> encodeValue e seq elemName val depth
             | None \<Rightarrow> Inr [])
           order)"

definition xml_declaration :: string where
  \<open>xml_declaration = ''<?xml version="1.0" encoding="UTF-8"?>''\<close>

definition Encode :: "Encoder \<Rightarrow> Sequence \<Rightarrow> Invoice \<Rightarrow> go_error + string" where
  \<open>Encode e seq inv' =
     (case encodeInvoiceContent e seq inv' 1 of
        Inl err \<Rightarrow> Inl err
      | Inr content \<Rightarrow>
          Inr ((if addXMLDecl e then xml_declaration @ nl else [])
               @ ''<Invoice xmlns="'' @ Namespace @ ''" version="'' @ Invoice.Version inv' @ ''">'' @ nl
               @ content
               @ ''</Invoice>'' @ nl))\<close>

definition EncodeBytes :: "Sequence \<Rightarrow> Invoice \<Rightarrow> go_error + string" where
  "EncodeBytes seq inv' = Encode NewEncoder seq inv'"

subsection \<open>The omission rule in words\<close>

text \<open>
  The values of the schema's fields: a string, an integer, a boolean, a date, a struct, a
  pointer to a struct and a slice of structs, where the structs that pointers and slices
  hold have no \<^verbatim>\<open>IsZero\<close> method.
\<close>

fun plain_struct :: "rvalue \<Rightarrow> bool" where
  "plain_struct (VStruct typeName ms fs) = (IsZero ms = None)"
| "plain_struct v = False"

fun schema_field :: "rvalue \<Rightarrow> bool" where
  "schema_field (VPtr p) = (case p of None \<Rightarrow> True | Some v \<Rightarrow> plain_struct v)"
| "schema_field (VSlice xs) = list_all plain_struct xs"
| "schema_field (VOther stringer marshal) = False"
| "schema_field v = True"

text \<open>
  The zero value of the type of a field: the empty string, the integer 0, the nil pointer,
  the nil or empty slice, and a scalar whose \<^verbatim>\<open>IsZero\<close> method reports true. A boolean and
  a struct without an \<^verbatim>\<open>IsZero\<close> method are never zero.
\<close>

fun zero_value :: "rvalue \<Rightarrow> bool" where
  "zero_value (VString s) = (s = [])"
| "zero_value (VInt i) = (i = 0)"
| "zero_value (VPtr p) = (p = None)"
| "zero_value (VSlice xs) = (xs = [])"
| "zero_value (VStruct typeName ms fs) = (IsZero ms = Some True)"
| "zero_value (VBool b) = False"
| "zero_value (VOther stringer marshal) = False"

subsection \<open>The reference collections in words\<close>









subsection \<open>The value of a float64\<close>




subsection \<open>The language of a regular expression\<close>



subsection \<open>Decimal numbers in words\<close>





section \<open>Example documents\<close>

text \<open>
  An invoice with one line of quantity \<open>qty\<close> in kilograms whose item has one store batch
  for each of the given quantities, as the tests of \<^verbatim>\<open>validateStoreBatches\<close> build it.
\<close>

definition batch_line :: "Decimal \<Rightarrow> Decimal list \<Rightarrow> InvoiceLine" where
  "batch_line qty batches =
     InvoiceLine_zero
       \<lparr>InvoiceLine.InvoicedQuantity := \<lparr>Quantity.Value = qty, Quantity.UnitCode = ''KGM''\<rparr>,
        InvoiceLine.Item := Item_zero
          \<lparr>Item.StoreBatches := Some \<lparr>StoreBatches.StoreBatch =
             map (\<lambda>b. StoreBatch_zero
                   \<lparr>StoreBatch.Quantity := \<lparr>Quantity.Value = b, Quantity.UnitCode = ''KGM''\<rparr>\<rparr>)
               batches\<rparr>\<rparr>\<rparr>"

definition batch_invoice :: "Decimal \<Rightarrow> Decimal list \<Rightarrow> Invoice" where
  "batch_invoice qty batches =
     Invoice_zero\<lparr>Invoice.InvoiceLines := \<lparr>InvoiceLines.InvoiceLine = [batch_line qty batches]\<rparr>\<rparr>"

text \<open>A credit note (document type 2) and an invoice (type 1), both without references.\<close>

definition credit_note :: Invoice where
  "credit_note = Invoice_zero\<lparr>Invoice.DocumentType := 2\<rparr>"

definition plain_invoice :: Invoice where
  "plain_invoice = Invoice_zero\<lparr>Invoice.DocumentType := 1\<rparr>"

text \<open>An invoice in euros whose tax-exclusive total has no amount in the foreign currency.\<close>

definition euro_invoice :: Invoice where
  "euro_invoice =
     Invoice_zero
       \<lparr>Invoice.LocalCurrencyCode := ''CZK'', Invoice.ForeignCurrencyCode := ''EUR'',
        Invoice.LegalMonetaryTotal :=
          LegalMonetaryTotal_zero\<lparr>LegalMonetaryTotal.TaxExclusiveAmount := ''100.00''\<rparr>\<rparr>"

definition strict_options :: ValidateOptions where
  "strict_options = DefaultValidateOptions\<lparr>Strict := True\<rparr>"

text \<open>
  What \<^verbatim>\<open>xml.Unmarshal\<close> does on four inputs. On the empty input it fails with
  \<^verbatim>\<open>io.EOF\<close>; on \<^verbatim>\<open><Invoice>not valid xml\<close>, the input of \<^verbatim>\<open>TestDecodeInvalidXML\<close>,
  with a syntax error; on \<^verbatim>\<open><Invoice/>\<close> it sets the name of the root and nothing
  else; on \<open>dangling_document\<close> it populates \<open>dangling_invoice\<close>, whose only line refers
  to the order \<^verbatim>\<open>o9\<close>, which the header does not declare. \<open>sample_Unmarshal\<close> is the
  table of these four results; it fails on every other input, which no proof below gives
  it.
\<close>

definition empty_invoice :: Invoice where
  "empty_invoice = Invoice_zero\<lparr>Invoice.XMLName := \<lparr>Space = [], Local = ''Invoice''\<rparr>\<rparr>"

definition dangling_document :: string where
  \<open>dangling_document =
     ''<Invoice><InvoiceLines><InvoiceLine><OrderReference ref="o9"><LineID>1</LineID>''
     @ ''</OrderReference></InvoiceLine></InvoiceLines></Invoice>''\<close>

definition dangling_invoice :: Invoice where
  "dangling_invoice =
     empty_invoice
       \<lparr>Invoice.InvoiceLines := \<lparr>InvoiceLines.InvoiceLine =
          [InvoiceLine_zero
             \<lparr>InvoiceLine.OrderReference :=
                Some \<lparr>OrderLineReference.Ref = ''o9'', OrderLineReference.LineID = ''1''\<rparr>\<rparr>]\<rparr>\<rparr>"

definition sample_Unmarshal :: "string \<Rightarrow> string + Invoice" where
  "sample_Unmarshal data =
     (if data = [] then Inl ''EOF''
      else if data = ''<Invoice>not valid xml''
      then Inl ''XML syntax error on line 1: unexpected EOF''
      else if data = ''<Invoice/>'' then Inr empty_invoice
      else if data = dangling_document then Inr dangling_invoice
      else Inl ''not one of the sample inputs'')"

text \<open>
  A sample ordering table with the entries of two types, each listing the child elements
  of the type in the order of the schema. Attributes are not child elements and are not
  listed.
\<close>

definition sample_Sequence :: Sequence where
  "sample_Sequence =
     [''Invoice'' \<mapsto>
         [''DocumentType'', ''SubDocumentType'', ''SubDocumentTypeOrigin'',
          ''TargetConsolidator'', ''ClientOnTargetConsolidator'', ''ClientBankAccount'',
          ''ID'', ''UUID'', ''EgovFlag'', ''ISDS_ID'', ''FileReference'',
          ''ReferenceNumber'', ''EgovClassifiers'', ''IssuingSystem'', ''IssueDate'',
          ''TaxPointDate'', ''VATApplicable'',
          ''ElectronicPossibilityAgreementReference'', ''Note'', ''LocalCurrencyCode'',
          ''ForeignCurrencyCode'', ''CurrRate'', ''RefCurrRate'', ''Extensions'',
          ''AccountingSupplierParty'', ''SellerSupplierParty'',
          ''AnonymousCustomerParty'', ''AccountingCustomerParty'',
          ''BuyerCustomerParty'', ''OrderReferences'', ''DeliveryNoteReferences'',
          ''OriginalDocumentReferences'', ''ContractReferences'', ''Delivery'',
          ''InvoiceLines'', ''NonTaxedDeposits'', ''TaxedDeposits'', ''TaxTotal'',
          ''LegalMonetaryTotal'', ''PaymentMeans'', ''SupplementsList''],
      ''OrderReference'' \<mapsto>
         [''SalesOrderID'', ''ExternalOrderID'', ''IssueDate'',
          ''ExternalOrderIssueDate'', ''UUID'', ''ISDS_ID'', ''FileReference'',
          ''ReferenceNumber'']]"

text \<open>
  An order reference with the \<^verbatim>\<open>id\<close> attribute \<^verbatim>\<open>o1\<close>, and an Invoice whose version
  and identifier both hold an ampersand.
\<close>

definition sample_order :: OrderReference where
  "sample_order =
     OrderReference_zero\<lparr>OrderReference.ID := ''o1'', OrderReference.SalesOrderID := ''S-1''\<rparr>"

definition amp_invoice :: Invoice where
  "amp_invoice = Invoice_zero\<lparr>Invoice.Version := ''AT&T'', Invoice.ID := ''AT&T''\<rparr>"


section \<open>Scalar constructors\<close>

lemma NewDecimal_rejects:
  "NewDecimal [] = Inl (Errorf ''invalid decimal format: %q'' [[]])"
  "NewDecimal ''12,34'' = Inl (Errorf ''invalid decimal format: %q'' [''12,34''])"
  "NewDecimal ''--1'' = Inl (Errorf ''invalid decimal format: %q'' [''--1''])"
  by code_simp+

lemma ParseDate_rejects:
  "ParseDate ''2024-1-15'' = Inl (Errorf ''invalid date format %q: expected YYYY-MM-DD'' [''2024-1-15''])"
  "ParseDate ''2024/01/15'' = Inl (Errorf ''invalid date format %q: expected YYYY-MM-DD'' [''2024/01/15''])"
  by code_simp+

lemma ParseBool_rejects:
  "ParseBool ''1'' = Inl (Errorf invalid_boolean [''1''])"
  "ParseBool ''True'' = Inl (Errorf invalid_boolean [''True''])"
  by (simp_all add: ParseBool_def)

lemma NewUUID_rejects:
  "NewUUID ''not-a-uuid'' = Inl (Errorf ''invalid UUID format: %q'' [''not-a-uuid''])"
  by code_simp

lemma unset_accepted:
  "ParseDate [] = Inr Date_zero"
  "Date_IsZero Date_zero"
  "ParseBool [] = Inr False"
  "NewUUID [] = Inr []"
  "UUID_IsZero []"
  by (simp add: ParseDate_def, simp add: Date_IsZero_def, simp add: ParseBool_def, code_simp,
      simp add: UUID_IsZero_def)

text \<open>
  Claim C7. The constructors reject the inputs of the rejection set: \<open>NewDecimal\<close> returns
  an error on the empty string, on \<^verbatim>\<open>12,34\<close> and on \<^verbatim>\<open>--1\<close>; \<open>ParseDate\<close> on
  \<^verbatim>\<open>2024-1-15\<close> and on \<^verbatim>\<open>2024/01/15\<close>; \<open>ParseBool\<close> on \<^verbatim>\<open>1\<close> and on \<^verbatim>\<open>True\<close>;
  \<open>NewUUID\<close> on \<^verbatim>\<open>not-a-uuid\<close>. On the empty string \<open>ParseDate\<close>, \<open>ParseBool\<close> and
  \<open>NewUUID\<close> succeed and return the unset value: the zero date, \<open>False\<close>, the empty UUID.
\<close>

theorem scalar_rejection_set:
  "NewDecimal [] = Inl (Errorf ''invalid decimal format: %q'' [[]])
   \<and> NewDecimal ''12,34'' = Inl (Errorf ''invalid decimal format: %q'' [''12,34''])
   \<and> NewDecimal ''--1'' = Inl (Errorf ''invalid decimal format: %q'' [''--1''])
   \<and> ParseDate ''2024-1-15''
       = Inl (Errorf ''invalid date format %q: expected YYYY-MM-DD'' [''2024-1-15''])
   \<and> ParseDate ''2024/01/15''
       = Inl (Errorf ''invalid date format %q: expected YYYY-MM-DD'' [''2024/01/15''])
   \<and> ParseBool ''1'' = Inl (Errorf invalid_boolean [''1''])
   \<and> ParseBool ''True'' = Inl (Errorf invalid_boolean [''True''])
   \<and> NewUUID ''not-a-uuid'' = Inl (Errorf ''invalid UUID format: %q'' [''not-a-uuid''])
   \<and> ParseDate [] = Inr Date_zero \<and> Date_IsZero Date_zero
   \<and> ParseBool [] = Inr False
   \<and> NewUUID [] = Inr [] \<and> UUID_IsZero []"
  by (simp only: NewDecimal_rejects ParseDate_rejects ParseBool_rejects NewUUID_rejects
        unset_accepted simp_thms)

section \<open>Rounding to float64\<close>
























section \<open>Decimal texts\<close>












lemma marks_not_digits: "\<not> is_digit CHR ''-''" "\<not> is_digit CHR ''.''"
  by (simp_all add: is_digit_def)


lemma takeWhile_digits: "list_all is_digit xs \<Longrightarrow> takeWhile is_digit (xs @ CHR ''.'' # ys) = xs"
  by (simp add: list_all_iff marks_not_digits)

lemma dropWhile_digits:
  "list_all is_digit xs \<Longrightarrow> dropWhile is_digit (xs @ CHR ''.'' # ys) = CHR ''.'' # ys"
  by (simp add: list_all_iff marks_not_digits)

lemma takeWhile_all_digits: "list_all is_digit xs \<Longrightarrow> takeWhile is_digit xs = xs"
  by (simp add: list_all_iff)

lemma dropWhile_all_digits: "list_all is_digit xs \<Longrightarrow> dropWhile is_digit xs = []"
  by (simp add: list_all_iff)

























section \<open>Validation\<close>

lemma validateStoreBatches_ignores_Tolerance:
  "validateStoreBatches inv' (opts\<lparr>Tolerance := t\<rparr>) = validateStoreBatches inv' opts"
  by (simp add: validateStoreBatches_def)

lemma batches_within_configured_tolerance:
  "map Code (validateStoreBatches (batch_invoice ''10'' [''9.999'']) DefaultValidateOptions)
     = [ErrCodeTotalMismatch]"
  by code_simp

lemma batches_beyond_configured_tolerance:
  "validateStoreBatches (batch_invoice ''1'' [''1.00005''])
     (DefaultValidateOptions\<lparr>Tolerance := ''0.00001''\<rparr>) = []"
  by code_simp

text \<open>
  Claim C1. The claim says that the batch-quantity check compares the difference between
  the sum of the batch quantities and the invoiced quantity with the \<open>Tolerance\<close> of the
  options. The code compares it with the constant \<^verbatim>\<open>0.0001\<close> and never reads the
  options' tolerance: the result is the same for every \<open>Tolerance\<close>. With the default
  tolerance \<^verbatim>\<open>0.01\<close>, a line of quantity 10 whose one batch has quantity 9.999 differs
  by 0.001, within the tolerance, and is reported with \<^verbatim>\<open>TOTAL_MISMATCH\<close>. With the
  tolerance \<^verbatim>\<open>0.00001\<close>, a line of quantity 1 whose batch has quantity 1.00005 differs
  by more than the tolerance and is not reported.
\<close>

theorem store_batch_tolerance_is_fixed:
  "validateStoreBatches inv' (opts\<lparr>Tolerance := t\<rparr>) = validateStoreBatches inv' opts
   \<and> Tolerance DefaultValidateOptions = ''0.01''
   \<and> map Code (validateStoreBatches (batch_invoice ''10'' [''9.999'']) DefaultValidateOptions)
       = [ErrCodeTotalMismatch]
   \<and> validateStoreBatches (batch_invoice ''1'' [''1.00005''])
        (DefaultValidateOptions\<lparr>Tolerance := ''0.00001''\<rparr>) = []"
proof (intro conjI)
  show "validateStoreBatches inv' (opts\<lparr>Tolerance := t\<rparr>) = validateStoreBatches inv' opts"
    by (rule validateStoreBatches_ignores_Tolerance)
  show "Tolerance DefaultValidateOptions = ''0.01''"
    by (simp add: DefaultValidateOptions_def)
  show "map Code (validateStoreBatches (batch_invoice ''10'' [''9.999'']) DefaultValidateOptions)
          = [ErrCodeTotalMismatch]"
    by (rule batches_within_configured_tolerance)
  show "validateStoreBatches (batch_invoice ''1'' [''1.00005''])
          (DefaultValidateOptions\<lparr>Tolerance := ''0.00001''\<rparr>) = []"
    by (rule batches_beyond_configured_tolerance)
qed

text \<open>
  Claim C5. For an Invoice of document type 2, 3 or 6 whose \<open>OriginalDocumentReferences\<close>
  is nil or empty, validation yields a diagnostic of severity Error for the field
  \<^verbatim>\<open>Invoice.OriginalDocumentReferences\<close>, whatever the options. For an Invoice of document
  type 1 the rule yields no diagnostic, whatever the references and the options.
\<close>

theorem original_document_rule:
  "(Invoice.DocumentType inv' \<in> {2, 3, 6}
      \<and> (case Invoice.OriginalDocumentReferences inv' of
            None \<Rightarrow> True
          | Some odr \<Rightarrow> OriginalDocumentReferences.OriginalDocumentReference odr = [])
    \<longrightarrow> (\<exists>err \<in> set (ValidateInvoiceWithOptions inv' opts).
           Field err = ''Invoice.OriginalDocumentReferences''
           \<and> Code err = ErrCodeRequiredField \<and> Severity err = SeverityError))
   \<and> (Invoice.DocumentType inv' = 1 \<longrightarrow> validateOriginalDocumentLink inv' opts = [])"
  by (auto simp: ValidateInvoiceWithOptions_def validateSemantic_def
        validateOriginalDocumentLink_def split: option.splits)

theorem original_document_rule_witness:
  "(\<exists>err \<in> set (ValidateInvoiceWithOptions credit_note DefaultValidateOptions).
      Field err = ''Invoice.OriginalDocumentReferences''
      \<and> Code err = ErrCodeRequiredField \<and> Severity err = SeverityError)
   \<and> validateOriginalDocumentLink plain_invoice strict_options = []"
  using original_document_rule [of credit_note DefaultValidateOptions]
    original_document_rule [of plain_invoice strict_options]
  by (simp add: credit_note_def plain_invoice_def Invoice_zero_def)

text \<open>
  Claim C6. For an Invoice with a foreign currency code, a tax-exclusive amount that is set
  and no tax-exclusive amount in the foreign currency, validation yields the
  \<^verbatim>\<open>REQUIRED_FIELD\<close> diagnostic for
  \<^verbatim>\<open>Invoice.LegalMonetaryTotal.TaxExclusiveAmountCurr\<close>, of severity Warning when the
  options are not strict (as the default options are) and Error when they are.
\<close>

theorem currency_pairing_rule:
  "Invoice.ForeignCurrencyCode inv' \<noteq> [] \<Longrightarrow>
   \<not> Decimal_IsZero (LegalMonetaryTotal.TaxExclusiveAmount (Invoice.LegalMonetaryTotal inv')) \<Longrightarrow>
   Decimal_IsZero (LegalMonetaryTotal.TaxExclusiveAmountCurr (Invoice.LegalMonetaryTotal inv')) \<Longrightarrow>
   \<lparr>Field = ''Invoice.LegalMonetaryTotal.TaxExclusiveAmountCurr'',
    Code = ErrCodeRequiredField,
    Severity = (if Strict opts then SeverityError else SeverityWarning),
    Msg = Text ''TaxExclusiveAmountCurr required when ForeignCurrencyCode is set''\<rparr>
     \<in> set (ValidateInvoiceWithOptions inv' opts)"
  by (simp add: ValidateInvoiceWithOptions_def validateSemantic_def
        validateCurrencyConsistency_def validateForeignCurrencyFieldsPresent_def Let_def)

theorem currency_pairing_rule_witness:
  "\<lparr>Field = ''Invoice.LegalMonetaryTotal.TaxExclusiveAmountCurr'',
    Code = ErrCodeRequiredField, Severity = SeverityWarning,
    Msg = Text ''TaxExclusiveAmountCurr required when ForeignCurrencyCode is set''\<rparr>
     \<in> set (ValidateInvoice euro_invoice)
   \<and> \<lparr>Field = ''Invoice.LegalMonetaryTotal.TaxExclusiveAmountCurr'',
      Code = ErrCodeRequiredField, Severity = SeverityError,
      Msg = Text ''TaxExclusiveAmountCurr required when ForeignCurrencyCode is set''\<rparr>
       \<in> set (ValidateInvoiceWithOptions euro_invoice strict_options)"
  using currency_pairing_rule [of euro_invoice DefaultValidateOptions]
    currency_pairing_rule [of euro_invoice strict_options]
  by (simp add: euro_invoice_def Invoice_zero_def LegalMonetaryTotal_zero_def Decimal_IsZero_def
        ValidateInvoice_def DefaultValidateOptions_def strict_options_def)

section \<open>Decoding\<close>

lemma resolve_dangling_invoice:
  "resolveReferences dangling_invoice =
     [NewDecodeError ''Invoice.InvoiceLines.InvoiceLine[0].OrderReference''
        (Errorf ''ref %q not found in header OrderReferences'' [''o9''])]"
  by code_simp

lemma resolve_empty_invoice: "resolveReferences empty_invoice = []"
  by code_simp

text \<open>
  Claim C2. \<open>DecodeBytes\<close> returns no Invoice exactly when unmarshaling the bytes fails,
  and then it returns the error of a parse failure, which wraps the error of
  \<^verbatim>\<open>xml.Unmarshal\<close>. When unmarshaling succeeds, it returns the Invoice that unmarshaling
  populated, together with the diagnostics of reference resolution if there are any, and
  no error otherwise.
\<close>

theorem decode_returns_document:
  "(fst (DecodeBytes Unmarshal data) = None \<longleftrightarrow> (\<exists>err. Unmarshal data = Inl err))
   \<and> (\<forall>err. Unmarshal data = Inl err \<longrightarrow>
         DecodeBytes Unmarshal data =
           (None, Some (ParseFailure (NewDecodeError [] (Errorf ''XML parsing: %w'' [err])))))
   \<and> (\<forall>invoice. Unmarshal data = Inr invoice \<longrightarrow>
         DecodeBytes Unmarshal data =
           (Some invoice,
            if resolveReferences invoice = [] then None
            else Some (ReferenceErrors (resolveReferences invoice))))"
  by (auto simp: DecodeBytes_def Let_def split: sum.splits)

theorem decode_returns_document_witness:
  "DecodeBytes sample_Unmarshal [] =
     (None, Some (ParseFailure (NewDecodeError [] (Errorf ''XML parsing: %w'' [''EOF'']))))
   \<and> DecodeBytes sample_Unmarshal ''<Invoice>not valid xml'' =
       (None, Some (ParseFailure (NewDecodeError []
          (Errorf ''XML parsing: %w'' [''XML syntax error on line 1: unexpected EOF'']))))
   \<and> DecodeBytes sample_Unmarshal ''<Invoice/>'' = (Some empty_invoice, None)
   \<and> DecodeBytes sample_Unmarshal dangling_document =
       (Some dangling_invoice,
        Some (ReferenceErrors
                [NewDecodeError ''Invoice.InvoiceLines.InvoiceLine[0].OrderReference''
                   (Errorf ''ref %q not found in header OrderReferences'' [''o9''])]))"
  using decode_returns_document [of sample_Unmarshal "[]"]
    decode_returns_document [of sample_Unmarshal "''<Invoice>not valid xml''"]
    decode_returns_document [of sample_Unmarshal "''<Invoice/>''"]
    decode_returns_document [of sample_Unmarshal dangling_document]
  by (simp add: sample_Unmarshal_def dangling_document_def resolve_dangling_invoice
        resolve_empty_invoice)

section \<open>Encoding\<close>

lemma extractFields_from_append:
  "extractFields_from m (fs1 @ fs2) = extractFields_from (extractFields_from m fs1) fs2"
proof (induction fs1 arbitrary: m)
  case Nil
  show ?case by simp
next
  case (Cons a fs1)
  obtain t v where a: "a = (t, v)" by (cases a)
  show ?case unfolding a by (simp add: Let_def Cons.IH del: fun_upd_apply)
qed

lemma extractFields_from_at:
  "m n = m' n \<Longrightarrow> extractFields_from m fs n = extractFields_from m' fs n"
proof (induction fs arbitrary: m m')
  case Nil
  then show ?case by simp
next
  case (Cons a fs)
  obtain t v where a: "a = (t, v)" by (cases a)
  have upd: "extractFields_from (m(k \<mapsto> v)) fs n = extractFields_from (m'(k \<mapsto> v)) fs n" for k
    by (rule Cons.IH) (simp add: Cons.prems)
  have same: "extractFields_from m fs n = extractFields_from m' fs n"
    by (rule Cons.IH) (rule Cons.prems)
  show ?case unfolding a by (simp add: Let_def upd same)
qed

lemma extractFields_without:
  assumes "n \<noteq> elemName_of xmlTag"
  shows "extractFields (fs1 @ (xmlTag, x) # fs2) n = extractFields (fs1 @ fs2) n"
proof -
  let ?m = "extractFields_from Map.empty fs1"
  have "extractFields_from ?m ((xmlTag, x) # fs2) n = extractFields_from ?m fs2 n"
  proof (cases "extractFields_from ?m ((xmlTag, x) # fs2) = extractFields_from ?m fs2")
    case True
    then show ?thesis by simp
  next
    case False
    then have "extractFields_from ?m ((xmlTag, x) # fs2)
               = extractFields_from (?m(elemName_of xmlTag \<mapsto> x)) fs2"
      by (simp add: Let_def split: if_splits)
    moreover have "extractFields_from (?m(elemName_of xmlTag \<mapsto> x)) fs2 n
                   = extractFields_from ?m fs2 n"
      by (rule extractFields_from_at) (simp add: assms)
    ultimately show ?thesis by simp
  qed
  then show ?thesis
    by (simp only: extractFields_def extractFields_from_append)
qed

lemma write_all_eq:
  "(\<And>x. x \<in> set xs \<Longrightarrow> f x = g x) \<Longrightarrow> write_all f xs = write_all g xs"
  by (rule write_all_cong) simp_all

lemma struct_field_dropped:
  assumes "seq typeName = Some order" and "elemName_of xmlTag \<notin> set order"
  shows "encodeValue e seq name (VStruct typeName ms (fs1 @ (xmlTag, x) # fs2)) depth
         = encodeValue e seq name (VStruct typeName ms (fs1 @ fs2)) depth"
proof -
  have "extractFields (fs1 @ (xmlTag, x) # fs2) n = extractFields (fs1 @ fs2) n"
    if "n \<in> set order" for n
    using that assms(2) by (intro extractFields_without) auto
  then have "write_all (\<lambda>elemName.
                 case extractFields (fs1 @ (xmlTag, x) # fs2) elemName of
                   Some val \<Rightarrow> encodeValue e seq elemName val (depth + 1)
                 | None \<Rightarrow> Inr []) order
             = write_all (\<lambda>elemName.
                 case extractFields (fs1 @ fs2) elemName of
                   Some val \<Rightarrow> encodeValue e seq elemName val (depth + 1)
                 | None \<Rightarrow> Inr []) order"
    by (intro write_all_eq) simp
  then show ?thesis
    using assms(1) by simp
qed

lemma invoice_content_listed_only:
  assumes "seq ''Invoice'' = Some order"
    and "\<forall>n \<in> set order. extractFields (struct_fields (reflect_Invoice a)) n
                          = extractFields (struct_fields (reflect_Invoice b)) n"
  shows "encodeInvoiceContent e seq a depth = encodeInvoiceContent e seq b depth"
  unfolding encodeInvoiceContent_def Let_def assms(1) option.case
  by (rule write_all_eq) (simp add: assms(2))

text \<open>
  Claim C10. For a struct whose type has an entry in the ordering table, a field whose
  element name is not in the entry is dropped: whatever the field holds, the output is
  the output for the struct without the field, and no error is raised for it. For the
  root, two Invoices that agree on the fields named in the entry of \<^verbatim>\<open>Invoice\<close> have
  the same content: the encoder writes the listed children only.
\<close>

theorem unlisted_field_dropped:
  "(seq typeName = Some order \<and> elemName_of xmlTag \<notin> set order \<longrightarrow>
      encodeValue e seq name (VStruct typeName ms (fs1 @ (xmlTag, x) # fs2)) depth
      = encodeValue e seq name (VStruct typeName ms (fs1 @ fs2)) depth)
   \<and> (seq ''Invoice'' = Some order'
       \<and> (\<forall>n \<in> set order'. extractFields (struct_fields (reflect_Invoice a)) n
                              = extractFields (struct_fields (reflect_Invoice b)) n) \<longrightarrow>
      encodeInvoiceContent e seq a depth = encodeInvoiceContent e seq b depth)"
  using struct_field_dropped invoice_content_listed_only by blast

lemma sample_order_tabulated:
  "encodeValue NewEncoder sample_Sequence ''OrderReference'' (reflect_OrderReference sample_order) 2
   = Inr ''    <OrderReference>\<newline>      <SalesOrderID>S-1</SalesOrderID>\<newline>    </OrderReference>\<newline>''"
  by code_simp

lemma sample_order_untabulated:
  "encodeValue NewEncoder Map.empty ''OrderReference'' (reflect_OrderReference sample_order) 2
   = Inr ''    <OrderReference>\<newline>      <id>o1</id>\<newline>      <SalesOrderID>S-1</SalesOrderID>\<newline>    </OrderReference>\<newline>''"
  by code_simp

lemma Invoice_fields_split:
  "struct_fields (reflect_Invoice x)
   = take 1 (struct_fields (reflect_Invoice x))
     @ (''version,attr'', VString (Invoice.Version x)) # drop 2 (struct_fields (reflect_Invoice x))"
  by (simp add: reflect_Invoice_def struct_fields_def)

lemma Invoice_fields_but_Version:
  "take 1 (struct_fields (reflect_Invoice (x\<lparr>Invoice.Version := v\<rparr>)))
   = take 1 (struct_fields (reflect_Invoice x))"
  "drop 2 (struct_fields (reflect_Invoice (x\<lparr>Invoice.Version := v\<rparr>)))
   = drop 2 (struct_fields (reflect_Invoice x))"
  by (simp_all add: reflect_Invoice_def struct_fields_def)

lemma Version_not_a_child:
  assumes "n \<noteq> ''version''"
  shows "extractFields (struct_fields (reflect_Invoice (x\<lparr>Invoice.Version := v\<rparr>))) n
         = extractFields (struct_fields (reflect_Invoice x)) n"
proof -
  have n: "n \<noteq> elemName_of ''version,attr''"
    using assms by (simp add: elemName_of_def)
  have "extractFields (struct_fields (reflect_Invoice y)) n
        = extractFields (take 1 (struct_fields (reflect_Invoice y))
                         @ drop 2 (struct_fields (reflect_Invoice y))) n" for y
    using extractFields_without [OF n] Invoice_fields_split [of y] by metis
  then show ?thesis
    by (simp only: Invoice_fields_but_Version)
qed

theorem unlisted_field_dropped_witness:
  "encodeValue NewEncoder sample_Sequence ''OrderReference'' (reflect_OrderReference sample_order) 2
   = encodeValue NewEncoder sample_Sequence ''OrderReference''
       (VStruct ''OrderReference'' no_methods
          (tl (struct_fields (reflect_OrderReference sample_order)))) 2
   \<and> encodeInvoiceContent NewEncoder sample_Sequence (amp_invoice\<lparr>Invoice.Version := ''6.0.2''\<rparr>) 1
     = encodeInvoiceContent NewEncoder sample_Sequence amp_invoice 1"
proof -
  let ?rest = "tl (struct_fields (reflect_OrderReference sample_order))"
  have order: "VStruct ''OrderReference'' no_methods ((''id,attr,omitempty'', VString ''o1'') # ?rest)
               = reflect_OrderReference sample_order"
    by (simp add: reflect_OrderReference_def sample_order_def struct_fields_def
          OrderReference_zero_def)
  have listed: "sample_Sequence ''Invoice'' = Some (the (sample_Sequence ''Invoice''))"
    "sample_Sequence ''OrderReference'' = Some (the (sample_Sequence ''OrderReference''))"
    by (simp_all add: sample_Sequence_def)
  have unlisted: "elemName_of ''id,attr,omitempty'' \<notin> set (the (sample_Sequence ''OrderReference''))"
    by (simp add: sample_Sequence_def elemName_of_def)
  have agree: "\<forall>n \<in> set (the (sample_Sequence ''Invoice'')).
      extractFields (struct_fields (reflect_Invoice (amp_invoice\<lparr>Invoice.Version := ''6.0.2''\<rparr>))) n
      = extractFields (struct_fields (reflect_Invoice amp_invoice)) n"
    by (simp add: sample_Sequence_def Version_not_a_child)
  have "encodeValue NewEncoder sample_Sequence ''OrderReference''
          (VStruct ''OrderReference'' no_methods ([] @ (''id,attr,omitempty'', VString ''o1'') # ?rest)) 2
        = encodeValue NewEncoder sample_Sequence ''OrderReference''
            (VStruct ''OrderReference'' no_methods ([] @ ?rest)) 2"
    using listed(2) unlisted
      unlisted_field_dropped [where seq = sample_Sequence and typeName = "''OrderReference''"
        and order = "the (sample_Sequence ''OrderReference'')"
        and xmlTag = "''id,attr,omitempty''" and e = NewEncoder and name = "''OrderReference''"
        and ms = no_methods and ?fs1.0 = "[]" and x = "VString ''o1''"
        and ?fs2.0 = ?rest and depth = 2]
    by blast
  then have first: "encodeValue NewEncoder sample_Sequence ''OrderReference''
          (reflect_OrderReference sample_order) 2
        = encodeValue NewEncoder sample_Sequence ''OrderReference''
            (VStruct ''OrderReference'' no_methods ?rest) 2"
    by (simp only: append_Nil order)
  have second: "encodeInvoiceContent NewEncoder sample_Sequence
          (amp_invoice\<lparr>Invoice.Version := ''6.0.2''\<rparr>) 1
        = encodeInvoiceContent NewEncoder sample_Sequence amp_invoice 1"
    using listed(1) agree
      unlisted_field_dropped [where seq = sample_Sequence and e = NewEncoder
        and order' = "the (sample_Sequence ''Invoice'')"
        and a = "amp_invoice\<lparr>Invoice.Version := ''6.0.2''\<rparr>" and b = amp_invoice
        and depth = 1]
    by blast
  show ?thesis
    using first second by (rule conjI)
qed

lemma element_not_empty: "element ind name txt \<noteq> []"
  by (simp add: element_def)

lemma write_all_empty:
  "write_all f (x # xs) = Inr [] \<Longrightarrow> f x = Inr []"
  by (auto split: sum.splits)

lemma struct_not_omitted:
  assumes "IsZero ms \<noteq> Some True"
  shows "encodeValue e seq name (VStruct typeName ms fs) depth \<noteq> Inr []"
proof -
  have nz: "\<not> isZero (VStruct typeName ms fs)"
    using assms by (cases "IsZero ms") auto
  show ?thesis
  proof (cases "Marshaler ms")
    case True
    then show ?thesis using nz by (simp add: element_not_empty)
  next
    case False
    then show ?thesis using nz by (simp split: sum.splits option.splits)
  qed
qed

lemma plain_struct_not_omitted:
  assumes "plain_struct v"
  shows "encodeValue e seq name v depth \<noteq> Inr []"
proof -
  obtain typeName ms fs where v: "v = VStruct typeName ms fs" and "IsZero ms = None"
    using assms by (cases v) auto
  then have "IsZero ms \<noteq> Some True" by simp
  then show ?thesis
    unfolding v by (rule struct_not_omitted)
qed

lemma pointer_to_struct:
  "plain_struct v \<Longrightarrow> encodeValue e seq name (VPtr (Some v)) depth = encodeValue e seq name v depth"
  by (cases v) simp_all

lemma slice_not_omitted:
  assumes "xs \<noteq> []" and "list_all plain_struct xs"
  shows "encodeValue e seq name (VSlice xs) depth \<noteq> Inr []"
proof -
  obtain y ys where xs: "xs = y # ys"
    using assms(1) by (cases xs) auto
  have "encodeValue e seq name y depth \<noteq> Inr []"
    using assms(2) xs by (simp add: plain_struct_not_omitted)
  then have "write_all (\<lambda>x. encodeValue e seq name x depth) (y # ys) \<noteq> Inr []"
    using write_all_empty [of "\<lambda>x. encodeValue e seq name x depth" y ys] by blast
  then show ?thesis
    using xs by simp
qed

lemma omitted_iff_zero:
  assumes "schema_field v"
  shows "encodeValue e seq name v depth = Inr [] \<longleftrightarrow> zero_value v"
proof (cases v)
  case (VString s)
  then show ?thesis by (simp add: element_not_empty)
next
  case (VInt i)
  then show ?thesis by (simp add: element_not_empty)
next
  case (VBool b)
  then show ?thesis by (simp add: element_not_empty)
next
  case (VPtr p)
  show ?thesis
  proof (cases p)
    case None
    then show ?thesis using VPtr by simp
  next
    case (Some w)
    then have "plain_struct w" using assms VPtr by simp
    then show ?thesis
      using VPtr Some by (simp only: pointer_to_struct) (simp add: plain_struct_not_omitted)
  qed
next
  case (VSlice xs)
  show ?thesis
  proof (cases "xs = []")
    case True
    then show ?thesis using VSlice by simp
  next
    case False
    then show ?thesis
      using VSlice assms slice_not_omitted [of xs e seq name depth] by simp
  qed
next
  case (VStruct typeName ms fs)
  show ?thesis
  proof (cases "IsZero ms = Some True")
    case True
    then show ?thesis using VStruct by simp
  next
    case False
    then show ?thesis using VStruct struct_not_omitted [of ms e seq name typeName fs depth] by simp
  qed
next
  case (VOther stringer marshal)
  then show ?thesis using assms by simp
qed

lemma write_all_append:
  "write_all f (xs @ ys) =
     (case write_all f xs of
        Inl err \<Rightarrow> Inl err
      | Inr a \<Rightarrow> (case write_all f ys of Inl err \<Rightarrow> Inl err | Inr b \<Rightarrow> Inr (a @ b)))"
  by (induction xs) (auto split: sum.splits)

lemma extractFields_nameless:
  assumes "elemName_of xmlTag = []"
  shows "extractFields (fs1 @ (xmlTag, x) # fs2) = extractFields (fs1 @ fs2)"
  using assms by (simp add: extractFields_def extractFields_from_append Let_def)

lemma nameless_field_dropped:
  assumes "elemName_of xmlTag = []"
  shows "encodeValue e seq name (VStruct typeName ms (fs1 @ (xmlTag, x) # fs2)) depth
         = encodeValue e seq name (VStruct typeName ms (fs1 @ fs2)) depth"
proof (cases "seq typeName")
  case None
  let ?f = "\<lambda>(xmlTag, fv).
      if xmlTag = [] \<or> xmlTag = ''-'' then Inr []
      else if elemName_of xmlTag = [] \<or> Contains (elemName_of xmlTag) '',attr'' then Inr []
      else encodeValue e seq (elemName_of xmlTag) fv (depth + 1)"
  have "?f (xmlTag, x) = Inr []"
    using assms by simp
  then have "write_all ?f (fs1 @ (xmlTag, x) # fs2) = write_all ?f (fs1 @ fs2)"
    by (simp add: write_all_append split: sum.splits)
  then show ?thesis
    using None by simp
next
  case (Some order)
  then show ?thesis
    by (simp add: extractFields_nameless [OF assms])
qed

text \<open>
  Claim C9, as amended. For a field value that the encoder encodes, of one of the schema's
  field types, the encoder writes nothing exactly when the value is the zero value of its
  type: the empty string, the integer 0, the nil pointer, the nil or empty slice, or a
  scalar whose \<^verbatim>\<open>IsZero\<close> method reports true; so a struct without such a method is never
  omitted. A boolean is never omitted: it is written as an element holding \<^verbatim>\<open>true\<close> or
  \<^verbatim>\<open>false\<close>. This is not so for every field of a struct: a field whose tag gives no
  element name, as the field that holds the character data of an element, is never encoded,
  and the output is that of the struct without the field, whatever the field holds.
\<close>

theorem omission_rule:
  "(schema_field v \<longrightarrow> (encodeValue e seq name v depth = Inr [] \<longleftrightarrow> zero_value v))
   \<and> encodeValue e seq name (VBool b) depth
       = Inr (Repeat (indent e) depth @ ''<'' @ name @ ''>'' @ (if b then ''true'' else ''false'')
              @ ''</'' @ name @ ''>'' @ nl)
   \<and> (elemName_of xmlTag = [] \<longrightarrow>
        encodeValue e seq name (VStruct typeName ms (fs1 @ (xmlTag, x) # fs2)) depth
        = encodeValue e seq name (VStruct typeName ms (fs1 @ fs2)) depth)"
proof (intro conjI impI)
  show "encodeValue e seq name v depth = Inr [] \<longleftrightarrow> zero_value v" if "schema_field v"
    using that by (rule omitted_iff_zero)
  show "encodeValue e seq name (VBool b) depth
        = Inr (Repeat (indent e) depth @ ''<'' @ name @ ''>'' @ (if b then ''true'' else ''false'')
               @ ''</'' @ name @ ''>'' @ nl)"
    by (simp add: element_def)
  show "encodeValue e seq name (VStruct typeName ms (fs1 @ (xmlTag, x) # fs2)) depth
        = encodeValue e seq name (VStruct typeName ms (fs1 @ fs2)) depth"
    if "elemName_of xmlTag = []"
    using that by (rule nameless_field_dropped)
qed

text \<open>
  The rule at the zero values, at a zero-valued struct without \<^verbatim>\<open>IsZero\<close> and a pointer
  to one, and at the quantity 10 of unit \<^verbatim>\<open>C62\<close>, whose number is the character data.
\<close>

theorem omission_rule_witness:
  "encodeValue NewEncoder sample_Sequence ''Note'' (VString []) 1 = Inr []
   \<and> encodeValue NewEncoder sample_Sequence ''PaymentMeansCode'' (VInt 0) 3 = Inr []
   \<and> encodeValue NewEncoder sample_Sequence ''IssueDate'' (reflect_Date Date_zero) 1 = Inr []
   \<and> encodeValue NewEncoder sample_Sequence ''Delivery'' (VPtr None) 1 = Inr []
   \<and> encodeValue NewEncoder sample_Sequence ''PartyTaxScheme'' (VSlice []) 3 = Inr []
   \<and> encodeValue NewEncoder sample_Sequence ''Country'' (reflect_Country Country_zero) 4 \<noteq> Inr []
   \<and> encodeValue NewEncoder sample_Sequence ''SellersItemIdentification''
        (VPtr (Some (reflect_ItemIdentification ItemIdentification_zero))) 4 \<noteq> Inr []
   \<and> encodeValue NewEncoder sample_Sequence ''InvoicedQuantity''
        (reflect_Quantity \<lparr>Quantity.Value = ''10'', Quantity.UnitCode = ''C62''\<rparr>) 3
      = encodeValue NewEncoder sample_Sequence ''InvoicedQuantity''
          (VStruct ''Quantity'' no_methods [(''unitCode,attr,omitempty'', VString ''C62'')]) 3"
  using omission_rule [where v = "VString []" and e = NewEncoder and seq = sample_Sequence
      and name = "''Note''" and depth = 1]
    omission_rule [where v = "VInt 0" and e = NewEncoder and seq = sample_Sequence
      and name = "''PaymentMeansCode''" and depth = 3]
    omission_rule [where v = "reflect_Date Date_zero" and e = NewEncoder and seq = sample_Sequence
      and name = "''IssueDate''" and depth = 1]
    omission_rule [where v = "VPtr None" and e = NewEncoder and seq = sample_Sequence
      and name = "''Delivery''" and depth = 1]
    omission_rule [where v = "VSlice []" and e = NewEncoder and seq = sample_Sequence
      and name = "''PartyTaxScheme''" and depth = 3]
    omission_rule [where v = "reflect_Country Country_zero" and e = NewEncoder
      and seq = sample_Sequence and name = "''Country''" and depth = 4]
    omission_rule [where v = "VPtr (Some (reflect_ItemIdentification ItemIdentification_zero))"
      and e = NewEncoder and seq = sample_Sequence and name = "''SellersItemIdentification''"
      and depth = 4]
    omission_rule [where e = NewEncoder and seq = sample_Sequence and name = "''InvoicedQuantity''"
      and depth = 3 and xmlTag = "'',chardata''" and typeName = "''Quantity''"
      and ms = no_methods and ?fs1.0 = "[]" and x = "VString ''10''"
      and ?fs2.0 = "[(''unitCode,attr,omitempty'', VString ''C62'')]"]
  by (simp add: reflect_Date_def reflect_Country_def reflect_ItemIdentification_def
        reflect_Quantity_def Date_IsZero_def no_methods_def elemName_of_def)

lemma quantity_without_number:
  "encodeValue NewEncoder Map.empty ''InvoicedQuantity''
     (reflect_Quantity \<lparr>Quantity.Value = ''10'', Quantity.UnitCode = ''C62''\<rparr>) 3
   = Inr ''      <InvoicedQuantity>\<newline>        <unitCode>C62</unitCode>\<newline>      </InvoicedQuantity>\<newline>''"
  "encodeValue NewEncoder [''Quantity'' \<mapsto> []] ''InvoicedQuantity''
     (reflect_Quantity \<lparr>Quantity.Value = ''10'', Quantity.UnitCode = ''C62''\<rparr>) 3
   = Inr ''      <InvoicedQuantity>\<newline>      </InvoicedQuantity>\<newline>''"
  by code_simp+

lemma quantity_number_dropped:
  "encodeValue e seq name (reflect_Quantity \<lparr>Quantity.Value = n, Quantity.UnitCode = u\<rparr>) depth
   = encodeValue e seq name (reflect_Quantity \<lparr>Quantity.Value = [], Quantity.UnitCode = u\<rparr>) depth"
proof -
  have tag: "elemName_of '',chardata'' = []"
    by (simp add: elemName_of_def)
  have "encodeValue e seq name
          (VStruct ''Quantity'' no_methods
             ([] @ ('',chardata'', VString s) # [(''unitCode,attr,omitempty'', VString u)])) depth
        = encodeValue e seq name
            (VStruct ''Quantity'' no_methods ([] @ [(''unitCode,attr,omitempty'', VString u)])) depth"
    for s
    by (rule nameless_field_dropped [OF tag])
  then show ?thesis
    by (simp add: reflect_Quantity_def)
qed

text \<open>
  Claim C9, as stated, fails: not every field is omitted exactly when it holds the zero
  value of its type. The number of a quantity is a field of the struct \<^verbatim>\<open>Quantity\<close>, which
  holds it as character data. The number 10 is not the empty string, and it is omitted: for
  every ordering table the output is the output for the quantity without a number. Without
  an entry for \<^verbatim>\<open>Quantity\<close> in the table the element holds the unit and no number; with
  an entry that lists no children it is empty.
\<close>

theorem omission_rule_counterexample:
  "\<not> zero_value (VString ''10'')
   \<and> (\<forall>seq. encodeValue NewEncoder seq ''InvoicedQuantity''
               (reflect_Quantity \<lparr>Quantity.Value = ''10'', Quantity.UnitCode = ''C62''\<rparr>) 3
             = encodeValue NewEncoder seq ''InvoicedQuantity''
                 (reflect_Quantity \<lparr>Quantity.Value = [], Quantity.UnitCode = ''C62''\<rparr>) 3)
   \<and> encodeValue NewEncoder Map.empty ''InvoicedQuantity''
        (reflect_Quantity \<lparr>Quantity.Value = ''10'', Quantity.UnitCode = ''C62''\<rparr>) 3
      = Inr ''      <InvoicedQuantity>\<newline>        <unitCode>C62</unitCode>\<newline>      </InvoicedQuantity>\<newline>''
   \<and> encodeValue NewEncoder [''Quantity'' \<mapsto> []] ''InvoicedQuantity''
        (reflect_Quantity \<lparr>Quantity.Value = ''10'', Quantity.UnitCode = ''C62''\<rparr>) 3
      = Inr ''      <InvoicedQuantity>\<newline>      </InvoicedQuantity>\<newline>''"
proof (intro conjI allI)
  show "\<not> zero_value (VString ''10'')"
    by simp
  show "encodeValue NewEncoder seq ''InvoicedQuantity''
          (reflect_Quantity \<lparr>Quantity.Value = ''10'', Quantity.UnitCode = ''C62''\<rparr>) 3
        = encodeValue NewEncoder seq ''InvoicedQuantity''
            (reflect_Quantity \<lparr>Quantity.Value = [], Quantity.UnitCode = ''C62''\<rparr>) 3" for seq
    by (rule quantity_number_dropped)
  show "encodeValue NewEncoder Map.empty ''InvoicedQuantity''
          (reflect_Quantity \<lparr>Quantity.Value = ''10'', Quantity.UnitCode = ''C62''\<rparr>) 3
        = Inr ''      <InvoicedQuantity>\<newline>        <unitCode>C62</unitCode>\<newline>      </InvoicedQuantity>\<newline>''"
    by (rule quantity_without_number)
  show "encodeValue NewEncoder [''Quantity'' \<mapsto> []] ''InvoicedQuantity''
          (reflect_Quantity \<lparr>Quantity.Value = ''10'', Quantity.UnitCode = ''C62''\<rparr>) 3
        = Inr ''      <InvoicedQuantity>\<newline>      </InvoicedQuantity>\<newline>''"
    by (rule quantity_without_number)
qed

lemma amp_invoice_encoded:
  \<open>EncodeBytes sample_Sequence amp_invoice =
     Inr (''<?xml version="1.0" encoding="UTF-8"?>\<newline>''
       @ ''<Invoice xmlns="http://isdoc.cz/namespace/2013" version="AT&T">\<newline>''
       @ ''  <ID>AT&amp;T</ID>\<newline>''
       @ ''  <EgovFlag>false</EgovFlag>\<newline>''
       @ ''  <VATApplicable>false</VATApplicable>\<newline>''
       @ ''  <ElectronicPossibilityAgreementReference>\<newline>''
       @ ''  </ElectronicPossibilityAgreementReference>\<newline>''
       @ ''  <AccountingSupplierParty>\<newline>''
       @ ''    <Party>\<newline>''
       @ ''      <PartyIdentification>\<newline>''
       @ ''      </PartyIdentification>\<newline>''
       @ ''      <PartyName>\<newline>''
       @ ''      </PartyName>\<newline>''
       @ ''      <PostalAddress>\<newline>''
       @ ''        <Country>\<newline>''
       @ ''        </Country>\<newline>''
       @ ''      </PostalAddress>\<newline>''
       @ ''    </Party>\<newline>''
       @ ''  </AccountingSupplierParty>\<newline>''
       @ ''  <InvoiceLines>\<newline>''
       @ ''  </InvoiceLines>\<newline>''
       @ ''  <TaxTotal>\<newline>''
       @ ''  </TaxTotal>\<newline>''
       @ ''  <LegalMonetaryTotal>\<newline>''
       @ ''  </LegalMonetaryTotal>\<newline>''
       @ ''</Invoice>\<newline>'')\<close>
  by code_simp

text \<open>
  Claim C3. The claim holds of the Invoices whose version can stand unescaped between
  double quotes. \<open>Encode\<close> writes the text of every element through
  \<^verbatim>\<open>xml.EscapeText\<close>, and writes the \<^verbatim>\<open>version\<close> attribute of the root as it is: the
  bytes it returns start with the declaration, if asked for, and the start tag of the root
  with the version copied into it. For the Invoice decoded from a document whose root has
  \<^verbatim>\<open>version="AT&amp;T"\<close> and whose \<^verbatim>\<open>ID\<close> holds the same text, the identifier is
  written as \<^verbatim>\<open>AT&amp;T\<close> and the attribute as \<^verbatim>\<open>version="AT&T"\<close>, which is not
  well-formed XML, so decoding the encoded bytes fails.
\<close>

theorem version_attribute_not_escaped:
  \<open>(case Encode e seq inv' of
      Inl err \<Rightarrow> True
    | Inr out \<Rightarrow>
        (\<exists>content. out = (if addXMLDecl e then xml_declaration @ nl else [])
            @ ''<Invoice xmlns="http://isdoc.cz/namespace/2013" version="'' @ Invoice.Version inv'
            @ ''">'' @ nl @ content @ ''</Invoice>'' @ nl))
   \<and> EncodeBytes sample_Sequence amp_invoice =
     Inr (''<?xml version="1.0" encoding="UTF-8"?>\<newline>''
       @ ''<Invoice xmlns="http://isdoc.cz/namespace/2013" version="AT&T">\<newline>''
       @ ''  <ID>AT&amp;T</ID>\<newline>''
       @ ''  <EgovFlag>false</EgovFlag>\<newline>''
       @ ''  <VATApplicable>false</VATApplicable>\<newline>''
       @ ''  <ElectronicPossibilityAgreementReference>\<newline>''
       @ ''  </ElectronicPossibilityAgreementReference>\<newline>''
       @ ''  <AccountingSupplierParty>\<newline>''
       @ ''    <Party>\<newline>''
       @ ''      <PartyIdentification>\<newline>''
       @ ''      </PartyIdentification>\<newline>''
       @ ''      <PartyName>\<newline>''
       @ ''      </PartyName>\<newline>''
       @ ''      <PostalAddress>\<newline>''
       @ ''        <Country>\<newline>''
       @ ''        </Country>\<newline>''
       @ ''      </PostalAddress>\<newline>''
       @ ''    </Party>\<newline>''
       @ ''  </AccountingSupplierParty>\<newline>''
       @ ''  <InvoiceLines>\<newline>''
       @ ''  </InvoiceLines>\<newline>''
       @ ''  <TaxTotal>\<newline>''
       @ ''  </TaxTotal>\<newline>''
       @ ''  <LegalMonetaryTotal>\<newline>''
       @ ''  </LegalMonetaryTotal>\<newline>''
       @ ''</Invoice>\<newline>'')\<close>
proof (rule conjI)
  show \<open>case Encode e seq inv' of
      Inl err \<Rightarrow> True
    | Inr out \<Rightarrow>
        (\<exists>content. out = (if addXMLDecl e then xml_declaration @ nl else [])
            @ ''<Invoice xmlns="http://isdoc.cz/namespace/2013" version="'' @ Invoice.Version inv'
            @ ''">'' @ nl @ content @ ''</Invoice>'' @ nl)\<close>
    by (simp add: Encode_def Namespace_def split: sum.splits)
qed (rule amp_invoice_encoded)

section \<open>Reference resolution\<close>

































end
